theory Spec2Isabelle
  imports Main
begin

section \<open>The installer of src/lib/install.js\<close>

text \<open>
  The module installs the Learn agent file for two platforms, OpenCode and GitHub
  Copilot. It talks to three things outside itself: the file system, the terminal
  (prompts and log lines) and the helpers of \<^verbatim>\<open>./utils.js\<close>. The embedding makes
  each of them explicit:
  \<^item> the file system and the terminal output are a \<open>world\<close> that every operation
    takes and returns;
  \<^item> the person at the terminal is a function from prompt sites to replies;
  \<^item> the constants and helpers imported from \<^verbatim>\<open>./utils.js\<close> are the fields of a
    \<open>config\<close> value that every function takes, so a theorem holds for every
    choice of them.
\<close>

subsection \<open>JavaScript values\<close>

text \<open>
  The CLI options object. \<^verbatim>\<open>model\<close> and \<^verbatim>\<open>color\<close> are a string or undefined
  (\<open>None\<close>); \<^verbatim>\<open>tui\<close> is a boolean or undefined, and only the value \<^verbatim>\<open>false\<close>
  switches the prompts off. The three platform flags are read for their truthiness
  only, so undefined and \<^verbatim>\<open>false\<close> are both \<open>False\<close>.
\<close>

record options =
  all :: bool
  opencode :: bool
  copilot :: bool
  model :: "string option"
  color :: "string option"
  tui :: "bool option"

text \<open>Truthiness of a string-or-undefined value: undefined and the empty string are falsy.\<close>

definition truthy :: "string option \<Rightarrow> bool" where
  "truthy v = (case v of None \<Rightarrow> False | Some s \<Rightarrow> s \<noteq> [])"

text \<open>\<^verbatim>\<open>v || d\<close> on a string-or-undefined value.\<close>

definition or_else :: "string option \<Rightarrow> string \<Rightarrow> string" where
  "or_else v d = (case v of None \<Rightarrow> d | Some s \<Rightarrow> if s \<noteq> [] then s else d)"

subsection \<open>File contents: bytes and text\<close>

text \<open>
  A file holds bytes. The module reads and writes with the encoding \<^verbatim>\<open>'utf-8'\<close>
  (lines 162, 176, 214 and 217), so what it handles is text: reading decodes the
  bytes, and decoding puts U+FFFD in place of every ill-formed subsequence; writing
  encodes the text. \<open>utf8_repair\<close> is the effect of decoding seen on the bytes: a
  well-formed sequence (Unicode, table 3-7: no overlong form, no surrogate, nothing
  above U+10FFFF) is kept, and each maximal ill-formed subsequence becomes the three
  bytes \<^verbatim>\<open>EF BF BD\<close> of U+FFFD. A byte order mark is kept, as Node keeps it.
\<close>

definition continuation :: "char \<Rightarrow> bool" where
  "continuation b = (0x80 \<le> (of_char b :: nat) \<and> (of_char b :: nat) \<le> 0xBF)"

text \<open>The second byte of a three-byte sequence, which depends on the first.\<close>

definition second_of3 :: "char \<Rightarrow> char \<Rightarrow> bool" where
  "second_of3 b0 b1 =
     (let l = (of_char b0 :: nat); s = (of_char b1 :: nat) in
      if l = 0xE0 then 0xA0 \<le> s \<and> s \<le> 0xBF
      else if l = 0xED then 0x80 \<le> s \<and> s \<le> 0x9F
      else 0x80 \<le> s \<and> s \<le> 0xBF)"

text \<open>The second byte of a four-byte sequence.\<close>

definition second_of4 :: "char \<Rightarrow> char \<Rightarrow> bool" where
  "second_of4 b0 b1 =
     (let l = (of_char b0 :: nat); s = (of_char b1 :: nat) in
      if l = 0xF0 then 0x90 \<le> s \<and> s \<le> 0xBF
      else if l = 0xF4 then 0x80 \<le> s \<and> s \<le> 0x8F
      else 0x80 \<le> s \<and> s \<le> 0xBF)"

text \<open>U+FFFD in UTF-8.\<close>

definition replacement :: "char list" where
  "replacement = [CHR 0xEF, CHR 0xBF, CHR 0xBD]"

fun utf8_repair :: "char list \<Rightarrow> char list" where
  "utf8_repair [] = []"
| "utf8_repair (b0 # bs) =
     (let l = (of_char b0 :: nat) in
      if l < 0x80 then b0 # utf8_repair bs
      else if 0xC2 \<le> l \<and> l \<le> 0xDF then
        (case bs of
           [] \<Rightarrow> replacement
         | b1 # r1 \<Rightarrow>
             if continuation b1 then b0 # b1 # utf8_repair r1
             else replacement @ utf8_repair bs)
      else if 0xE0 \<le> l \<and> l \<le> 0xEF then
        (case bs of
           [] \<Rightarrow> replacement
         | b1 # r1 \<Rightarrow>
             if second_of3 b0 b1 then
               (case r1 of
                  [] \<Rightarrow> replacement
                | b2 # r2 \<Rightarrow>
                    if continuation b2 then b0 # b1 # b2 # utf8_repair r2
                    else replacement @ utf8_repair r1)
             else replacement @ utf8_repair bs)
      else if 0xF0 \<le> l \<and> l \<le> 0xF4 then
        (case bs of
           [] \<Rightarrow> replacement
         | b1 # r1 \<Rightarrow>
             if second_of4 b0 b1 then
               (case r1 of
                  [] \<Rightarrow> replacement
                | b2 # r2 \<Rightarrow>
                    if continuation b2 then
                      (case r2 of
                         [] \<Rightarrow> replacement
                       | b3 # r3 \<Rightarrow>
                           if continuation b3 then b0 # b1 # b2 # b3 # utf8_repair r3
                           else replacement @ utf8_repair r2)
                    else replacement @ utf8_repair r1)
             else replacement @ utf8_repair bs)
      else replacement @ utf8_repair bs)"

text \<open>
  The text of a file, as JavaScript has it after decoding, is kept in its UTF-8 form:
  a \<open>jsstring\<close> is a byte sequence that decoding leaves as it is. These are the strings
  that decoding can give and that encoding gives back unchanged. A JavaScript string
  with an unpaired surrogate is not among them: no read produces one, and
  \<^verbatim>\<open>updateFrontmatter\<close> is taken to return none. The option values and the keys and
  values of the updates are plain strings, compared and concatenated only.
\<close>

typedef jsstring = "{b :: char list. utf8_repair b = b}"
  by (rule exI [of _ "[]"]) simp

definition decode_utf8 :: "char list \<Rightarrow> jsstring" where
  "decode_utf8 b = Abs_jsstring (utf8_repair b)"

definition encode_utf8 :: "jsstring \<Rightarrow> char list" where
  "encode_utf8 s = Rep_jsstring s"

subsection \<open>Paths and the file tree\<close>

text \<open>
  A path is the list of its components below the root of the file system, and a
  directory maps names to its entries. Symbolic links, permissions and device errors
  are outside the model; what is in it is what the calls of the module depend on:
  whether a path exists, whether it is a regular file or a directory, and whether a
  regular file stands where a directory is needed.
\<close>

type_synonym path = "string list"

datatype node = File "char list" | Dir "string \<Rightarrow> node option"

text \<open>The path as the messages show it.\<close>

definition path_string :: "path \<Rightarrow> string" where
  "path_string p = (if p = [] then ''/'' else concat (map (\<lambda>s. CHR ''/'' # s) p))"

fun lookup :: "node \<Rightarrow> path \<Rightarrow> node option" where
  "lookup n [] = Some n"
| "lookup (File b) (s # p) = None"
| "lookup (Dir children) (s # p) =
     (case children s of None \<Rightarrow> None | Some n \<Rightarrow> lookup n p)"

text \<open>A regular file stands at a proper prefix of the path.\<close>

fun blocked :: "node \<Rightarrow> path \<Rightarrow> bool" where
  "blocked n [] = False"
| "blocked (File b) (s # p) = True"
| "blocked (Dir children) (s # p) =
     (case children s of None \<Rightarrow> False | Some n \<Rightarrow> blocked n p)"

text \<open>
  \<^verbatim>\<open>mkdir\<close> with \<^verbatim>\<open>{ recursive: true }\<close>: the missing directories of the path are
  created, parents first; an existing directory is accepted; a regular file on the
  way is \<^verbatim>\<open>ENOTDIR\<close>, and a regular file at the path itself \<^verbatim>\<open>EEXIST\<close>. The result is
  the tree after the call.
\<close>

fun mkdirp :: "node \<Rightarrow> path \<Rightarrow> string + node" where
  "mkdirp (File b) [] = Inl ''EEXIST''"
| "mkdirp (Dir children) [] = Inr (Dir children)"
| "mkdirp (File b) (s # p) = Inl ''ENOTDIR''"
| "mkdirp (Dir children) (s # p) =
     (case mkdirp (case children s of None \<Rightarrow> Dir Map.empty | Some n \<Rightarrow> n) p of
        Inl e \<Rightarrow> Inl e
      | Inr n' \<Rightarrow> Inr (Dir (children(s \<mapsto> n'))))"

text \<open>
  Writing a whole file: the file is replaced, or created in a directory that exists.
  A directory at the path is \<^verbatim>\<open>EISDIR\<close>, a missing parent \<^verbatim>\<open>ENOENT\<close>, a regular
  file on the way \<^verbatim>\<open>ENOTDIR\<close>.
\<close>

fun write_at :: "node \<Rightarrow> path \<Rightarrow> char list \<Rightarrow> string + node" where
  "write_at (File old) [] b = Inr (File b)"
| "write_at (Dir children) [] b = Inl ''EISDIR''"
| "write_at (File old) (s # p) b = Inl ''ENOTDIR''"
| "write_at (Dir children) (s # p) b =
     (case children s of
        None \<Rightarrow> if p = [] then Inr (Dir (children(s \<mapsto> File b))) else Inl ''ENOENT''
      | Some n \<Rightarrow>
          (case write_at n p b of
             Inl e \<Rightarrow> Inl e
           | Inr n' \<Rightarrow> Inr (Dir (children(s \<mapsto> n')))))"

subsection \<open>What is imported from utils.js\<close>

text \<open>
  \<^verbatim>\<open>./utils.js\<close> is not part of the sources at hand, so its exports are parameters.
  A menu (\<^verbatim>\<open>MODEL_OPTIONS\<close>, \<^verbatim>\<open>COLOR_OPTIONS\<close>, \<^verbatim>\<open>PLATFORM_OPTIONS\<close>) is kept as the
  list of its options' \<^verbatim>\<open>value\<close> fields: labels and hints are display only.
  \<open>updateFrontmatter\<close> returns \<open>Inl e\<close> when it raises \<open>e\<close>. \<open>dirname\<close> is the
  directory of the module, \<^verbatim>\<open>__dirname\<close> of lines 20-21.

  Of the five path constants, \<^verbatim>\<open>OPENCODE_CONFIG_DIR\<close> and \<^verbatim>\<open>COPILOT_AGENTS_DIR\<close> are
  fields. The other three are defined just below, from these two and the relative
  paths \<open>agentsSubdir\<close>, \<open>openCodeAgentFile\<close> and \<open>copilotAgentFile\<close>.
\<close>

record config =
  OPENCODE_CONFIG_DIR :: path
  agentsSubdir :: path
  openCodeAgentFile :: path
  COPILOT_AGENTS_DIR :: path
  copilotAgentFile :: path
  DEFAULT_COLOR :: string
  COLOR_OPTIONS :: "string list"
  MODEL_OPTIONS :: "string list"
  PLATFORM_OPTIONS :: "string list"
  isValidHexColor :: "string \<Rightarrow> bool"
  updateFrontmatter :: "jsstring \<Rightarrow> (string \<times> string) list \<Rightarrow> string + jsstring"
  dirname :: path

text \<open>
  Modelled from the spec: \<^verbatim>\<open>OPENCODE_AGENTS_DIR\<close> of \<^verbatim>\<open>./utils.js\<close>, which is not among
  the sources. Section 6: each target file path is nested under a fixed
  config-root/agents-subdirectory pair; the agents directory lies below the config
  directory.
\<close>

definition OPENCODE_AGENTS_DIR :: "config \<Rightarrow> path" where
  "OPENCODE_AGENTS_DIR cfg = OPENCODE_CONFIG_DIR cfg @ agentsSubdir cfg"

text \<open>
  Modelled from the spec: \<^verbatim>\<open>OPENCODE_LEARN_AGENT_PATH\<close> of \<^verbatim>\<open>./utils.js\<close>, which is not
  among the sources. Section 6: the target file lies below the agents directory.
\<close>

definition OPENCODE_LEARN_AGENT_PATH :: "config \<Rightarrow> path" where
  "OPENCODE_LEARN_AGENT_PATH cfg = OPENCODE_AGENTS_DIR cfg @ openCodeAgentFile cfg"

text \<open>
  Modelled from the spec: \<^verbatim>\<open>COPILOT_LEARN_AGENT_PATH\<close> of \<^verbatim>\<open>./utils.js\<close>, which is not
  among the sources. Section 6: the target file lies below the agents directory.
\<close>

definition COPILOT_LEARN_AGENT_PATH :: "config \<Rightarrow> path" where
  "COPILOT_LEARN_AGENT_PATH cfg = COPILOT_AGENTS_DIR cfg @ copilotAgentFile cfg"

text \<open>
  Lines 26-35. \<^verbatim>\<open>join(__dirname, '..', 'agents', name)\<close>: the \<^verbatim>\<open>..\<close> takes the last
  component of the module directory away (and leaves the root as it is).
\<close>

definition getOpenCodeTemplatePath :: "config \<Rightarrow> path" where
  "getOpenCodeTemplatePath cfg = butlast (dirname cfg) @ [''agents'', ''learn.md'']"

definition getCopilotTemplatePath :: "config \<Rightarrow> path" where
  "getCopilotTemplatePath cfg = butlast (dirname cfg) @ [''agents'', ''learn.copilot.md'']"

subsection \<open>The world: files, directories and what the terminal showed\<close>

text \<open>The prompts of the module, one constructor per call site.\<close>

datatype site =
    OverwriteOpenCode
  | ModelChoice
  | CustomModel
  | ColorChoice
  | CustomColor
  | OverwriteCopilot
  | PlatformChoice

text \<open>
  Everything the module does that can be observed, in the order it happens. The
  picocolors styling of the messages is left out. \<open>Mkdir\<close> and \<open>WriteFile\<close> are calls
  that returned; \<open>MergeCall\<close> is a call of \<^verbatim>\<open>updateFrontmatter\<close>, whether it returns
  or raises.
\<close>

datatype event =
    Intro string
  | LogInfo string
  | LogWarning string
  | LogError string
  | Mkdir path
  | Asked site
  | MergeCall jsstring "(string \<times> string) list"
  | WriteFile path jsstring
  | SpinnerStart string
  | SpinnerStop string
  | Note string string
  | Outro string
  | CancelMessage string

record world =
  root :: node
  trace :: "event list"

text \<open>The bytes of the regular files of a world, and their text as a read gives it.\<close>

definition bytes :: "world \<Rightarrow> path \<rightharpoonup> char list" where
  "bytes w p = (case lookup (root w) p of
                  Some (File b) \<Rightarrow> Some b | Some (Dir d) \<Rightarrow> None | None \<Rightarrow> None)"

definition files :: "world \<Rightarrow> path \<rightharpoonup> jsstring" where
  "files w p = map_option decode_utf8 (bytes w p)"

text \<open>
  A call returns a value, throws, ends the process (\<^verbatim>\<open>process.exit\<close>), or never gets
  past a prompt.
\<close>

datatype 'a outcome = Returned 'a | Threw string | Exited nat | Waiting site

type_synonym 'a action = "world \<Rightarrow> 'a outcome \<times> world"

definition ret :: "'a \<Rightarrow> 'a action" where
  "ret a w = (Returned a, w)"

text \<open>Sequencing: the second step runs only when the first has returned.\<close>

definition andThen :: "'a action \<Rightarrow> ('a \<Rightarrow> 'b action) \<Rightarrow> 'b action" where
  "andThen m f w =
     (case m w of
        (Returned a, w') \<Rightarrow> f a w'
      | (Threw e, w') \<Rightarrow> (Threw e, w')
      | (Exited n, w') \<Rightarrow> (Exited n, w')
      | (Waiting s, w') \<Rightarrow> (Waiting s, w'))"

definition emit :: "event \<Rightarrow> unit action" where
  "emit e w = (Returned (), w\<lparr>trace := trace w @ [e]\<rparr>)"

text \<open>The events a run added to the trace.\<close>

definition events_since :: "world \<Rightarrow> world \<Rightarrow> event list" where
  "events_since w w' = drop (length (trace w)) (trace w')"

subsubsection \<open>fs\<close>

text \<open>
  The four calls of \<^verbatim>\<open>fs\<close> that the module makes. A call that throws leaves the
  world as it was. \<open>mkdirSync\<close> is the call with \<^verbatim>\<open>{ recursive: true }\<close>;
  \<open>readFileSync\<close> and \<open>writeFileSync\<close> are the calls with the encoding \<^verbatim>\<open>'utf-8'\<close>.
\<close>

definition existsSync :: "path \<Rightarrow> world \<Rightarrow> bool" where
  "existsSync p w = (lookup (root w) p \<noteq> None)"

definition exists_sync :: "path \<Rightarrow> bool action" where
  "exists_sync p w = (Returned (existsSync p w), w)"

definition mkdirSync :: "path \<Rightarrow> unit action" where
  "mkdirSync p w =
     (case mkdirp (root w) p of
        Inl e \<Rightarrow> (Threw e, w)
      | Inr n' \<Rightarrow> (Returned (), w\<lparr>root := n', trace := trace w @ [Mkdir p]\<rparr>))"

definition readFileSync :: "path \<Rightarrow> jsstring action" where
  "readFileSync p w =
     (case lookup (root w) p of
        Some (File b) \<Rightarrow> (Returned (decode_utf8 b), w)
      | Some (Dir d) \<Rightarrow> (Threw ''EISDIR'', w)
      | None \<Rightarrow> (Threw (if blocked (root w) p then ''ENOTDIR'' else ''ENOENT''), w))"

definition writeFileSync :: "path \<Rightarrow> jsstring \<Rightarrow> unit action" where
  "writeFileSync p c w =
     (case write_at (root w) p (encode_utf8 c) of
        Inl e \<Rightarrow> (Threw e, w)
      | Inr n' \<Rightarrow> (Returned (), w\<lparr>root := n', trace := trace w @ [WriteFile p c]\<rparr>))"

subsubsection \<open>@clack/prompts\<close>

text \<open>
  What the person at the terminal does at a prompt: cancel it, answer yes or no, or
  submit a string (a menu value or typed text). A prompt hands back the cancel symbol
  or a value it accepts: a confirmation a boolean, a menu one of the values it offers,
  a text prompt a string its validator passes (the validator returns \<open>None\<close> for
  \<^verbatim>\<open>undefined\<close>, and the error message otherwise). A reply a prompt does not accept
  is never submitted, and the prompt keeps waiting.
\<close>

datatype reply = Cancels | Says bool | Submits string

type_synonym user = "site \<Rightarrow> reply"

datatype 'a answer = Cancel | Value 'a

definition p_confirm :: "user \<Rightarrow> site \<Rightarrow> bool answer action" where
  "p_confirm usr s w =
     (let w' = w\<lparr>trace := trace w @ [Asked s]\<rparr> in
      case usr s of
        Cancels \<Rightarrow> (Returned Cancel, w')
      | Says b \<Rightarrow> (Returned (Value b), w')
      | Submits v \<Rightarrow> (Waiting s, w'))"

definition p_select :: "user \<Rightarrow> site \<Rightarrow> string list \<Rightarrow> string answer action" where
  "p_select usr s opts w =
     (let w' = w\<lparr>trace := trace w @ [Asked s]\<rparr> in
      case usr s of
        Cancels \<Rightarrow> (Returned Cancel, w')
      | Says b \<Rightarrow> (Waiting s, w')
      | Submits v \<Rightarrow> if v \<in> set opts then (Returned (Value v), w') else (Waiting s, w'))"

definition p_text :: "user \<Rightarrow> site \<Rightarrow> (string \<Rightarrow> string option) \<Rightarrow> string answer action" where
  "p_text usr s validate w =
     (let w' = w\<lparr>trace := trace w @ [Asked s]\<rparr> in
      case usr s of
        Cancels \<Rightarrow> (Returned Cancel, w')
      | Says b \<Rightarrow> (Waiting s, w')
      | Submits v \<Rightarrow> if validate v = None then (Returned (Value v), w') else (Waiting s, w'))"

subsection \<open>installOpenCode\<close>

text \<open>
  The \<^verbatim>\<open>validate\<close> callback of the custom model prompt (lines 95-99). An empty
  entry, \<^verbatim>\<open>undefined\<close> or \<^verbatim>\<open>''\<close>, is the empty string; \<^verbatim>\<open>value.includes('/')\<close> is
  membership of the character.
\<close>

definition validate_model :: "string \<Rightarrow> string option" where
  "validate_model v =
     (if v = [] then None
      else if CHR ''/'' \<notin> set v then Some ''Model should be in format: provider/model-name''
      else None)"

text \<open>The \<^verbatim>\<open>validate\<close> callback of the custom color prompt (lines 135-139).\<close>

definition validate_color :: "config \<Rightarrow> string \<Rightarrow> string option" where
  "validate_color cfg v =
     (if v = [] then Some ''Color is required''
      else if \<not> isValidHexColor cfg v then Some ''Invalid hex color format. Use #RRGGBB''
      else None)"

text \<open>
  Lines 44-53: the config directory and the agents directory are created when they
  do not exist.
\<close>

definition ensureOpenCodeDirs :: "config \<Rightarrow> unit action" where
  "ensureOpenCodeDirs cfg =
     andThen (exists_sync (OPENCODE_CONFIG_DIR cfg)) (\<lambda>there.
     andThen (if \<not> there
              then andThen (emit (LogInfo ''Creating OpenCode config directory...'')) (\<lambda>_.
                   mkdirSync (OPENCODE_CONFIG_DIR cfg))
              else ret ()) (\<lambda>_.
     andThen (exists_sync (OPENCODE_AGENTS_DIR cfg)) (\<lambda>there.
     if \<not> there then mkdirSync (OPENCODE_AGENTS_DIR cfg) else ret ())))"

text \<open>
  Lines 56-70 (OpenCode) and 191-205 (Copilot) are the same code up to the path, the
  prompt and the two messages. The result is \<open>False\<close> where the source returns
  \<^verbatim>\<open>false\<close> from the installer.
\<close>

definition checkExisting ::
  "user \<Rightarrow> bool \<Rightarrow> path \<Rightarrow> site \<Rightarrow> string \<Rightarrow> string \<Rightarrow> bool action" where
  "checkExisting usr isInteractive target s skipping overwriting =
     andThen (exists_sync target) (\<lambda>there.
     if there then
       (if isInteractive then
          andThen (p_confirm usr s) (\<lambda>overwrite.
          if overwrite = Cancel \<or> overwrite = Value False
          then andThen (emit (LogWarning skipping)) (\<lambda>_. ret False)
          else ret True)
        else andThen (emit (LogWarning overwriting)) (\<lambda>_. ret True))
     else ret True)"

text \<open>
  Lines 72-110: the model. \<open>None\<close> is the \<^verbatim>\<open>return false\<close> of a cancelled
  prompt; otherwise the result is the final \<^verbatim>\<open>selectedModel\<close> (\<^verbatim>\<open>customModel || ''\<close>
  is the typed string, the empty entry being the empty string already).
\<close>

definition chooseModel :: "config \<Rightarrow> user \<Rightarrow> options \<Rightarrow> bool \<Rightarrow> string \<Rightarrow> string option action" where
  "chooseModel cfg usr opts isInteractive selectedModel =
     (if isInteractive \<and> \<not> truthy (model opts) then
        andThen (p_select usr ModelChoice (MODEL_OPTIONS cfg @ [''__custom__''])) (\<lambda>modelChoice.
        case modelChoice of
          Cancel \<Rightarrow> ret None
        | Value choice \<Rightarrow>
            if choice = ''__custom__'' then
              andThen (p_text usr CustomModel validate_model) (\<lambda>customModel.
              case customModel of
                Cancel \<Rightarrow> ret None
              | Value typed \<Rightarrow> ret (Some typed))
            else ret (Some choice))
      else ret (Some selectedModel))"

text \<open>
  Lines 112-153: the color. \<open>None\<close> is \<^verbatim>\<open>return false\<close>: a cancelled prompt, or
  a pre-supplied color that is not a hex color.
\<close>

definition chooseColor :: "config \<Rightarrow> user \<Rightarrow> options \<Rightarrow> bool \<Rightarrow> string \<Rightarrow> string option action" where
  "chooseColor cfg usr opts isInteractive selectedColor =
     (if isInteractive \<and> \<not> truthy (color opts) then
        andThen (p_select usr ColorChoice (COLOR_OPTIONS cfg @ [''__custom__''])) (\<lambda>colorChoice.
        case colorChoice of
          Cancel \<Rightarrow> ret None
        | Value choice \<Rightarrow>
            if choice = ''__custom__'' then
              andThen (p_text usr CustomColor (validate_color cfg)) (\<lambda>customColor.
              case customColor of
                Cancel \<Rightarrow> ret None
              | Value typed \<Rightarrow> ret (Some typed))
            else ret (Some choice))
      else if truthy (color opts) \<and> \<not> isValidHexColor cfg (or_else (color opts) [])
      then andThen (emit (LogError (''Invalid hex color: '' @ or_else (color opts) []
                                     @ ''. Use format #RRGGBB''))) (\<lambda>_. ret None)
      else ret (Some selectedColor))"

text \<open>Lines 165-171: the \<^verbatim>\<open>updates\<close> object, in insertion order.\<close>

definition frontmatterUpdates :: "string \<Rightarrow> string \<Rightarrow> (string \<times> string) list" where
  "frontmatterUpdates selectedColor selectedModel =
     [(''color'', [CHR 0x22] @ selectedColor @ [CHR 0x22])]
     @ (if selectedModel \<noteq> [] then [(''model'', selectedModel)] else [])"

text \<open>Line 173: the call of \<^verbatim>\<open>updateFrontmatter\<close>, recorded in the trace.\<close>

definition callUpdateFrontmatter ::
  "config \<Rightarrow> jsstring \<Rightarrow> (string \<times> string) list \<Rightarrow> jsstring action" where
  "callUpdateFrontmatter cfg content updates w =
     (let w' = w\<lparr>trace := trace w @ [MergeCall content updates]\<rparr> in
      case updateFrontmatter cfg content updates of
        Inl e \<Rightarrow> (Threw e, w')
      | Inr content' \<Rightarrow> (Returned content', w'))"

text \<open>Lines 155-178: template, merge, write.\<close>

definition writeOpenCodeAgent :: "config \<Rightarrow> string \<Rightarrow> string \<Rightarrow> (string \<times> string) option action" where
  "writeOpenCodeAgent cfg selectedModel selectedColor =
     (let templatePath = getOpenCodeTemplatePath cfg in
      andThen (exists_sync templatePath) (\<lambda>there.
      if \<not> there then
        andThen (emit (LogError (''OpenCode template not found at ''
                                   @ path_string templatePath))) (\<lambda>_.
        ret None)
      else
        andThen (readFileSync templatePath) (\<lambda>content.
        andThen (callUpdateFrontmatter cfg content
                   (frontmatterUpdates selectedColor selectedModel)) (\<lambda>content'.
        andThen (writeFileSync (OPENCODE_LEARN_AGENT_PATH cfg) content') (\<lambda>_.
        ret (Some (selectedModel, selectedColor)))))))"

text \<open>
  \<^verbatim>\<open>installOpenCode(options, isInteractive)\<close>, lines 40-179. The result is \<open>None\<close>
  for \<^verbatim>\<open>false\<close> and \<open>Some (model, color)\<close> for the object
  \<^verbatim>\<open>{ model: selectedModel, color: selectedColor }\<close>.
\<close>

definition installOpenCode ::
  "config \<Rightarrow> user \<Rightarrow> options \<Rightarrow> bool \<Rightarrow> (string \<times> string) option action" where
  "installOpenCode cfg usr opts isInteractive =
     (let selectedModel = or_else (model opts) [];
          selectedColor = or_else (color opts) (DEFAULT_COLOR cfg) in
      andThen (ensureOpenCodeDirs cfg) (\<lambda>_.
      andThen (checkExisting usr isInteractive (OPENCODE_LEARN_AGENT_PATH cfg) OverwriteOpenCode
                 ''Skipping OpenCode installation.''
                 ''OpenCode Learn agent already exists. Overwriting...'') (\<lambda>go.
      if \<not> go then ret None else
      andThen (chooseModel cfg usr opts isInteractive selectedModel) (\<lambda>m.
      case m of
        None \<Rightarrow> ret None
      | Some selectedModel \<Rightarrow>
          andThen (chooseColor cfg usr opts isInteractive selectedColor) (\<lambda>c.
          case c of
            None \<Rightarrow> ret None
          | Some selectedColor \<Rightarrow> writeOpenCodeAgent cfg selectedModel selectedColor)))))"

subsection \<open>installCopilot\<close>

text \<open>Lines 185-188: the agents directory is created when it does not exist.\<close>

definition ensureCopilotDirs :: "config \<Rightarrow> unit action" where
  "ensureCopilotDirs cfg =
     andThen (exists_sync (COPILOT_AGENTS_DIR cfg)) (\<lambda>there.
     if \<not> there then mkdirSync (COPILOT_AGENTS_DIR cfg) else ret ())"

text \<open>Lines 207-219: the template is read and its text written.\<close>

definition writeCopilotAgent :: "config \<Rightarrow> bool action" where
  "writeCopilotAgent cfg =
     (let templatePath = getCopilotTemplatePath cfg in
      andThen (exists_sync templatePath) (\<lambda>there.
      if \<not> there then
        andThen (emit (LogError (''GitHub Copilot template not found at ''
                                   @ path_string templatePath))) (\<lambda>_.
        ret False)
      else
        andThen (readFileSync templatePath) (\<lambda>content.
        andThen (writeFileSync (COPILOT_LEARN_AGENT_PATH cfg) content) (\<lambda>_.
        ret True))))"

text \<open>\<^verbatim>\<open>installCopilot(isInteractive)\<close>, lines 184-220.\<close>

definition installCopilot :: "config \<Rightarrow> user \<Rightarrow> bool \<Rightarrow> bool action" where
  "installCopilot cfg usr isInteractive =
     andThen (ensureCopilotDirs cfg) (\<lambda>_.
     andThen (checkExisting usr isInteractive (COPILOT_LEARN_AGENT_PATH cfg) OverwriteCopilot
                ''Skipping GitHub Copilot installation.''
                ''GitHub Copilot Learn agent already exists. Overwriting...'') (\<lambda>go.
     if \<not> go then ret False else writeCopilotAgent cfg))"

subsection \<open>install\<close>

text \<open>Lines 231-267: which platforms to install.\<close>

definition resolvePlatforms :: "config \<Rightarrow> user \<Rightarrow> options \<Rightarrow> bool \<Rightarrow> string list action" where
  "resolvePlatforms cfg usr opts isInteractive =
     (if all opts then ret [''opencode'', ''copilot'']
      else if opencode opts \<and> \<not> copilot opts then ret [''opencode'']
      else if copilot opts \<and> \<not> opencode opts then ret [''copilot'']
      else if opencode opts \<and> copilot opts then ret [''opencode'', ''copilot'']
      else if isInteractive then
        andThen (p_select usr PlatformChoice (PLATFORM_OPTIONS cfg)) (\<lambda>platformChoice.
        case platformChoice of
          Cancel \<Rightarrow>
            andThen (emit (CancelMessage ''Installation cancelled.'')) (\<lambda>_ w. (Exited 0, w))
        | Value choice \<Rightarrow>
            if choice = ''both'' then ret [''opencode'', ''copilot''] else ret [choice])
      else ret [''opencode'', ''copilot''])"

text \<open>Lines 276-283: \<^verbatim>\<open>results.opencode\<close> stays \<^verbatim>\<open>null\<close> (\<open>None\<close>) on \<^verbatim>\<open>false\<close>.\<close>

definition openCodePhase ::
  "config \<Rightarrow> user \<Rightarrow> options \<Rightarrow> bool \<Rightarrow> string list \<Rightarrow> (string \<times> string) option action" where
  "openCodePhase cfg usr opts isInteractive platforms =
     (if ''opencode'' \<in> set platforms then installOpenCode cfg usr opts isInteractive
      else ret None)"

text \<open>Lines 286-295: the result is the truthiness of \<^verbatim>\<open>results.copilot\<close>.\<close>

definition copilotPhase :: "config \<Rightarrow> user \<Rightarrow> bool \<Rightarrow> string list \<Rightarrow> bool action" where
  "copilotPhase cfg usr isInteractive platforms =
     (if ''copilot'' \<in> set platforms then
        andThen (emit (SpinnerStart ''Installing GitHub Copilot agent...'')) (\<lambda>_.
        andThen (installCopilot cfg usr isInteractive) (\<lambda>copilotResult.
        if copilotResult
        then andThen (emit (SpinnerStop ''GitHub Copilot agent installed.'')) (\<lambda>_. ret True)
        else andThen (emit (SpinnerStop ''GitHub Copilot installation skipped.'')) (\<lambda>_. ret False)))
      else ret False)"

text \<open>\<^verbatim>\<open>installed.join('\n')\<close>.\<close>

fun join_lines :: "string list \<Rightarrow> string" where
  "join_lines [] = []"
| "join_lines [l] = l"
| "join_lines (l # ls) = l @ [CHR 0x0A] @ join_lines ls"

text \<open>Lines 297-319: the report.\<close>

definition showResults :: "config \<Rightarrow> (string \<times> string) option \<Rightarrow> bool \<Rightarrow> unit action" where
  "showResults cfg results_opencode results_copilot =
     (let installed =
            (case results_opencode of
               None \<Rightarrow> []
             | Some (m, c) \<Rightarrow>
                 [''OpenCode: '' @ path_string (OPENCODE_LEARN_AGENT_PATH cfg)]
                 @ (if c \<noteq> [] then [''  Color: '' @ c] else [])
                 @ (if m \<noteq> [] then [''  Model: '' @ m] else [''  Model: OpenCode default'']))
            @ (if results_copilot
               then [''GitHub Copilot: '' @ path_string (COPILOT_LEARN_AGENT_PATH cfg)] else [])
      in
      if length installed > 0 then
        andThen (emit (Note (join_lines installed) ''Installed'')) (\<lambda>_.
        emit (Outro ''Learn agent installed successfully!''))
      else emit (Outro ''No agents were installed.''))"

text \<open>Lines 269-319: everything after the platforms are known.\<close>

definition installPlatforms ::
  "config \<Rightarrow> user \<Rightarrow> options \<Rightarrow> bool \<Rightarrow> string list \<Rightarrow> unit action" where
  "installPlatforms cfg usr opts isInteractive platforms =
     andThen (openCodePhase cfg usr opts isInteractive platforms) (\<lambda>results_opencode.
     andThen (copilotPhase cfg usr isInteractive platforms) (\<lambda>results_copilot.
     showResults cfg results_opencode results_copilot))"

text \<open>\<^verbatim>\<open>install(options)\<close>, lines 226-320.\<close>

definition install :: "config \<Rightarrow> user \<Rightarrow> options \<Rightarrow> unit action" where
  "install cfg usr opts =
     (let isInteractive = (tui opts \<noteq> Some False) in
      andThen (emit (Intro '' nudge '')) (\<lambda>_.
      andThen (resolvePlatforms cfg usr opts isInteractive) (\<lambda>platforms.
      installPlatforms cfg usr opts isInteractive platforms)))"

subsection \<open>An example installation\<close>

text \<open>
  The helpers of \<^verbatim>\<open>./utils.js\<close> are needed only to run the model on an example; no
  theorem about the installer depends on how they are written here.
\<close>

text \<open>
  Modelled from the spec: \<^verbatim>\<open>isValidHexColor\<close> of \<^verbatim>\<open>./utils.js\<close>, which is not among the
  sources. Section 4.3: true if and only if the string is a \<^verbatim>\<open>#\<close> followed by exactly
  six hexadecimal digits, in either case.
\<close>

definition hexDigit :: "char \<Rightarrow> bool" where
  "hexDigit ch = (ch \<in> set ''0123456789abcdefABCDEF'')"

definition isValidHexColor_spec :: "string \<Rightarrow> bool" where
  "isValidHexColor_spec s =
     (case s of [] \<Rightarrow> False | h # t \<Rightarrow> h = CHR ''#'' \<and> length t = 6 \<and> list_all hexDigit t)"

text \<open>
  Modelled from the spec: \<^verbatim>\<open>updateFrontmatter\<close> of \<^verbatim>\<open>./utils.js\<close>, which is not among
  the sources. Sections 4.1 and 4.2: the document must open with a \<^verbatim>\<open>---\<close> line and
  have a second one, or the merge raises \<^verbatim>\<open>MalformedDocument\<close>; the lines between them
  are \<^verbatim>\<open>key: value\<close> pairs; each update, in the order given, replaces the value of its
  key in place or is appended after the existing keys; the header is written back in
  stored order and the body is left as it is. \<open>updateFrontmatter_spec\<close> works on the
  UTF-8 form of the text (a line feed is one byte there and part of no other
  character), and \<open>updateFrontmatter_text\<close> is the same function on text.
\<close>

fun split_lines :: "string \<Rightarrow> string list" where
  "split_lines [] = [[]]"
| "split_lines (ch # cs) =
     (if ch = CHR 0x0A then [] # split_lines cs
      else (case split_lines cs of [] \<Rightarrow> [[ch]] | l # ls \<Rightarrow> (ch # l) # ls))"

definition parse_field :: "string \<Rightarrow> string \<times> string" where
  "parse_field l = (takeWhile (\<lambda>ch. ch \<noteq> CHR '':'') l, drop 2 (dropWhile (\<lambda>ch. ch \<noteq> CHR '':'') l))"

fun put_field :: "(string \<times> string) list \<Rightarrow> string \<times> string \<Rightarrow> (string \<times> string) list" where
  "put_field [] kv = [kv]"
| "put_field (f # others) kv =
     (if fst f = fst kv then kv # others else f # put_field others kv)"

definition updateFrontmatter_spec :: "string \<Rightarrow> (string \<times> string) list \<Rightarrow> string + string" where
  "updateFrontmatter_spec doc updates =
     (case split_lines doc of
        [] \<Rightarrow> Inl ''MalformedDocument''
      | first # rest \<Rightarrow>
          if first = ''---'' \<and> ''---'' \<in> set rest then
            (let header = takeWhile (\<lambda>l. l \<noteq> ''---'') rest;
                 body = tl (dropWhile (\<lambda>l. l \<noteq> ''---'') rest);
                 merged = foldl put_field (map parse_field header) updates
             in Inr (join_lines ([''---''] @ map (\<lambda>(k, v). k @ '': '' @ v) merged
                                 @ [''---''] @ body)))
          else Inl ''MalformedDocument'')"

definition updateFrontmatter_text ::
  "jsstring \<Rightarrow> (string \<times> string) list \<Rightarrow> string + jsstring" where
  "updateFrontmatter_text doc updates =
     (case updateFrontmatter_spec (encode_utf8 doc) updates of
        Inl e \<Rightarrow> Inl e
      | Inr doc' \<Rightarrow> Inr (decode_utf8 doc'))"

text \<open>
  The paths, menus and default color of the example are placeholders for the constants
  of \<^verbatim>\<open>./utils.js\<close>. \<open>fresh_world\<close> has the two templates and nothing installed;
  \<open>installed_world\<close> has both agent files in place; in \<open>headerless_world\<close> the
  OpenCode template has no header; in \<open>blocked_world\<close> a regular file stands where
  the directory \<^verbatim>\<open>.config\<close> should be; in \<open>latin1_world\<close> the Copilot template is the
  three bytes \<^verbatim>\<open>41 FF 42\<close>, which are not UTF-8. \<open>cancels_at s\<close> is a user who
  cancels the prompt \<open>s\<close>, confirms every overwrite and picks the custom entry in
  every menu.
\<close>

definition example_template :: string where
  "example_template = ''---'' @ [CHR 0x0A] @ ''color: '' @ [CHR 0x22] @ ''#000000'' @ [CHR 0x22]
     @ [CHR 0x0A] @ ''---'' @ [CHR 0x0A] @ ''Body text''"

definition example_config :: config where
  "example_config = \<lparr>
     OPENCODE_CONFIG_DIR = [''home'', ''.config'', ''opencode''],
     agentsSubdir = [''agents''],
     openCodeAgentFile = [''learn.md''],
     COPILOT_AGENTS_DIR = [''proj'', ''.github'', ''agents''],
     copilotAgentFile = [''learn.agent.md''],
     DEFAULT_COLOR = ''#14B8A6'',
     COLOR_OPTIONS = [''#14B8A6'', ''#3B82F6''],
     MODEL_OPTIONS = ['''', ''anthropic/claude-sonnet-4''],
     PLATFORM_OPTIONS = [''opencode'', ''copilot'', ''both''],
     isValidHexColor = isValidHexColor_spec,
     updateFrontmatter = updateFrontmatter_text,
     dirname = [''pkg'', ''lib''] \<rparr>"

text \<open>The package directory with the two templates.\<close>

definition package :: "char list \<Rightarrow> char list \<Rightarrow> node" where
  "package learn learn_copilot =
     Dir [''agents'' \<mapsto> Dir [''learn.md'' \<mapsto> File learn,
                                ''learn.copilot.md'' \<mapsto> File learn_copilot]]"

definition fresh_world :: world where
  "fresh_world = \<lparr> root = Dir [''pkg'' \<mapsto> package example_template ''Copilot agent''],
                    trace = [] \<rparr>"

definition installed_world :: world where
  "installed_world = \<lparr>
     root = Dir [''pkg'' \<mapsto> package example_template ''Copilot agent'',
                 ''home'' \<mapsto> Dir [''.config'' \<mapsto> Dir [''opencode'' \<mapsto>
                    Dir [''agents'' \<mapsto> Dir [''learn.md'' \<mapsto> File ''old'']]]],
                 ''proj'' \<mapsto> Dir [''.github'' \<mapsto>
                    Dir [''agents'' \<mapsto> Dir [''learn.agent.md'' \<mapsto> File ''old'']]]],
     trace = [] \<rparr>"

definition headerless_world :: world where
  "headerless_world = \<lparr> root = Dir [''pkg'' \<mapsto> package ''Body only'' ''Copilot agent''],
                         trace = [] \<rparr>"

definition blocked_world :: world where
  "blocked_world = \<lparr>
     root = Dir [''pkg'' \<mapsto> package example_template ''Copilot agent'',
                 ''home'' \<mapsto> Dir [''.config'' \<mapsto> File ''not a directory'']],
     trace = [] \<rparr>"

definition latin1_world :: world where
  "latin1_world = \<lparr>
     root = Dir [''pkg'' \<mapsto> package example_template [CHR 0x41, CHR 0xFF, CHR 0x42]],
     trace = [] \<rparr>"

definition no_options :: options where
  "no_options = \<lparr> all = False, opencode = False, copilot = False,
                   model = None, color = None, tui = None \<rparr>"

definition cancels_at :: "site \<Rightarrow> user" where
  "cancels_at s = (\<lambda>s'. if s' = s then Cancels
                         else if s' = OverwriteOpenCode \<or> s' = OverwriteCopilot then Says True
                         else Submits ''__custom__'')"

text \<open>A user who confirms every overwrite and picks the second preset of each menu.\<close>

definition picks_presets :: user where
  "picks_presets = (\<lambda>s. if s = OverwriteOpenCode \<or> s = OverwriteCopilot then Says True
                        else if s = ModelChoice then Submits ''anthropic/claude-sonnet-4''
                        else if s = ColorChoice then Submits ''#3B82F6''
                        else Cancels)"

subsection \<open>Notions used in the proofs\<close>

text \<open>How a step that did not go on ends \<open>installOpenCode\<close>: a step that returned made
  the installer return \<^verbatim>\<open>false\<close>; anything else is passed on.\<close>

definition halt :: "'a outcome \<Rightarrow> 'b option outcome" where
  "halt g = (case g of Returned a \<Rightarrow> Returned None | Threw e \<Rightarrow> Threw e
             | Exited n \<Rightarrow> Exited n | Waiting s \<Rightarrow> Waiting s)"

text \<open>An action only ever appends events to the trace, and only events that satisfy \<open>Q\<close>.\<close>

definition only_adds :: "(event \<Rightarrow> bool) \<Rightarrow> 'a action \<Rightarrow> bool" where
  "only_adds Q m = (\<forall>w. \<exists>es. trace (snd (m w)) = trace w @ es \<and> list_all Q es)"

text \<open>The events of a run without prompts (\<open>i = False\<close>) or with them.\<close>

definition unprompted :: "bool \<Rightarrow> event \<Rightarrow> bool" where
  "unprompted i e = (case e of Asked s \<Rightarrow> i | _ \<Rightarrow> True)"

text \<open>What \<open>installOpenCode\<close> does after the overwrite decision (lines 72-178).\<close>

definition afterCheck ::
  "config \<Rightarrow> user \<Rightarrow> options \<Rightarrow> bool \<Rightarrow> bool \<Rightarrow> (string \<times> string) option action" where
  "afterCheck cfg usr opts i go =
     (if \<not> go then ret None else
      andThen (chooseModel cfg usr opts i (or_else (model opts) [])) (\<lambda>m.
      case m of
        None \<Rightarrow> ret None
      | Some selectedModel \<Rightarrow>
          andThen (chooseColor cfg usr opts i (or_else (color opts) (DEFAULT_COLOR cfg))) (\<lambda>c.
          case c of
            None \<Rightarrow> ret None
          | Some selectedColor \<Rightarrow> writeOpenCodeAgent cfg selectedModel selectedColor)))"

section \<open>Text, bytes and the file tree\<close>

lemma repair_replacement: "utf8_repair (replacement @ bs) = replacement @ utf8_repair bs"
  by (simp add: replacement_def continuation_def second_of3_def)

lemma utf8_repair_idem: "utf8_repair (utf8_repair bs) = utf8_repair bs"
proof (induction bs rule: utf8_repair.induct)
  case 1
  then show ?case by simp
next
  case (2 b0 bs)
  have r0: "utf8_repair replacement = replacement"
    using repair_replacement [of "[]"] by simp
  show ?case
    using 2 r0
    by (auto simp: Let_def repair_replacement split: list.splits)
qed

lemma decode_encode: "decode_utf8 (encode_utf8 s) = s"
  using Rep_jsstring [of s] by (simp add: decode_utf8_def encode_utf8_def Rep_jsstring_inverse)

lemma encode_decode: "encode_utf8 (decode_utf8 b) = utf8_repair b"
  by (simp add: decode_utf8_def encode_utf8_def Abs_jsstring_inverse utf8_repair_idem)

lemma lookup_empty_dir: "lookup (Dir Map.empty) q \<noteq> Some (File b)"
  by (cases q) simp_all

lemma blocked_empty_dir: "\<not> blocked (Dir Map.empty) q"
  by (cases q) simp_all

lemma lookup_prefix: "lookup n (p @ q) \<noteq> None \<Longrightarrow> lookup n p \<noteq> None"
proof (induction p arbitrary: n)
  case Nil
  then show ?case by simp
next
  case (Cons s p)
  then show ?case by (cases n) (auto split: option.splits)
qed

lemma blocked_absent: "blocked n p \<Longrightarrow> lookup n p = None"
proof (induction p arbitrary: n)
  case Nil
  then show ?case by simp
next
  case (Cons s p)
  then show ?case by (cases n) (auto split: option.splits)
qed

lemma blocked_append: "blocked n p \<Longrightarrow> blocked n (p @ q)"
proof (induction p arbitrary: n)
  case Nil
  then show ?case by simp
next
  case (Cons s p)
  then show ?case by (cases n) (auto split: option.splits)
qed

lemma blocked_lookup: "blocked n (p @ q) \<Longrightarrow> \<not> blocked n p \<Longrightarrow> lookup n p \<noteq> None"
proof (induction p arbitrary: n)
  case Nil
  then show ?case by simp
next
  case (Cons s p)
  then show ?case by (cases n) (auto split: option.splits)
qed

lemma mkdirp_blocked: "blocked n p \<Longrightarrow> mkdirp n p = Inl ''ENOTDIR''"
proof (induction p arbitrary: n)
  case Nil
  then show ?case by simp
next
  case (Cons s p)
  then show ?case by (cases n) (auto split: option.splits)
qed

lemma mkdirp_free:
  "\<not> blocked n p \<Longrightarrow> \<forall>b. lookup n p \<noteq> Some (File b) \<Longrightarrow> \<exists>n'. mkdirp n p = Inr n'"
proof (induction p arbitrary: n)
  case Nil
  then show ?case by (cases n) auto
next
  case (Cons s p)
  show ?case
  proof (cases n)
    case (File old)
    with Cons.prems show ?thesis by simp
  next
    case (Dir children)
    show ?thesis
    proof (cases "children s")
      case None
      from Cons.IH [of "Dir Map.empty"] obtain n' where "mkdirp (Dir Map.empty) p = Inr n'"
        using blocked_empty_dir lookup_empty_dir by blast
      with Dir None show ?thesis by simp
    next
      case (Some m)
      with Cons.prems Dir have "\<not> blocked m p" "\<forall>b. lookup m p \<noteq> Some (File b)" by simp_all
      from Cons.IH [OF this] obtain n' where "mkdirp m p = Inr n'" by blast
      with Dir Some show ?thesis by simp
    qed
  qed
qed

lemma mkdirp_files:
  "mkdirp n p = Inr n' \<Longrightarrow> (lookup n' q = Some (File b)) = (lookup n q = Some (File b))"
proof (induction p arbitrary: n n' q)
  case Nil
  then show ?case by (cases n) auto
next
  case (Cons s p)
  show ?case
  proof (cases n)
    case (File old)
    with Cons.prems show ?thesis by simp
  next
    case (Dir children)
    with Cons.prems obtain m' where
      m: "mkdirp (case children s of None \<Rightarrow> Dir Map.empty | Some n \<Rightarrow> n) p = Inr m'"
      and n': "n' = Dir (children(s \<mapsto> m'))"
      by (auto split: sum.splits)
    show ?thesis
    proof (cases q)
      case Nil
      with Dir n' show ?thesis by simp
    next
      case (Cons t q')
      show ?thesis
      proof (cases "t = s")
        case True
        with Cons.IH [OF m, of q'] Dir n' \<open>q = t # q'\<close> show ?thesis
          by (auto simp: lookup_empty_dir split: option.splits)
      next
        case False
        with Dir n' \<open>q = t # q'\<close> show ?thesis by simp
      qed
    qed
  qed
qed

lemma mkdirp_exists:
  "mkdirp n p = Inr n' \<Longrightarrow> lookup n q \<noteq> None \<Longrightarrow> lookup n' q \<noteq> None"
proof (induction p arbitrary: n n' q)
  case Nil
  then show ?case by (cases n) auto
next
  case (Cons s p)
  show ?case
  proof (cases n)
    case (File old)
    with Cons.prems show ?thesis by simp
  next
    case (Dir children)
    with Cons.prems obtain m' where
      m: "mkdirp (case children s of None \<Rightarrow> Dir Map.empty | Some n \<Rightarrow> n) p = Inr m'"
      and n': "n' = Dir (children(s \<mapsto> m'))"
      by (auto split: sum.splits)
    show ?thesis
    proof (cases q)
      case Nil
      with Dir n' show ?thesis by simp
    next
      case (Cons t q')
      show ?thesis
      proof (cases "t = s")
        case True
        with Cons.IH [OF m, of q'] Cons.prems(2) Dir n' \<open>q = t # q'\<close> show ?thesis
          by (auto split: option.splits)
      next
        case False
        with Cons.prems(2) Dir n' \<open>q = t # q'\<close> show ?thesis by simp
      qed
    qed
  qed
qed

lemma mkdirp_keeps_blocked: "mkdirp n p = Inr n' \<Longrightarrow> blocked n' q = blocked n q"
proof (induction p arbitrary: n n' q)
  case Nil
  then show ?case by (cases n) auto
next
  case (Cons s p)
  show ?case
  proof (cases n)
    case (File old)
    with Cons.prems show ?thesis by simp
  next
    case (Dir children)
    with Cons.prems obtain m' where
      m: "mkdirp (case children s of None \<Rightarrow> Dir Map.empty | Some n \<Rightarrow> n) p = Inr m'"
      and n': "n' = Dir (children(s \<mapsto> m'))"
      by (auto split: sum.splits)
    show ?thesis
    proof (cases q)
      case Nil
      with Dir n' show ?thesis by simp
    next
      case (Cons t q')
      show ?thesis
      proof (cases "t = s")
        case True
        with Cons.IH [OF m, of q'] Dir n' \<open>q = t # q'\<close> show ?thesis
          by (auto simp: blocked_empty_dir split: option.splits)
      next
        case False
        with Dir n' \<open>q = t # q'\<close> show ?thesis by simp
      qed
    qed
  qed
qed

lemma write_at_lookup: "write_at n p b = Inr n' \<Longrightarrow> lookup n' p = Some (File b)"
proof (induction p arbitrary: n n')
  case Nil
  then show ?case by (cases n) auto
next
  case (Cons s p)
  then show ?case
    by (cases n) (auto split: sum.splits option.splits if_splits)
qed

lemma write_at_existing: "lookup n p = Some (File old) \<Longrightarrow> \<exists>n'. write_at n p b = Inr n'"
proof (induction p arbitrary: n)
  case Nil
  then show ?case by (cases n) auto
next
  case (Cons s p)
  show ?case
  proof (cases n)
    case (File x)
    with Cons.prems show ?thesis by simp
  next
    case (Dir children)
    with Cons.prems obtain m where m: "children s = Some m" "lookup m p = Some (File old)"
      by (auto split: option.splits)
    from Cons.IH [OF m(2)] obtain m' where "write_at m p b = Inr m'" by blast
    with Dir m show ?thesis by simp
  qed
qed

section \<open>How the steps run\<close>

lemma andThen_Returned: "m w = (Returned a, w1) \<Longrightarrow> andThen m f w = f a w1"
  by (simp add: andThen_def)

lemma andThen_Threw: "m w = (Threw e, w1) \<Longrightarrow> andThen m f w = (Threw e, w1)"
  by (simp add: andThen_def)

lemma bytes_cong: "root w' = root w \<Longrightarrow> bytes w' = bytes w"
  by (simp add: bytes_def fun_eq_iff)

lemma files_cong: "root w' = root w \<Longrightarrow> files w' = files w"
  by (simp add: files_def bytes_def fun_eq_iff)

lemma files_bytes: "bytes w' = bytes w \<Longrightarrow> files w' = files w"
  by (simp add: files_def fun_eq_iff)

lemma bytes_Some: "bytes w p = Some b \<longleftrightarrow> lookup (root w) p = Some (File b)"
  by (simp add: bytes_def split: option.splits node.splits)

lemma files_Some: "files w p = Some c \<longleftrightarrow> (\<exists>b. lookup (root w) p = Some (File b) \<and> c = decode_utf8 b)"
  by (auto simp: files_def bytes_def split: option.splits node.splits)

lemma files_existsSync: "files w p = Some c \<Longrightarrow> existsSync p w"
  by (auto simp: files_Some existsSync_def)

lemma existsSync_prefix: "existsSync (p @ q) w \<Longrightarrow> existsSync p w"
  unfolding existsSync_def by (rule lookup_prefix)

text \<open>Lines 45-48, 51-53 and 186-188: a directory is created when nothing is at its path.\<close>

lemma mkdir_if_absent:
  assumes "root v = root w"
  obtains
    (made) w1 es where "\<not> blocked (root w) p"
      "(if \<not> existsSync p w then mkdirSync p v else (Returned (), v)) = (Returned (), w1)"
      "bytes w1 = bytes w" "trace w1 = trace v @ es" "set es \<subseteq> {Mkdir p}"
      "\<forall>q. existsSync q w \<longrightarrow> existsSync q w1"
      "\<forall>q. blocked (root w1) q = blocked (root w) q"
      "existsSync p w \<longrightarrow> w1 = v"
  | (threw) "blocked (root w) p" "\<not> existsSync p w"
      "(if \<not> existsSync p w then mkdirSync p v else (Returned (), v)) = (Threw ''ENOTDIR'', v)"
proof (cases "blocked (root w) p")
  case True
  then have "\<not> existsSync p w" by (simp add: existsSync_def blocked_absent)
  moreover have "mkdirSync p v = (Threw ''ENOTDIR'', v)"
    using True assms by (simp add: mkdirSync_def mkdirp_blocked)
  ultimately show thesis using True threw by simp
next
  case False
  show thesis
  proof (cases "existsSync p w")
    case True
    show thesis
    proof (rule made [of v "[]"])
      show "bytes v = bytes w" using assms by (rule bytes_cong)
    qed (use True False assms in \<open>simp_all add: existsSync_def\<close>)
  next
    case absent: False
    then have "\<forall>b. lookup (root w) p \<noteq> Some (File b)" by (simp add: existsSync_def)
    from mkdirp_free [OF False this] obtain n' where n': "mkdirp (root w) p = Inr n'" by blast
    let ?w1 = "v\<lparr>root := n', trace := trace v @ [Mkdir p]\<rparr>"
    show thesis
    proof (rule made [of ?w1 "[Mkdir p]"])
      show "\<not> blocked (root w) p" by (rule False)
      show "(if \<not> existsSync p w then mkdirSync p v else (Returned (), v)) = (Returned (), ?w1)"
        using absent n' assms by (simp add: mkdirSync_def)
      show "bytes ?w1 = bytes w"
      proof (rule ext)
        fix q
        have eq: "(bytes ?w1 q = Some b) = (bytes w q = Some b)" for b
          using mkdirp_files [OF n', of q b] by (simp add: bytes_Some)
        show "bytes ?w1 q = bytes w q"
        proof (cases "bytes w q")
          case None
          with eq have "\<forall>b. bytes ?w1 q \<noteq> Some b" by simp
          with None show ?thesis by simp
        next
          case (Some b)
          with eq show ?thesis by simp
        qed
      qed
      show "trace ?w1 = trace v @ [Mkdir p]" by simp
      show "set [Mkdir p] \<subseteq> {Mkdir p}" by simp
      show "\<forall>q. existsSync q w \<longrightarrow> existsSync q ?w1"
        using mkdirp_exists [OF n'] by (simp add: existsSync_def)
      show "\<forall>q. blocked (root ?w1) q = blocked (root w) q"
        using mkdirp_keeps_blocked [OF n'] by simp
      show "existsSync p w \<longrightarrow> ?w1 = v" using absent by simp
    qed
  qed
qed

lemma ensureOpenCodeDirs_eq:
  "ensureOpenCodeDirs cfg w =
     andThen (\<lambda>w. if \<not> existsSync (OPENCODE_CONFIG_DIR cfg) w
                  then mkdirSync (OPENCODE_CONFIG_DIR cfg)
                         (w\<lparr>trace := trace w @ [LogInfo ''Creating OpenCode config directory...'']\<rparr>)
                  else (Returned (), w))
             (\<lambda>_ w. if \<not> existsSync (OPENCODE_AGENTS_DIR cfg) w
                    then mkdirSync (OPENCODE_AGENTS_DIR cfg) w else (Returned (), w)) w"
  by (auto simp: ensureOpenCodeDirs_def andThen_def exists_sync_def ret_def emit_def
      split: prod.splits outcome.splits)

lemma ensureOpenCodeDirs_run:
  obtains
    (made) w1 es where "\<not> blocked (root w) (OPENCODE_AGENTS_DIR cfg)"
      "ensureOpenCodeDirs cfg w = (Returned (), w1)"
      "bytes w1 = bytes w" "trace w1 = trace w @ es"
      "set es \<subseteq> {LogInfo ''Creating OpenCode config directory...'',
                   Mkdir (OPENCODE_CONFIG_DIR cfg), Mkdir (OPENCODE_AGENTS_DIR cfg)}"
      "\<forall>p. existsSync p w \<longrightarrow> existsSync p w1"
  | (threw) es where "blocked (root w) (OPENCODE_AGENTS_DIR cfg)"
      "ensureOpenCodeDirs cfg w = (Threw ''ENOTDIR'', w\<lparr>trace := trace w @ es\<rparr>)"
      "set es \<subseteq> {LogInfo ''Creating OpenCode config directory...''}"
proof -
  let ?C = "OPENCODE_CONFIG_DIR cfg" and ?A = "OPENCODE_AGENTS_DIR cfg"
  let ?info = "LogInfo ''Creating OpenCode config directory...''"
  let ?v = "w\<lparr>trace := trace w @ [?info]\<rparr>"
  let ?first = "\<lambda>w. if \<not> existsSync ?C w then mkdirSync ?C (w\<lparr>trace := trace w @ [?info]\<rparr>)
                     else (Returned (), w)"
  let ?second = "\<lambda>w. if \<not> existsSync ?A w then mkdirSync ?A w else (Returned (), w)"
  have A: "?A = ?C @ agentsSubdir cfg" by (simp add: OPENCODE_AGENTS_DIR_def)
  have v: "root ?v = root w" by simp
  show thesis
  proof (cases "existsSync ?C w")
    case True
    then have first: "?first w = (Returned (), w)" by simp
    have eq: "ensureOpenCodeDirs cfg w = ?second w"
      by (simp only: ensureOpenCodeDirs_eq andThen_Returned [where m = ?first, OF first])
    have w: "root w = root w" by simp
    from w show thesis
    proof (cases rule: mkdir_if_absent [where p = ?A])
      case (made w1 es)
      show thesis
        by (rule that(1) [of w1 es]) (use made eq in auto)
    next
      case threw
      show thesis
        by (rule that(2) [of "[]"]) (use threw eq in auto)
    qed
  next
    case False
    from v show thesis
    proof (cases rule: mkdir_if_absent [where p = ?C])
      case (made w0 es0)
      from made(2) False have first: "?first w = (Returned (), w0)" by simp
      have eq: "ensureOpenCodeDirs cfg w = ?second w0"
        by (simp only: ensureOpenCodeDirs_eq andThen_Returned [where m = ?first, OF first])
      have t0: "trace w0 = trace w @ ?info # es0" using made(4) by simp
      have w0: "root w0 = root w0" by simp
      from w0 show thesis
      proof (cases rule: mkdir_if_absent [where p = ?A])
        case inner: (made w1 es1)
        show thesis
        proof (rule that(1) [of w1 "?info # es0 @ es1"])
          show "\<not> blocked (root w) ?A" using inner(1) made(7) by simp
          show "ensureOpenCodeDirs cfg w = (Returned (), w1)" using eq inner(2) by simp
          show "bytes w1 = bytes w" using inner(3) made(3) by simp
          show "trace w1 = trace w @ ?info # es0 @ es1" using inner(4) t0 by simp
          show "set (?info # es0 @ es1) \<subseteq> {?info, Mkdir ?C, Mkdir ?A}"
            using made(5) inner(5) by auto
          show "\<forall>p. existsSync p w \<longrightarrow> existsSync p w1" using made(6) inner(6) by blast
        qed
      next
        case inner: threw
        from inner(1) made(7) have b: "blocked (root w) ?A" by simp
        from blocked_lookup [of "root w" ?C "agentsSubdir cfg"] b made(1) A
        have "existsSync ?C w" by (simp add: existsSync_def)
        with False show thesis by simp
      qed
    next
      case threw
      from threw(3) False have first: "?first w = (Threw ''ENOTDIR'', ?v)" by simp
      have eq: "ensureOpenCodeDirs cfg w = (Threw ''ENOTDIR'', ?v)"
        by (simp only: ensureOpenCodeDirs_eq andThen_Threw [where m = ?first, OF first])
      show thesis
        by (rule that(2) [of "[?info]"])
           (use threw(1) eq A blocked_append [of "root w" ?C "agentsSubdir cfg"] in auto)
    qed
  qed
qed

lemma ensureOpenCodeDirs_present:
  assumes "existsSync (OPENCODE_LEARN_AGENT_PATH cfg) w"
  shows "ensureOpenCodeDirs cfg w = (Returned (), w)"
proof -
  from assms have a: "existsSync (OPENCODE_AGENTS_DIR cfg) w"
    unfolding OPENCODE_LEARN_AGENT_PATH_def by (rule existsSync_prefix)
  then have "existsSync (OPENCODE_CONFIG_DIR cfg) w"
    unfolding OPENCODE_AGENTS_DIR_def by (rule existsSync_prefix)
  with a show ?thesis by (simp add: ensureOpenCodeDirs_eq andThen_def)
qed

lemma ensureCopilotDirs_eq:
  "ensureCopilotDirs cfg w =
     (if \<not> existsSync (COPILOT_AGENTS_DIR cfg) w
      then mkdirSync (COPILOT_AGENTS_DIR cfg) w else (Returned (), w))"
  by (simp add: ensureCopilotDirs_def andThen_def exists_sync_def ret_def)

lemma ensureCopilotDirs_run:
  obtains
    (made) w1 es where "\<not> blocked (root w) (COPILOT_AGENTS_DIR cfg)"
      "ensureCopilotDirs cfg w = (Returned (), w1)"
      "bytes w1 = bytes w" "trace w1 = trace w @ es"
      "set es \<subseteq> {Mkdir (COPILOT_AGENTS_DIR cfg)}"
      "\<forall>p. existsSync p w \<longrightarrow> existsSync p w1"
  | (threw) "blocked (root w) (COPILOT_AGENTS_DIR cfg)"
      "ensureCopilotDirs cfg w = (Threw ''ENOTDIR'', w)"
proof -
  have w: "root w = root w" by simp
  from w show thesis
  proof (cases rule: mkdir_if_absent [where p = "COPILOT_AGENTS_DIR cfg"])
    case (made w1 es)
    show thesis
      by (rule that(1) [of w1 es]) (use made in \<open>auto simp: ensureCopilotDirs_eq\<close>)
  next
    case threw
    show thesis
      by (rule that(2)) (use threw in \<open>auto simp: ensureCopilotDirs_eq\<close>)
  qed
qed

lemma ensureCopilotDirs_present:
  assumes "existsSync (COPILOT_LEARN_AGENT_PATH cfg) w"
  shows "ensureCopilotDirs cfg w = (Returned (), w)"
proof -
  from assms have "existsSync (COPILOT_AGENTS_DIR cfg) w"
    unfolding COPILOT_LEARN_AGENT_PATH_def by (rule existsSync_prefix)
  then show ?thesis by (simp add: ensureCopilotDirs_eq)
qed

lemma checkExisting_eq:
  "checkExisting usr i t s sk ov w =
     (if \<not> existsSync t w then (Returned True, w)
      else if \<not> i then (Returned True, w\<lparr>trace := trace w @ [LogWarning ov]\<rparr>)
      else (case usr s of
              Cancels \<Rightarrow> (Returned False, w\<lparr>trace := trace w @ [Asked s, LogWarning sk]\<rparr>)
            | Says b \<Rightarrow> if b then (Returned True, w\<lparr>trace := trace w @ [Asked s]\<rparr>)
                        else (Returned False, w\<lparr>trace := trace w @ [Asked s, LogWarning sk]\<rparr>)
            | Submits v \<Rightarrow> (Waiting s, w\<lparr>trace := trace w @ [Asked s]\<rparr>)))"
  by (simp add: checkExisting_def andThen_def exists_sync_def ret_def emit_def p_confirm_def
      Let_def split: reply.splits)

lemma chooseModel_eq:
  "chooseModel cfg usr opts i sm w =
     (if i \<and> \<not> truthy (model opts) then
        (case usr ModelChoice of
           Cancels \<Rightarrow> (Returned None, w\<lparr>trace := trace w @ [Asked ModelChoice]\<rparr>)
         | Says b \<Rightarrow> (Waiting ModelChoice, w\<lparr>trace := trace w @ [Asked ModelChoice]\<rparr>)
         | Submits v \<Rightarrow>
             if v \<notin> set (MODEL_OPTIONS cfg @ [''__custom__''])
             then (Waiting ModelChoice, w\<lparr>trace := trace w @ [Asked ModelChoice]\<rparr>)
             else if v \<noteq> ''__custom__''
             then (Returned (Some v), w\<lparr>trace := trace w @ [Asked ModelChoice]\<rparr>)
             else (case usr CustomModel of
                     Cancels \<Rightarrow> (Returned None, w\<lparr>trace := trace w @ [Asked ModelChoice, Asked CustomModel]\<rparr>)
                   | Says b \<Rightarrow> (Waiting CustomModel, w\<lparr>trace := trace w @ [Asked ModelChoice, Asked CustomModel]\<rparr>)
                   | Submits typed \<Rightarrow>
                       if validate_model typed = None
                       then (Returned (Some typed), w\<lparr>trace := trace w @ [Asked ModelChoice, Asked CustomModel]\<rparr>)
                       else (Waiting CustomModel, w\<lparr>trace := trace w @ [Asked ModelChoice, Asked CustomModel]\<rparr>)))
      else (Returned (Some sm), w))"
  by (simp add: chooseModel_def andThen_def ret_def p_select_def p_text_def
      Let_def split: reply.splits)

lemma chooseColor_eq:
  "chooseColor cfg usr opts i sc w =
     (if i \<and> \<not> truthy (color opts) then
        (case usr ColorChoice of
           Cancels \<Rightarrow> (Returned None, w\<lparr>trace := trace w @ [Asked ColorChoice]\<rparr>)
         | Says b \<Rightarrow> (Waiting ColorChoice, w\<lparr>trace := trace w @ [Asked ColorChoice]\<rparr>)
         | Submits v \<Rightarrow>
             if v \<notin> set (COLOR_OPTIONS cfg @ [''__custom__''])
             then (Waiting ColorChoice, w\<lparr>trace := trace w @ [Asked ColorChoice]\<rparr>)
             else if v \<noteq> ''__custom__''
             then (Returned (Some v), w\<lparr>trace := trace w @ [Asked ColorChoice]\<rparr>)
             else (case usr CustomColor of
                     Cancels \<Rightarrow> (Returned None, w\<lparr>trace := trace w @ [Asked ColorChoice, Asked CustomColor]\<rparr>)
                   | Says b \<Rightarrow> (Waiting CustomColor, w\<lparr>trace := trace w @ [Asked ColorChoice, Asked CustomColor]\<rparr>)
                   | Submits typed \<Rightarrow>
                       if validate_color cfg typed = None
                       then (Returned (Some typed), w\<lparr>trace := trace w @ [Asked ColorChoice, Asked CustomColor]\<rparr>)
                       else (Waiting CustomColor, w\<lparr>trace := trace w @ [Asked ColorChoice, Asked CustomColor]\<rparr>)))
      else if truthy (color opts) \<and> \<not> isValidHexColor cfg (or_else (color opts) [])
      then (Returned None, w\<lparr>trace := trace w @ [LogError (''Invalid hex color: ''
              @ or_else (color opts) [] @ ''. Use format #RRGGBB'')]\<rparr>)
      else (Returned (Some sc), w))"
  by (simp add: chooseColor_def andThen_def ret_def emit_def p_select_def p_text_def
      Let_def split: reply.splits)

lemma writeOpenCodeAgent_eq:
  "writeOpenCodeAgent cfg m c w =
     (case lookup (root w) (getOpenCodeTemplatePath cfg) of
        None \<Rightarrow> (Returned None, w\<lparr>trace := trace w @
                   [LogError (''OpenCode template not found at ''
                                @ path_string (getOpenCodeTemplatePath cfg))]\<rparr>)
      | Some (Dir d) \<Rightarrow> (Threw ''EISDIR'', w)
      | Some (File b) \<Rightarrow>
          (case updateFrontmatter cfg (decode_utf8 b) (frontmatterUpdates c m) of
             Inl e \<Rightarrow> (Threw e, w\<lparr>trace := trace w @
                          [MergeCall (decode_utf8 b) (frontmatterUpdates c m)]\<rparr>)
           | Inr content \<Rightarrow>
               (case write_at (root w) (OPENCODE_LEARN_AGENT_PATH cfg) (encode_utf8 content) of
                  Inl e \<Rightarrow> (Threw e, w\<lparr>trace := trace w @
                               [MergeCall (decode_utf8 b) (frontmatterUpdates c m)]\<rparr>)
                | Inr n' \<Rightarrow>
                    (Returned (Some (m, c)),
                     w\<lparr>root := n',
                       trace := trace w @ [MergeCall (decode_utf8 b) (frontmatterUpdates c m),
                                           WriteFile (OPENCODE_LEARN_AGENT_PATH cfg) content]\<rparr>))))"
  by (simp add: writeOpenCodeAgent_def andThen_def ret_def emit_def
      exists_sync_def existsSync_def readFileSync_def writeFileSync_def callUpdateFrontmatter_def
      Let_def split: option.splits node.splits sum.splits)

lemma ensureOpenCodeDirs_returned:
  assumes "ensureOpenCodeDirs cfg w = (Returned (), w1)"
  obtains es where "\<not> blocked (root w) (OPENCODE_AGENTS_DIR cfg)"
    and "bytes w1 = bytes w" and "trace w1 = trace w @ es"
    and "set es \<subseteq> {LogInfo ''Creating OpenCode config directory...'',
                     Mkdir (OPENCODE_CONFIG_DIR cfg), Mkdir (OPENCODE_AGENTS_DIR cfg)}"
    and "\<forall>p. existsSync p w \<longrightarrow> existsSync p w1"
proof (cases rule: ensureOpenCodeDirs_run [where w = w and cfg = cfg])
  case (made w1' es)
  with assms have "w1' = w1" by simp
  with made that show thesis by blast
next
  case (threw es)
  with assms show thesis by simp
qed

lemma ensureCopilotDirs_returned:
  assumes "ensureCopilotDirs cfg w = (Returned (), w1)"
  obtains es where "\<not> blocked (root w) (COPILOT_AGENTS_DIR cfg)"
    and "bytes w1 = bytes w" and "trace w1 = trace w @ es"
    and "set es \<subseteq> {Mkdir (COPILOT_AGENTS_DIR cfg)}"
    and "\<forall>p. existsSync p w \<longrightarrow> existsSync p w1"
proof (cases rule: ensureCopilotDirs_run [where w = w and cfg = cfg])
  case (made w1' es)
  with assms have "w1' = w1" by simp
  with made that show thesis by blast
next
  case threw
  with assms show thesis by simp
qed

lemma installOpenCode_blocked:
  assumes "blocked (root w) (OPENCODE_AGENTS_DIR cfg)"
  obtains es where
    "installOpenCode cfg usr opts i w = (Threw ''ENOTDIR'', w\<lparr>trace := trace w @ es\<rparr>)"
    and "set es \<subseteq> {LogInfo ''Creating OpenCode config directory...''}"
proof (cases rule: ensureOpenCodeDirs_run [where w = w and cfg = cfg])
  case (made w1 es)
  with assms show thesis by simp
next
  case (threw es)
  have "installOpenCode cfg usr opts i w = (Threw ''ENOTDIR'', w\<lparr>trace := trace w @ es\<rparr>)"
    by (simp add: installOpenCode_def Let_def
        andThen_Threw [where m = "ensureOpenCodeDirs cfg" and w = w, OF threw(2)])
  with threw(3) that show thesis by blast
qed

lemma installCopilot_blocked:
  assumes "blocked (root w) (COPILOT_AGENTS_DIR cfg)"
  shows "installCopilot cfg usr i w = (Threw ''ENOTDIR'', w)"
proof (cases rule: ensureCopilotDirs_run [where w = w and cfg = cfg])
  case (made w1 es)
  with assms show ?thesis by simp
next
  case threw
  show ?thesis
    by (simp add: installCopilot_def
        andThen_Threw [where m = "ensureCopilotDirs cfg" and w = w, OF threw(2)])
qed

lemma installOpenCode_run:
  assumes "installOpenCode cfg usr opts i w = (r, w')"
  obtains
    (dirs_threw) es where
      "blocked (root w) (OPENCODE_AGENTS_DIR cfg)"
      "r = Threw ''ENOTDIR''" "w' = w\<lparr>trace := trace w @ es\<rparr>"
      "set es \<subseteq> {LogInfo ''Creating OpenCode config directory...''}"
  | (stop_existing) w1 g where
      "ensureOpenCodeDirs cfg w = (Returned (), w1)"
      "checkExisting usr i (OPENCODE_LEARN_AGENT_PATH cfg) OverwriteOpenCode
         ''Skipping OpenCode installation.''
         ''OpenCode Learn agent already exists. Overwriting...'' w1 = (g, w')"
      "g \<noteq> Returned True" "r = halt g"
  | (stop_model) w1 w2 g where
      "ensureOpenCodeDirs cfg w = (Returned (), w1)"
      "checkExisting usr i (OPENCODE_LEARN_AGENT_PATH cfg) OverwriteOpenCode
         ''Skipping OpenCode installation.''
         ''OpenCode Learn agent already exists. Overwriting...'' w1 = (Returned True, w2)"
      "chooseModel cfg usr opts i (or_else (model opts) []) w2 = (g, w')"
      "\<forall>m. g \<noteq> Returned (Some m)" "r = halt g"
  | (stop_color) w1 w2 w3 m g where
      "ensureOpenCodeDirs cfg w = (Returned (), w1)"
      "checkExisting usr i (OPENCODE_LEARN_AGENT_PATH cfg) OverwriteOpenCode
         ''Skipping OpenCode installation.''
         ''OpenCode Learn agent already exists. Overwriting...'' w1 = (Returned True, w2)"
      "chooseModel cfg usr opts i (or_else (model opts) []) w2 = (Returned (Some m), w3)"
      "chooseColor cfg usr opts i (or_else (color opts) (DEFAULT_COLOR cfg)) w3 = (g, w')"
      "\<forall>c. g \<noteq> Returned (Some c)" "r = halt g"
  | (reached_write) w1 w2 w3 w4 m c where
      "ensureOpenCodeDirs cfg w = (Returned (), w1)"
      "checkExisting usr i (OPENCODE_LEARN_AGENT_PATH cfg) OverwriteOpenCode
         ''Skipping OpenCode installation.''
         ''OpenCode Learn agent already exists. Overwriting...'' w1 = (Returned True, w2)"
      "chooseModel cfg usr opts i (or_else (model opts) []) w2 = (Returned (Some m), w3)"
      "chooseColor cfg usr opts i (or_else (color opts) (DEFAULT_COLOR cfg)) w3 = (Returned (Some c), w4)"
      "writeOpenCodeAgent cfg m c w4 = (r, w')"
proof (cases rule: ensureOpenCodeDirs_run [where w = w and cfg = cfg])
  case (threw es)
  from installOpenCode_blocked [where usr = usr and opts = opts and i = i, OF threw(1)]
  obtain es' where "installOpenCode cfg usr opts i w = (Threw ''ENOTDIR'', w\<lparr>trace := trace w @ es'\<rparr>)"
    and "set es' \<subseteq> {LogInfo ''Creating OpenCode config directory...''}"
    by blast
  with assms have "r = Threw ''ENOTDIR''" "w' = w\<lparr>trace := trace w @ es'\<rparr>"
    and "set es' \<subseteq> {LogInfo ''Creating OpenCode config directory...''}" by simp_all
  with threw(1) show thesis by (rule dirs_threw)
next
  case (made w1 es)
  note w1 = made(2)
  show thesis
    using assms w1 stop_existing [of w1] stop_model [of w1] stop_color [of w1] reached_write [of w1]
    by (auto simp: installOpenCode_def andThen_def ret_def Let_def halt_def
        split: prod.splits outcome.splits option.splits if_splits)
qed

lemma checkExisting_any:
  assumes "checkExisting usr i t s sk ov w = (g, w')"
  obtains es where "root w' = root w" and "trace w' = trace w @ es"
    and "set es \<subseteq> {Asked s, LogWarning sk, LogWarning ov}"
    and "\<forall>s'. Asked s' \<in> set es \<longrightarrow> usr s' = Cancels \<longrightarrow> g = Returned False"
proof -
  have "root w' = root w \<and> (\<exists>es. trace w' = trace w @ es \<and> set es \<subseteq> {Asked s, LogWarning sk, LogWarning ov}
          \<and> (\<forall>s'. Asked s' \<in> set es \<longrightarrow> usr s' = Cancels \<longrightarrow> g = Returned False))"
    using assms by (auto simp: checkExisting_eq split: if_splits reply.splits)
  then show thesis using that by blast
qed

lemma chooseModel_any:
  assumes "chooseModel cfg usr opts i sm w = (g, w')"
  obtains es where "root w' = root w" and "trace w' = trace w @ es"
    and "set es \<subseteq> {Asked ModelChoice, Asked CustomModel}"
    and "\<forall>s'. Asked s' \<in> set es \<longrightarrow> usr s' = Cancels \<longrightarrow> g = Returned None"
    and "\<forall>m. g = Returned (Some m) \<longrightarrow> truthy (model opts) \<or> \<not> i \<longrightarrow> m = sm"
proof -
  have "root w' = root w \<and> (\<exists>es. trace w' = trace w @ es \<and> set es \<subseteq> {Asked ModelChoice, Asked CustomModel}
          \<and> (\<forall>s'. Asked s' \<in> set es \<longrightarrow> usr s' = Cancels \<longrightarrow> g = Returned None)
          \<and> (\<forall>m. g = Returned (Some m) \<longrightarrow> truthy (model opts) \<or> \<not> i \<longrightarrow> m = sm))"
    using assms by (auto simp: chooseModel_eq split: if_splits reply.splits)
  then show thesis using that by blast
qed

lemma chooseColor_any:
  assumes "chooseColor cfg usr opts i sc w = (g, w')"
  obtains es where "root w' = root w" and "trace w' = trace w @ es"
    and "set es \<subseteq> {Asked ColorChoice, Asked CustomColor,
           LogError (''Invalid hex color: '' @ or_else (color opts) [] @ ''. Use format #RRGGBB'')}"
    and "\<forall>s'. Asked s' \<in> set es \<longrightarrow> usr s' = Cancels \<longrightarrow> g = Returned None"
    and "\<forall>c. g = Returned (Some c) \<longrightarrow> truthy (color opts) \<longrightarrow>
           c = sc \<and> isValidHexColor cfg (or_else (color opts) [])"
    and "\<forall>c. g = Returned (Some c) \<longrightarrow> \<not> i \<longrightarrow> c = sc"
proof -
  have "root w' = root w \<and> (\<exists>es. trace w' = trace w @ es \<and> set es \<subseteq> {Asked ColorChoice, Asked CustomColor,
           LogError (''Invalid hex color: '' @ or_else (color opts) [] @ ''. Use format #RRGGBB'')}
          \<and> (\<forall>s'. Asked s' \<in> set es \<longrightarrow> usr s' = Cancels \<longrightarrow> g = Returned None)
          \<and> (\<forall>c. g = Returned (Some c) \<longrightarrow> truthy (color opts) \<longrightarrow>
                 c = sc \<and> isValidHexColor cfg (or_else (color opts) []))
          \<and> (\<forall>c. g = Returned (Some c) \<longrightarrow> \<not> i \<longrightarrow> c = sc))"
    using assms by (auto simp: chooseColor_eq split: if_splits reply.splits)
  then show thesis using that by blast
qed

lemma writeOpenCodeAgent_any:
  assumes "writeOpenCodeAgent cfg m c w = (r, w')"
  obtains es where "trace w' = trace w @ es"
    and "\<forall>s. Asked s \<notin> set es"
    and "\<forall>p x. WriteFile p x \<in> set es \<longrightarrow> p = OPENCODE_LEARN_AGENT_PATH cfg \<and>
           (\<exists>tpl. MergeCall tpl (frontmatterUpdates c m) \<in> set es \<and>
                  updateFrontmatter cfg tpl (frontmatterUpdates c m) = Inr x)"
    and "\<forall>t u. MergeCall t u \<in> set es \<longrightarrow>
           files w (getOpenCodeTemplatePath cfg) = Some t \<and> u = frontmatterUpdates c m"
    and "\<forall>t u e. MergeCall t u \<in> set es \<longrightarrow> updateFrontmatter cfg t u = Inl e \<longrightarrow> r = Threw e"
    and "(\<forall>x. r \<noteq> Returned (Some x)) \<longrightarrow> root w' = root w \<and> (\<forall>p x. WriteFile p x \<notin> set es)"
proof -
  have "\<exists>es. trace w' = trace w @ es
    \<and> (\<forall>s. Asked s \<notin> set es)
    \<and> (\<forall>p x. WriteFile p x \<in> set es \<longrightarrow> p = OPENCODE_LEARN_AGENT_PATH cfg \<and>
           (\<exists>tpl. MergeCall tpl (frontmatterUpdates c m) \<in> set es \<and>
                  updateFrontmatter cfg tpl (frontmatterUpdates c m) = Inr x))
    \<and> (\<forall>t u. MergeCall t u \<in> set es \<longrightarrow>
           files w (getOpenCodeTemplatePath cfg) = Some t \<and> u = frontmatterUpdates c m)
    \<and> (\<forall>t u e. MergeCall t u \<in> set es \<longrightarrow> updateFrontmatter cfg t u = Inl e \<longrightarrow> r = Threw e)
    \<and> ((\<forall>x. r \<noteq> Returned (Some x)) \<longrightarrow> root w' = root w \<and> (\<forall>p x. WriteFile p x \<notin> set es))"
    using assms
    by (auto simp: writeOpenCodeAgent_eq files_Some
        split: option.splits node.splits sum.splits if_splits)
  then show thesis using that by blast
qed

lemma chooseModel_passed:
  assumes "chooseModel cfg usr opts i sm w = (Returned (Some m), w')"
  shows "root w' = root w \<and>
         (\<exists>es. trace w' = trace w @ es \<and> set es \<subseteq> {Asked ModelChoice, Asked CustomModel}
            \<and> (i \<and> \<not> truthy (model opts) \<longrightarrow> Asked ModelChoice \<in> set es)
            \<and> (i \<and> \<not> truthy (model opts) \<longrightarrow>
                 (usr ModelChoice = Submits m \<and> m \<noteq> ''__custom__'' \<and> m \<in> set (MODEL_OPTIONS cfg))
               \<or> (usr ModelChoice = Submits ''__custom__'' \<and> Asked CustomModel \<in> set es
                    \<and> usr CustomModel = Submits m \<and> validate_model m = None))
            \<and> (\<not> (i \<and> \<not> truthy (model opts)) \<longrightarrow> es = [] \<and> m = sm))"
  using assms by (auto simp: chooseModel_eq split: if_splits reply.splits)

lemma installOpenCode_summary:
  assumes run: "installOpenCode cfg usr opts i w = (r, w')"
  obtains
    (stopped) es where "trace w' = trace w @ es" and "files w' = files w"
      and "\<forall>x. r \<noteq> Returned (Some x)"
      and "\<forall>p c. WriteFile p c \<notin> set es" and "\<forall>t u. MergeCall t u \<notin> set es"
      and "\<forall>s. Asked s \<in> set es \<longrightarrow> usr s = Cancels \<longrightarrow> r = Returned None"
  | (at_write) w4 es m c where "trace w4 = trace w @ es" and "files w4 = files w"
      and "\<forall>p c. WriteFile p c \<notin> set es" and "\<forall>t u. MergeCall t u \<notin> set es"
      and "\<forall>s. Asked s \<in> set es \<longrightarrow> usr s \<noteq> Cancels"
      and "writeOpenCodeAgent cfg m c w4 = (r, w')"
      and "truthy (model opts) \<or> \<not> i \<longrightarrow> m = or_else (model opts) []"
      and "truthy (color opts) \<longrightarrow> c = or_else (color opts) (DEFAULT_COLOR cfg)
             \<and> isValidHexColor cfg (or_else (color opts) [])"
      and "\<not> i \<longrightarrow> c = or_else (color opts) (DEFAULT_COLOR cfg)"
      and "i \<and> \<not> truthy (model opts) \<longrightarrow> Asked ModelChoice \<in> set es"
      and "i \<and> \<not> truthy (model opts) \<longrightarrow>
             (usr ModelChoice = Submits m \<and> m \<noteq> ''__custom__'' \<and> m \<in> set (MODEL_OPTIONS cfg))
           \<or> (usr ModelChoice = Submits ''__custom__'' \<and> Asked CustomModel \<in> set es
                \<and> usr CustomModel = Submits m \<and> validate_model m = None)"
  using run
proof (cases rule: installOpenCode_run)
  case (dirs_threw es)
  show thesis
  proof (rule stopped [of es])
    show "trace w' = trace w @ es" using dirs_threw by simp
    show "files w' = files w" using files_cong [of w' w] dirs_threw by simp
    show "\<forall>x. r \<noteq> Returned (Some x)" using dirs_threw by simp
    show "\<forall>p c. WriteFile p c \<notin> set es" using dirs_threw(4) by auto
    show "\<forall>t u. MergeCall t u \<notin> set es" using dirs_threw(4) by auto
    show "\<forall>s. Asked s \<in> set es \<longrightarrow> usr s = Cancels \<longrightarrow> r = Returned None"
      using dirs_threw(4) by auto
  qed
next
  case (stop_existing w1 g)
  from stop_existing(1) obtain es1 where b1: "bytes w1 = bytes w" and t1: "trace w1 = trace w @ es1"
    and e1: "set es1 \<subseteq> {LogInfo ''Creating OpenCode config directory...'',
                     Mkdir (OPENCODE_CONFIG_DIR cfg), Mkdir (OPENCODE_AGENTS_DIR cfg)}"
    by (rule ensureOpenCodeDirs_returned)
  have f1: "files w1 = files w" using b1 by (rule files_bytes)
  from stop_existing(2) obtain es2 where s2: "root w' = root w1" "trace w' = trace w1 @ es2"
    "set es2 \<subseteq> {Asked OverwriteOpenCode, LogWarning ''Skipping OpenCode installation.'',
       LogWarning ''OpenCode Learn agent already exists. Overwriting...''}"
    "\<forall>s'. Asked s' \<in> set es2 \<longrightarrow> usr s' = Cancels \<longrightarrow> g = Returned False"
    by (rule checkExisting_any) simp
  show thesis
  proof (rule stopped [of "es1 @ es2"])
    show "trace w' = trace w @ es1 @ es2" using s2 t1 by simp
    show "files w' = files w" using files_cong [of w' w1] s2 f1 by simp
    show "\<forall>x. r \<noteq> Returned (Some x)" using stop_existing by (auto simp: halt_def split: outcome.splits)
    show "\<forall>p c. WriteFile p c \<notin> set (es1 @ es2)" using e1 s2 by auto
    show "\<forall>t u. MergeCall t u \<notin> set (es1 @ es2)" using e1 s2 by auto
    show "\<forall>s. Asked s \<in> set (es1 @ es2) \<longrightarrow> usr s = Cancels \<longrightarrow> r = Returned None"
      using e1 s2 stop_existing(4) by (auto simp: halt_def)
  qed
next
  case (stop_model w1 w2 g)
  from stop_model(1) obtain es1 where b1: "bytes w1 = bytes w" and t1: "trace w1 = trace w @ es1"
    and e1: "set es1 \<subseteq> {LogInfo ''Creating OpenCode config directory...'',
                     Mkdir (OPENCODE_CONFIG_DIR cfg), Mkdir (OPENCODE_AGENTS_DIR cfg)}"
    by (rule ensureOpenCodeDirs_returned)
  have f1: "files w1 = files w" using b1 by (rule files_bytes)
  from stop_model(2) obtain es2 where s2: "root w2 = root w1" "trace w2 = trace w1 @ es2"
    "set es2 \<subseteq> {Asked OverwriteOpenCode, LogWarning ''Skipping OpenCode installation.'',
       LogWarning ''OpenCode Learn agent already exists. Overwriting...''}"
    "\<forall>s'. Asked s' \<in> set es2 \<longrightarrow> usr s' = Cancels \<longrightarrow> Returned True = Returned False"
    by (rule checkExisting_any) simp
  from stop_model(3) obtain es3 where s3: "root w' = root w2" "trace w' = trace w2 @ es3"
    "set es3 \<subseteq> {Asked ModelChoice, Asked CustomModel}"
    "\<forall>s'. Asked s' \<in> set es3 \<longrightarrow> usr s' = Cancels \<longrightarrow> g = Returned None"
    by (rule chooseModel_any) simp
  show thesis
  proof (rule stopped [of "es1 @ es2 @ es3"])
    show "trace w' = trace w @ es1 @ es2 @ es3" using s2 s3 t1 by simp
    show "files w' = files w" using files_cong [of w' w2] files_cong [of w2 w1] s2 s3 f1 by simp
    show "\<forall>x. r \<noteq> Returned (Some x)" using stop_model by (auto simp: halt_def split: outcome.splits)
    show "\<forall>p c. WriteFile p c \<notin> set (es1 @ es2 @ es3)" using e1 s2 s3 by auto
    show "\<forall>t u. MergeCall t u \<notin> set (es1 @ es2 @ es3)" using e1 s2 s3 by auto
    show "\<forall>s. Asked s \<in> set (es1 @ es2 @ es3) \<longrightarrow> usr s = Cancels \<longrightarrow> r = Returned None"
      using e1 s2 s3 stop_model(5) by (auto simp: halt_def)
  qed
next
  case (stop_color w1 w2 w3 m g)
  from stop_color(1) obtain es1 where b1: "bytes w1 = bytes w" and t1: "trace w1 = trace w @ es1"
    and e1: "set es1 \<subseteq> {LogInfo ''Creating OpenCode config directory...'',
                     Mkdir (OPENCODE_CONFIG_DIR cfg), Mkdir (OPENCODE_AGENTS_DIR cfg)}"
    by (rule ensureOpenCodeDirs_returned)
  have f1: "files w1 = files w" using b1 by (rule files_bytes)
  from stop_color(2) obtain es2 where s2: "root w2 = root w1" "trace w2 = trace w1 @ es2"
    "set es2 \<subseteq> {Asked OverwriteOpenCode, LogWarning ''Skipping OpenCode installation.'',
       LogWarning ''OpenCode Learn agent already exists. Overwriting...''}"
    "\<forall>s'. Asked s' \<in> set es2 \<longrightarrow> usr s' = Cancels \<longrightarrow> Returned True = Returned False"
    by (rule checkExisting_any) simp
  from stop_color(3) obtain es3 where s3: "root w3 = root w2" "trace w3 = trace w2 @ es3"
    "set es3 \<subseteq> {Asked ModelChoice, Asked CustomModel}"
    "\<forall>s'. Asked s' \<in> set es3 \<longrightarrow> usr s' = Cancels \<longrightarrow> Returned (Some m) = Returned None"
    by (rule chooseModel_any) simp
  from stop_color(4) obtain es4 where s4: "root w' = root w3" "trace w' = trace w3 @ es4"
    "set es4 \<subseteq> {Asked ColorChoice, Asked CustomColor,
         LogError (''Invalid hex color: '' @ or_else (color opts) [] @ ''. Use format #RRGGBB'')}"
    "\<forall>s'. Asked s' \<in> set es4 \<longrightarrow> usr s' = Cancels \<longrightarrow> g = Returned None"
    by (rule chooseColor_any) simp
  show thesis
  proof (rule stopped [of "es1 @ es2 @ es3 @ es4"])
    show "trace w' = trace w @ es1 @ es2 @ es3 @ es4" using s2 s3 s4 t1 by simp
    show "files w' = files w" using files_cong [of w' w3] files_cong [of w3 w2] files_cong [of w2 w1] s2 s3 s4 f1 by simp
    show "\<forall>x. r \<noteq> Returned (Some x)" using stop_color by (auto simp: halt_def split: outcome.splits)
    show "\<forall>p c. WriteFile p c \<notin> set (es1 @ es2 @ es3 @ es4)" using e1 s2 s3 s4 by auto
    show "\<forall>t u. MergeCall t u \<notin> set (es1 @ es2 @ es3 @ es4)" using e1 s2 s3 s4 by auto
    show "\<forall>s. Asked s \<in> set (es1 @ es2 @ es3 @ es4) \<longrightarrow> usr s = Cancels \<longrightarrow> r = Returned None"
      using e1 s2 s3 s4 stop_color(6) by (auto simp: halt_def)
  qed
next
  case (reached_write w1 w2 w3 w4 m c)
  from reached_write(1) obtain es1 where b1: "bytes w1 = bytes w" and t1: "trace w1 = trace w @ es1"
    and e1: "set es1 \<subseteq> {LogInfo ''Creating OpenCode config directory...'',
                     Mkdir (OPENCODE_CONFIG_DIR cfg), Mkdir (OPENCODE_AGENTS_DIR cfg)}"
    by (rule ensureOpenCodeDirs_returned)
  have f1: "files w1 = files w" using b1 by (rule files_bytes)
  from reached_write(2) obtain es2 where s2: "root w2 = root w1" "trace w2 = trace w1 @ es2"
    "set es2 \<subseteq> {Asked OverwriteOpenCode, LogWarning ''Skipping OpenCode installation.'',
       LogWarning ''OpenCode Learn agent already exists. Overwriting...''}"
    "\<forall>s'. Asked s' \<in> set es2 \<longrightarrow> usr s' = Cancels \<longrightarrow> Returned True = Returned False"
    by (rule checkExisting_any) simp
  from reached_write(3) obtain es3 where s3: "root w3 = root w2" "trace w3 = trace w2 @ es3"
    "set es3 \<subseteq> {Asked ModelChoice, Asked CustomModel}"
    "\<forall>s'. Asked s' \<in> set es3 \<longrightarrow> usr s' = Cancels \<longrightarrow> Returned (Some m) = Returned None"
    "\<forall>m'. Returned (Some m) = Returned (Some m') \<longrightarrow> truthy (model opts) \<or> \<not> i
         \<longrightarrow> m' = or_else (model opts) []"
    by (rule chooseModel_any) simp
  from chooseModel_passed [OF reached_write(3)] s3(2)
  have p3: "i \<and> \<not> truthy (model opts) \<longrightarrow> Asked ModelChoice \<in> set es3"
    and a3: "i \<and> \<not> truthy (model opts) \<longrightarrow>
             (usr ModelChoice = Submits m \<and> m \<noteq> ''__custom__'' \<and> m \<in> set (MODEL_OPTIONS cfg))
           \<or> (usr ModelChoice = Submits ''__custom__'' \<and> Asked CustomModel \<in> set es3
                \<and> usr CustomModel = Submits m \<and> validate_model m = None)"
    by auto
  from reached_write(4) obtain es4 where s4: "root w4 = root w3" "trace w4 = trace w3 @ es4"
    "set es4 \<subseteq> {Asked ColorChoice, Asked CustomColor,
         LogError (''Invalid hex color: '' @ or_else (color opts) [] @ ''. Use format #RRGGBB'')}"
    "\<forall>s'. Asked s' \<in> set es4 \<longrightarrow> usr s' = Cancels \<longrightarrow> Returned (Some c) = Returned None"
    "\<forall>c'. Returned (Some c) = Returned (Some c') \<longrightarrow> truthy (color opts) \<longrightarrow>
         c' = or_else (color opts) (DEFAULT_COLOR cfg) \<and> isValidHexColor cfg (or_else (color opts) [])"
    "\<forall>c'. Returned (Some c) = Returned (Some c') \<longrightarrow> \<not> i \<longrightarrow> c' = or_else (color opts) (DEFAULT_COLOR cfg)"
    by (rule chooseColor_any) simp
  show thesis
  proof (rule at_write [of w4 "es1 @ es2 @ es3 @ es4" m c])
    show "trace w4 = trace w @ es1 @ es2 @ es3 @ es4" using s2 s3 s4 t1 by simp
    show "files w4 = files w" using files_cong [of w4 w3] files_cong [of w3 w2] files_cong [of w2 w1] s2 s3 s4 f1 by simp
    show "\<forall>p c. WriteFile p c \<notin> set (es1 @ es2 @ es3 @ es4)" using e1 s2 s3 s4 by auto
    show "\<forall>t u. MergeCall t u \<notin> set (es1 @ es2 @ es3 @ es4)" using e1 s2 s3 s4 by auto
    show "\<forall>s. Asked s \<in> set (es1 @ es2 @ es3 @ es4) \<longrightarrow> usr s \<noteq> Cancels"
      using e1 s2 s3 s4 by auto
    show "writeOpenCodeAgent cfg m c w4 = (r, w')" by (rule reached_write(5))
    show "truthy (model opts) \<or> \<not> i \<longrightarrow> m = or_else (model opts) []" using s3(5) by simp
    show "truthy (color opts) \<longrightarrow> c = or_else (color opts) (DEFAULT_COLOR cfg)
           \<and> isValidHexColor cfg (or_else (color opts) [])" using s4(5) by simp
    show "\<not> i \<longrightarrow> c = or_else (color opts) (DEFAULT_COLOR cfg)" using s4(6) by simp
    show "i \<and> \<not> truthy (model opts) \<longrightarrow> Asked ModelChoice \<in> set (es1 @ es2 @ es3 @ es4)"
      using p3 by auto
    show "i \<and> \<not> truthy (model opts) \<longrightarrow>
             (usr ModelChoice = Submits m \<and> m \<noteq> ''__custom__'' \<and> m \<in> set (MODEL_OPTIONS cfg))
           \<or> (usr ModelChoice = Submits ''__custom__'' \<and> Asked CustomModel \<in> set (es1 @ es2 @ es3 @ es4)
                \<and> usr CustomModel = Submits m \<and> validate_model m = None)"
      using a3 by auto
  qed
qed

lemma only_adds_ret: "only_adds Q (ret a)"
  by (simp add: only_adds_def ret_def)

lemma only_adds_emit: "Q e \<Longrightarrow> only_adds Q (emit e)"
  by (simp add: only_adds_def emit_def)

lemma only_adds_andThen:
  assumes "only_adds Q m" and "\<And>a. only_adds Q (f a)"
  shows "only_adds Q (andThen m f)"
proof -
  have "\<exists>es. trace (snd (andThen m f w)) = trace w @ es \<and> list_all Q es" for w
  proof -
    obtain g w1 where m: "m w = (g, w1)" by (cases "m w")
    from assms(1) m obtain es1 where e1: "trace w1 = trace w @ es1" "list_all Q es1"
      by (auto simp: only_adds_def dest: spec [of _ w])
    show ?thesis
    proof (cases g)
      case (Returned a)
      from assms(2) [of a] obtain es2 where "trace (snd (f a w1)) = trace w1 @ es2" "list_all Q es2"
        by (auto simp: only_adds_def)
      with m Returned e1 have "trace (snd (andThen m f w)) = trace w @ (es1 @ es2) \<and> list_all Q (es1 @ es2)"
        by (simp add: andThen_def)
      then show ?thesis by blast
    qed (use m e1 in \<open>auto simp: andThen_def\<close>)
  qed
  then show ?thesis by (simp add: only_adds_def)
qed

lemma only_adds_if: "only_adds Q a \<Longrightarrow> only_adds Q b \<Longrightarrow> only_adds Q (if c then a else b)"
  by simp

lemma only_adds_option:
  "only_adds Q a \<Longrightarrow> (\<And>x. only_adds Q (f x)) \<Longrightarrow> only_adds Q (case v of None \<Rightarrow> a | Some x \<Rightarrow> f x)"
  by (cases v) simp_all

lemma only_adds_exists_sync: "only_adds Q (exists_sync p)"
  by (simp add: only_adds_def exists_sync_def)

lemma only_adds_mkdirSync: "Q (Mkdir p) \<Longrightarrow> only_adds Q (mkdirSync p)"
  by (simp add: only_adds_def mkdirSync_def split: sum.splits)

lemma only_adds_readFileSync: "only_adds Q (readFileSync p)"
  by (simp add: only_adds_def readFileSync_def split: option.splits node.splits)

lemma only_adds_writeFileSync: "Q (WriteFile p c) \<Longrightarrow> only_adds Q (writeFileSync p c)"
  by (simp add: only_adds_def writeFileSync_def split: sum.splits)

lemma only_adds_callUpdateFrontmatter:
  "Q (MergeCall t u) \<Longrightarrow> only_adds Q (callUpdateFrontmatter cfg t u)"
  by (simp add: only_adds_def callUpdateFrontmatter_def Let_def split: sum.splits)

lemma only_adds_checkExisting:
  "(i \<Longrightarrow> Q (Asked s)) \<Longrightarrow> Q (LogWarning sk) \<Longrightarrow> Q (LogWarning ov)
     \<Longrightarrow> only_adds Q (checkExisting usr i t s sk ov)"
  by (auto simp: only_adds_def checkExisting_eq split: reply.splits)

lemma only_adds_chooseModel:
  "(i \<Longrightarrow> Q (Asked ModelChoice) \<and> Q (Asked CustomModel))
     \<Longrightarrow> only_adds Q (chooseModel cfg usr opts i sm)"
  by (auto simp: only_adds_def chooseModel_eq split: reply.splits)

lemma only_adds_chooseColor:
  "(i \<Longrightarrow> Q (Asked ColorChoice) \<and> Q (Asked CustomColor)) \<Longrightarrow> (\<And>m. Q (LogError m))
     \<Longrightarrow> only_adds Q (chooseColor cfg usr opts i sc)"
  by (auto simp: only_adds_def chooseColor_eq split: reply.splits)

lemmas only_adds_intros = only_adds_andThen only_adds_ret only_adds_emit only_adds_if
  only_adds_option only_adds_exists_sync only_adds_mkdirSync only_adds_readFileSync
  only_adds_writeFileSync only_adds_callUpdateFrontmatter only_adds_checkExisting
  only_adds_chooseModel only_adds_chooseColor

lemma only_adds_writeOpenCodeAgent: "only_adds (unprompted i) (writeOpenCodeAgent cfg m c)"
  unfolding writeOpenCodeAgent_def Let_def
  by (intro only_adds_intros) (simp_all add: unprompted_def)

lemma only_adds_installOpenCode: "only_adds (unprompted i) (installOpenCode cfg usr opts i)"
  unfolding installOpenCode_def ensureOpenCodeDirs_def Let_def
  by (intro only_adds_intros only_adds_writeOpenCodeAgent) (simp_all add: unprompted_def)

lemma only_adds_writeCopilotAgent: "only_adds (unprompted i) (writeCopilotAgent cfg)"
  unfolding writeCopilotAgent_def Let_def
  by (intro only_adds_intros) (simp_all add: unprompted_def)

lemma only_adds_installCopilot: "only_adds (unprompted i) (installCopilot cfg usr i)"
  unfolding installCopilot_def ensureCopilotDirs_def
  by (intro only_adds_intros only_adds_writeCopilotAgent) (simp_all add: unprompted_def)

lemma only_adds_showResults: "only_adds (unprompted i) (showResults cfg a b)"
  unfolding showResults_def Let_def
  by (intro only_adds_intros) (simp_all add: unprompted_def)

lemma only_adds_installPlatforms: "only_adds (unprompted i) (installPlatforms cfg usr opts i ps)"
  unfolding installPlatforms_def openCodePhase_def copilotPhase_def
  by (intro only_adds_intros only_adds_installOpenCode only_adds_installCopilot only_adds_showResults)
     (simp_all add: unprompted_def)

lemma only_adds_events:
  assumes "only_adds Q m"
  shows "list_all Q (events_since w (snd (m w)))"
  using assms by (auto simp: only_adds_def events_since_def dest: spec [of _ w])

lemma only_adds_mem:
  assumes "only_adds Q m" and "trace w = trace w0 @ es" and "e \<in> set es"
  shows "e \<in> set (events_since w0 (snd (m w)))"
proof -
  from assms(1) obtain es' where "trace (snd (m w)) = trace w @ es'"
    by (auto simp: only_adds_def)
  with assms show ?thesis by (simp add: events_since_def)
qed

lemma unprompted_no_ask:
  assumes "list_all (unprompted False) es"
  shows "Asked s \<notin> set es"
  using assms by (auto simp: list_all_iff unprompted_def)

lemma showResults_returns: "fst (showResults cfg a b w) = Returned ()"
  by (simp add: showResults_def Let_def andThen_def emit_def)

lemma checkExisting_passed:
  assumes "checkExisting usr i t s sk ov w = (Returned True, w')"
  shows "root w' = root w \<and>
         trace w' = trace w @ (if existsSync t w then (if i then [Asked s] else [LogWarning ov]) else [])
         \<and> (existsSync t w \<and> i \<longrightarrow> usr s = Says True)"
  using assms by (auto simp: checkExisting_eq split: if_splits reply.splits)

lemma checkExisting_stopped':
  assumes "checkExisting usr i t s sk ov w = (g, w')" and "g \<noteq> Returned True"
  shows "existsSync t w \<and> i \<and> root w' = root w \<and>
         ((g = Returned False \<and> (usr s = Cancels \<or> usr s = Says False)
            \<and> trace w' = trace w @ [Asked s, LogWarning sk])
          \<or> (g = Waiting s \<and> (\<exists>v. usr s = Submits v) \<and> trace w' = trace w @ [Asked s]))"
  using assms by (auto simp: checkExisting_eq split: if_splits reply.splits)

lemma chooseModel_stopped:
  assumes "chooseModel cfg usr opts i sm w = (g, w')" and "\<forall>m. g \<noteq> Returned (Some m)"
  shows "i \<and> \<not> truthy (model opts) \<and> root w' = root w \<and>
         (\<exists>es. trace w' = trace w @ es \<and> set es \<subseteq> {Asked ModelChoice, Asked CustomModel}
            \<and> ((g = Returned None \<and> (\<exists>s. Asked s \<in> set es \<and> usr s = Cancels))
                \<or> (\<exists>s. g = Waiting s \<and> Asked s \<in> set es)))"
  using assms by (auto simp: chooseModel_eq split: if_splits reply.splits)

lemma chooseColor_invalid:
  assumes "truthy (color opts)" and "\<not> isValidHexColor cfg (or_else (color opts) [])"
  shows "chooseColor cfg usr opts i sc w =
           (Returned None, w\<lparr>trace := trace w @ [LogError (''Invalid hex color: ''
              @ or_else (color opts) [] @ ''. Use format #RRGGBB'')]\<rparr>)"
  using assms by (simp add: chooseColor_eq)

lemma installOpenCode_noninteractive:
  assumes "ensureOpenCodeDirs cfg w = (Returned (), w1)"
  shows "installOpenCode cfg usr opts False w =
    (let w2 = (if existsSync (OPENCODE_LEARN_AGENT_PATH cfg) w1
               then w1\<lparr>trace := trace w1 @ [LogWarning ''OpenCode Learn agent already exists. Overwriting...'']\<rparr>
               else w1) in
     if truthy (color opts) \<and> \<not> isValidHexColor cfg (or_else (color opts) [])
     then (Returned None, w2\<lparr>trace := trace w2 @ [LogError (''Invalid hex color: ''
              @ or_else (color opts) [] @ ''. Use format #RRGGBB'')]\<rparr>)
     else writeOpenCodeAgent cfg (or_else (model opts) []) (or_else (color opts) (DEFAULT_COLOR cfg)) w2)"
  using assms
  by (simp add: installOpenCode_def andThen_def checkExisting_eq chooseModel_eq chooseColor_eq
      ret_def Let_def)

lemma truthy_Some: "truthy (Some c) \<longleftrightarrow> c \<noteq> []"
  by (simp add: truthy_def)

lemma or_else_Some: "c \<noteq> [] \<Longrightarrow> or_else (Some c) d = c"
  by (simp add: or_else_def)

lemma writeCopilotAgent_eq:
  "writeCopilotAgent cfg w =
     (case lookup (root w) (getCopilotTemplatePath cfg) of
        None \<Rightarrow> (Returned False, w\<lparr>trace := trace w @
                   [LogError (''GitHub Copilot template not found at ''
                                @ path_string (getCopilotTemplatePath cfg))]\<rparr>)
      | Some (Dir d) \<Rightarrow> (Threw ''EISDIR'', w)
      | Some (File b) \<Rightarrow>
          (case write_at (root w) (COPILOT_LEARN_AGENT_PATH cfg) (encode_utf8 (decode_utf8 b)) of
             Inl e \<Rightarrow> (Threw e, w)
           | Inr n' \<Rightarrow>
               (Returned True,
                w\<lparr>root := n',
                  trace := trace w @ [WriteFile (COPILOT_LEARN_AGENT_PATH cfg) (decode_utf8 b)]\<rparr>)))"
  by (simp add: writeCopilotAgent_def andThen_def ret_def emit_def
      exists_sync_def existsSync_def readFileSync_def writeFileSync_def
      Let_def split: option.splits node.splits sum.splits)

lemma installCopilot_run:
  assumes "installCopilot cfg usr i w = (r, w')"
  obtains
    (dirs_threw) "blocked (root w) (COPILOT_AGENTS_DIR cfg)" "r = Threw ''ENOTDIR''" "w' = w"
  | (stop_existing) w1 g where
      "ensureCopilotDirs cfg w = (Returned (), w1)"
      "checkExisting usr i (COPILOT_LEARN_AGENT_PATH cfg) OverwriteCopilot
         ''Skipping GitHub Copilot installation.''
         ''GitHub Copilot Learn agent already exists. Overwriting...'' w1 = (g, w')"
      "g \<noteq> Returned True" "g = Returned False \<longrightarrow> r = Returned False"
      "r \<noteq> Returned True"
  | (reached_write) w1 w2 where
      "ensureCopilotDirs cfg w = (Returned (), w1)"
      "checkExisting usr i (COPILOT_LEARN_AGENT_PATH cfg) OverwriteCopilot
         ''Skipping GitHub Copilot installation.''
         ''GitHub Copilot Learn agent already exists. Overwriting...'' w1 = (Returned True, w2)"
      "writeCopilotAgent cfg w2 = (r, w')"
proof (cases rule: ensureCopilotDirs_run [where w = w and cfg = cfg])
  case threw
  from assms installCopilot_blocked [where usr = usr and i = i, OF threw(1)]
  have "r = Threw ''ENOTDIR''" "w' = w" by simp_all
  with threw(1) show thesis by (rule dirs_threw)
next
  case (made w1 es)
  note w1 = made(2)
  show thesis
    using assms w1 stop_existing [of w1] reached_write [of w1]
    by (auto simp: installCopilot_def andThen_def ret_def
        split: prod.splits outcome.splits if_splits)
qed

lemma installOpenCode_afterCheck:
  assumes "ensureOpenCodeDirs cfg w = (Returned (), w1)"
  shows "installOpenCode cfg usr opts i w =
           andThen (checkExisting usr i (OPENCODE_LEARN_AGENT_PATH cfg) OverwriteOpenCode
                      ''Skipping OpenCode installation.''
                      ''OpenCode Learn agent already exists. Overwriting...'')
                   (afterCheck cfg usr opts i) w1"
proof -
  have "afterCheck cfg usr opts i = (\<lambda>go. if \<not> go then ret None else
      andThen (chooseModel cfg usr opts i (or_else (model opts) [])) (\<lambda>m.
      case m of
        None \<Rightarrow> ret None
      | Some selectedModel \<Rightarrow>
          andThen (chooseColor cfg usr opts i (or_else (color opts) (DEFAULT_COLOR cfg))) (\<lambda>c.
          case c of
            None \<Rightarrow> ret None
          | Some selectedColor \<Rightarrow> writeOpenCodeAgent cfg selectedModel selectedColor)))"
    by (rule ext) (simp add: afterCheck_def)
  then show ?thesis
    by (simp add: installOpenCode_def Let_def
        andThen_Returned [where m = "ensureOpenCodeDirs cfg" and w = w, OF assms])
qed

lemma only_adds_afterCheck: "only_adds (unprompted i) (afterCheck cfg usr opts i go)"
  unfolding afterCheck_def
  by (intro only_adds_intros only_adds_writeOpenCodeAgent) (simp_all add: unprompted_def)

lemma installCopilot_afterCheck:
  assumes "ensureCopilotDirs cfg w = (Returned (), w1)"
  shows "installCopilot cfg usr i w =
           andThen (checkExisting usr i (COPILOT_LEARN_AGENT_PATH cfg) OverwriteCopilot
                      ''Skipping GitHub Copilot installation.''
                      ''GitHub Copilot Learn agent already exists. Overwriting...'')
                   (\<lambda>go. if \<not> go then ret False else writeCopilotAgent cfg) w1"
  by (simp add: installCopilot_def
      andThen_Returned [where m = "ensureCopilotDirs cfg" and w = w, OF assms])

lemma andThen_keeps:
  assumes "\<And>a. only_adds Q (f a)"
    and "trace (snd (m w)) = trace w0 @ es" and "e \<in> set es"
  shows "e \<in> set (events_since w0 (snd (andThen m f w)))"
proof -
  obtain g w1 where m: "m w = (g, w1)" by (cases "m w")
  show ?thesis
  proof (cases g)
    case (Returned a)
    with m have "andThen m f w = f a w1" by (simp add: andThen_def)
    with only_adds_mem [OF assms(1) [of a], of w1 w0 es e] assms(2,3) m show ?thesis by simp
  qed (use assms m in \<open>auto simp: andThen_def events_since_def\<close>)
qed

lemma checkExisting_asks:
  assumes "existsSync t w"
  shows "\<exists>tail. trace (snd (checkExisting usr True t s sk ov w)) = trace w @ Asked s # tail"
  using assms by (simp add: checkExisting_eq split: reply.splits)

lemma checkExisting_warns:
  assumes "existsSync t w"
  shows "checkExisting usr False t s sk ov w = (Returned True, w\<lparr>trace := trace w @ [LogWarning ov]\<rparr>)"
  using assms by (simp add: checkExisting_eq)

lemma installOpenCode_overwrite_asked:
  assumes ex: "existsSync (OPENCODE_LEARN_AGENT_PATH cfg) w"
    and run: "installOpenCode cfg usr opts True w = (r, w')"
  shows "Asked OverwriteOpenCode \<in> set (events_since w w')"
proof -
  have w1: "ensureOpenCodeDirs cfg w = (Returned (), w)"
    using ex by (rule ensureOpenCodeDirs_present)
  let ?check = "checkExisting usr True (OPENCODE_LEARN_AGENT_PATH cfg) OverwriteOpenCode
         ''Skipping OpenCode installation.''
         ''OpenCode Learn agent already exists. Overwriting...''"
  from checkExisting_asks [of "OPENCODE_LEARN_AGENT_PATH cfg" w] ex
  obtain tail where t2: "trace (snd (?check w)) = trace w @ (Asked OverwriteOpenCode # tail)"
    by blast
  have "Asked OverwriteOpenCode
          \<in> set (events_since w (snd (andThen ?check (afterCheck cfg usr opts True) w)))"
    by (rule andThen_keeps [where Q = "unprompted True"
          and es = "Asked OverwriteOpenCode # tail"])
       (simp_all add: only_adds_afterCheck t2)
  with run show ?thesis by (simp add: installOpenCode_afterCheck [OF w1])
qed

lemma installOpenCode_declined:
  assumes ex: "existsSync (OPENCODE_LEARN_AGENT_PATH cfg) w"
    and no: "usr OverwriteOpenCode = Cancels \<or> usr OverwriteOpenCode = Says False"
    and run: "installOpenCode cfg usr opts True w = (r, w')"
  shows "r = Returned None \<and> files w' = files w \<and> (\<forall>p x. WriteFile p x \<notin> set (events_since w w'))"
proof -
  have w1: "ensureOpenCodeDirs cfg w = (Returned (), w)"
    using ex by (rule ensureOpenCodeDirs_present)
  let ?w' = "w\<lparr>trace := trace w @ [Asked OverwriteOpenCode,
                 LogWarning ''Skipping OpenCode installation.'']\<rparr>"
  have "installOpenCode cfg usr opts True w = (Returned None, ?w')"
    using ex no
    by (auto simp: installOpenCode_afterCheck [OF w1] andThen_def checkExisting_eq
        afterCheck_def ret_def)
  with run have r: "r = Returned None" and w': "w' = ?w'" by simp_all
  have "events_since w ?w' = [Asked OverwriteOpenCode, LogWarning ''Skipping OpenCode installation.'']"
    by (simp add: events_since_def)
  moreover have "files ?w' = files w" using files_cong [of ?w' w] by simp
  ultimately show ?thesis using r w' by auto
qed

lemma only_adds_copilot_rest:
  "only_adds (unprompted i) (if \<not> go then ret False else writeCopilotAgent cfg)"
  by (intro only_adds_intros only_adds_writeCopilotAgent)

lemma installCopilot_overwrite_asked:
  assumes ex: "existsSync (COPILOT_LEARN_AGENT_PATH cfg) w"
    and run: "installCopilot cfg usr True w = (r, w')"
  shows "Asked OverwriteCopilot \<in> set (events_since w w')"
proof -
  have w1: "ensureCopilotDirs cfg w = (Returned (), w)"
    using ex by (rule ensureCopilotDirs_present)
  let ?check = "checkExisting usr True (COPILOT_LEARN_AGENT_PATH cfg) OverwriteCopilot
                ''Skipping GitHub Copilot installation.''
                ''GitHub Copilot Learn agent already exists. Overwriting...''"
  from checkExisting_asks [of "COPILOT_LEARN_AGENT_PATH cfg" w] ex
  obtain tail where t2: "trace (snd (?check w)) = trace w @ (Asked OverwriteCopilot # tail)"
    by blast
  have "Asked OverwriteCopilot
          \<in> set (events_since w (snd (andThen ?check
                (\<lambda>go. if \<not> go then ret False else writeCopilotAgent cfg) w)))"
    by (rule andThen_keeps [where Q = "unprompted True"
          and es = "Asked OverwriteCopilot # tail"])
       (simp_all add: only_adds_copilot_rest t2)
  with run show ?thesis by (simp add: installCopilot_afterCheck [OF w1])
qed

lemma installCopilot_declined:
  assumes ex: "existsSync (COPILOT_LEARN_AGENT_PATH cfg) w"
    and no: "usr OverwriteCopilot = Cancels \<or> usr OverwriteCopilot = Says False"
    and run: "installCopilot cfg usr True w = (r, w')"
  shows "r = Returned False \<and> files w' = files w \<and> (\<forall>p x. WriteFile p x \<notin> set (events_since w w'))"
proof -
  have w1: "ensureCopilotDirs cfg w = (Returned (), w)"
    using ex by (rule ensureCopilotDirs_present)
  let ?w' = "w\<lparr>trace := trace w @ [Asked OverwriteCopilot,
                 LogWarning ''Skipping GitHub Copilot installation.'']\<rparr>"
  have "installCopilot cfg usr True w = (Returned False, ?w')"
    using ex no
    by (auto simp: installCopilot_afterCheck [OF w1] andThen_def checkExisting_eq ret_def)
  with run have r: "r = Returned False" and w': "w' = ?w'" by simp_all
  have "events_since w ?w' = [Asked OverwriteCopilot, LogWarning ''Skipping GitHub Copilot installation.'']"
    by (simp add: events_since_def)
  moreover have "files ?w' = files w" using files_cong [of ?w' w] by simp
  ultimately show ?thesis using r w' by auto
qed

lemma written_file:
  assumes "write_at (root w) p (encode_utf8 c) = Inr n'"
  shows "files (w\<lparr>root := n', trace := tr\<rparr>) p = Some c"
  using write_at_lookup [OF assms] by (simp add: files_Some decode_encode)

lemma installOpenCode_overwrites:
  assumes oc: "files w (OPENCODE_LEARN_AGENT_PATH cfg) = Some old"
    and run: "installOpenCode cfg usr opts False w = (r, w')"
  shows "LogWarning ''OpenCode Learn agent already exists. Overwriting...'' \<in> set (events_since w w')
    \<and> (\<forall>t content.
          \<not> (truthy (color opts) \<and> \<not> isValidHexColor cfg (or_else (color opts) []))
          \<and> files w (getOpenCodeTemplatePath cfg) = Some t
          \<and> updateFrontmatter cfg t
               (frontmatterUpdates (or_else (color opts) (DEFAULT_COLOR cfg)) (or_else (model opts) []))
              = Inr content
          \<longrightarrow> r = Returned (Some (or_else (model opts) [], or_else (color opts) (DEFAULT_COLOR cfg)))
            \<and> files w' (OPENCODE_LEARN_AGENT_PATH cfg) = Some content
            \<and> (\<forall>m. LogError m \<notin> set (events_since w w'))
            \<and> (\<forall>m. LogWarning m \<in> set (events_since w w')
                   \<longrightarrow> m = ''OpenCode Learn agent already exists. Overwriting...''))"
proof -
  let ?t = "OPENCODE_LEARN_AGENT_PATH cfg"
  let ?warn = "LogWarning ''OpenCode Learn agent already exists. Overwriting...''"
  let ?w2 = "w\<lparr>trace := trace w @ [?warn]\<rparr>"
  let ?M = "or_else (model opts) []"
  let ?C = "or_else (color opts) (DEFAULT_COLOR cfg)"
  have ex1: "existsSync ?t w" using oc by (rule files_existsSync)
  have w1: "ensureOpenCodeDirs cfg w = (Returned (), w)"
    using ex1 by (rule ensureOpenCodeDirs_present)
  have c: "checkExisting usr False ?t OverwriteOpenCode ''Skipping OpenCode installation.''
         ''OpenCode Learn agent already exists. Overwriting...'' w = (Returned True, ?w2)"
    by (rule checkExisting_warns [OF ex1])
  have t2: "trace (snd (checkExisting usr False ?t OverwriteOpenCode
         ''Skipping OpenCode installation.''
         ''OpenCode Learn agent already exists. Overwriting...'' w)) = trace w @ [?warn]"
    using c by simp
  have "?warn \<in> set (events_since w (snd (andThen (checkExisting usr False ?t OverwriteOpenCode
         ''Skipping OpenCode installation.''
         ''OpenCode Learn agent already exists. Overwriting...'') (afterCheck cfg usr opts False) w)))"
    by (rule andThen_keeps [where Q = "unprompted False" and es = "[?warn]"])
       (simp_all add: only_adds_afterCheck t2)
  with run have warned: "?warn \<in> set (events_since w w')"
    by (simp add: installOpenCode_afterCheck [OF w1])
  have overwritten: "r = Returned (Some (?M, ?C))
            \<and> files w' ?t = Some content
            \<and> (\<forall>m. LogError m \<notin> set (events_since w w'))
            \<and> (\<forall>m. LogWarning m \<in> set (events_since w w')
                   \<longrightarrow> m = ''OpenCode Learn agent already exists. Overwriting...'')"
    if ok: "\<not> (truthy (color opts) \<and> \<not> isValidHexColor cfg (or_else (color opts) []))"
      and tpl: "files w (getOpenCodeTemplatePath cfg) = Some t"
      and mrg: "updateFrontmatter cfg t (frontmatterUpdates ?C ?M) = Inr content"
    for t content
  proof -
    from tpl obtain bt where a: "lookup (root w) (getOpenCodeTemplatePath cfg) = Some (File bt)"
      and t: "t = decode_utf8 bt"
      by (auto simp: files_Some)
    from oc obtain bo where b: "lookup (root w) ?t = Some (File bo)"
      by (auto simp: files_Some)
    from write_at_existing [OF b, of "encode_utf8 content"]
    obtain n' where n': "write_at (root w) ?t (encode_utf8 content) = Inr n'" by blast
    let ?w' = "w\<lparr>root := n',
                  trace := trace w @ [?warn, MergeCall t (frontmatterUpdates ?C ?M),
                                      WriteFile ?t content]\<rparr>"
    have "installOpenCode cfg usr opts False w = (Returned (Some (?M, ?C)), ?w')"
      using ok ex1 a n' mrg t
      by (simp add: installOpenCode_noninteractive [OF w1] Let_def writeOpenCodeAgent_eq)
    with run have r: "r = Returned (Some (?M, ?C))" and w': "w' = ?w'" by simp_all
    have ev: "events_since w ?w' = [?warn, MergeCall t (frontmatterUpdates ?C ?M), WriteFile ?t content]"
      by (simp add: events_since_def)
    have "files ?w' ?t = Some content" using n' by (rule written_file)
    then show ?thesis using r unfolding w' ev by auto
  qed
  from warned overwritten show ?thesis by blast
qed

lemma only_adds_resolvePlatforms: "only_adds (unprompted i) (resolvePlatforms cfg usr opts i)"
  by (auto simp: only_adds_def resolvePlatforms_def ret_def andThen_def p_select_def emit_def
      unprompted_def Let_def split: reply.splits)

lemma only_adds_install: "only_adds (unprompted (tui opts \<noteq> Some False)) (install cfg usr opts)"
  unfolding install_def Let_def
  by (intro only_adds_intros only_adds_resolvePlatforms only_adds_installPlatforms)
     (simp add: unprompted_def)

text \<open>Lines 286-319 when the OpenCode phase has returned \<^verbatim>\<open>false\<close>.\<close>

lemma installPlatforms_skipped:
  assumes "''opencode'' \<in> set ps" and "''copilot'' \<in> set ps"
    and "installOpenCode cfg usr opts i w = (Returned None, w')"
  shows "installPlatforms cfg usr opts i ps w
           = andThen (installCopilot cfg usr i)
               (\<lambda>b. andThen (emit (SpinnerStop (if b then ''GitHub Copilot agent installed.''
                                                 else ''GitHub Copilot installation skipped.'')))
                       (\<lambda>_. showResults cfg None b))
               (w'\<lparr>trace := trace w' @ [SpinnerStart ''Installing GitHub Copilot agent...'']\<rparr>)"
proof -
  let ?v = "w'\<lparr>trace := trace w' @ [SpinnerStart ''Installing GitHub Copilot agent...'']\<rparr>"
  obtain g v' where g: "installCopilot cfg usr i ?v = (g, v')"
    by (cases "installCopilot cfg usr i ?v")
  show ?thesis
    using assms g
    by (cases g)
       (simp_all add: installPlatforms_def openCodePhase_def copilotPhase_def andThen_def
          emit_def ret_def)
qed

lemma copilot_returns:
  assumes "installCopilot cfg usr i v = (Returned b, v')"
  shows "fst (andThen (installCopilot cfg usr i)
               (\<lambda>b. andThen (emit (SpinnerStop (if b then ''GitHub Copilot agent installed.''
                                                 else ''GitHub Copilot installation skipped.'')))
                       (\<lambda>_. showResults cfg oc b)) v) = Returned ()"
  using assms by (simp add: andThen_def emit_def showResults_returns)

lemma installPlatforms_threw:
  assumes "''opencode'' \<in> set ps" and "installOpenCode cfg usr opts i w = (Threw e, w')"
  shows "installPlatforms cfg usr opts i ps w = (Threw e, w')"
  using assms by (simp add: installPlatforms_def openCodePhase_def andThen_def)

lemma installCopilot_overwrites:
  assumes cp: "files w (COPILOT_LEARN_AGENT_PATH cfg) = Some old"
    and run: "installCopilot cfg usr False w = (r, w')"
  shows "LogWarning ''GitHub Copilot Learn agent already exists. Overwriting...''
           \<in> set (events_since w w')
    \<and> (\<forall>t. files w (getCopilotTemplatePath cfg) = Some t
          \<longrightarrow> r = Returned True
            \<and> files w' (COPILOT_LEARN_AGENT_PATH cfg) = Some t
            \<and> (\<forall>m. LogError m \<notin> set (events_since w w'))
            \<and> (\<forall>m. LogWarning m \<in> set (events_since w w')
                   \<longrightarrow> m = ''GitHub Copilot Learn agent already exists. Overwriting...''))"
proof -
  let ?t = "COPILOT_LEARN_AGENT_PATH cfg"
  let ?warn = "LogWarning ''GitHub Copilot Learn agent already exists. Overwriting...''"
  let ?w2 = "w\<lparr>trace := trace w @ [?warn]\<rparr>"
  have ex1: "existsSync ?t w" using cp by (rule files_existsSync)
  have w1: "ensureCopilotDirs cfg w = (Returned (), w)"
    using ex1 by (rule ensureCopilotDirs_present)
  from cp obtain bo where b: "lookup (root w) ?t = Some (File bo)"
    by (auto simp: files_Some)
  have eq: "installCopilot cfg usr False w = writeCopilotAgent cfg ?w2"
    by (simp add: installCopilot_afterCheck [OF w1] andThen_def checkExisting_warns [OF ex1])
  have "\<exists>es. trace w' = trace w @ ?warn # es"
    using run unfolding eq
    by (auto simp: writeCopilotAgent_eq split: option.splits node.splits sum.splits)
  then have warned: "?warn \<in> set (events_since w w')"
    by (auto simp: events_since_def)
  have overwritten: "r = Returned True
            \<and> files w' ?t = Some t
            \<and> (\<forall>m. LogError m \<notin> set (events_since w w'))
            \<and> (\<forall>m. LogWarning m \<in> set (events_since w w')
                   \<longrightarrow> m = ''GitHub Copilot Learn agent already exists. Overwriting...'')"
    if tpl: "files w (getCopilotTemplatePath cfg) = Some t" for t
  proof -
    from tpl obtain bt where a: "lookup (root w) (getCopilotTemplatePath cfg) = Some (File bt)"
      and t: "t = decode_utf8 bt"
      by (auto simp: files_Some)
    from write_at_existing [OF b, of "encode_utf8 t"]
    obtain n' where n': "write_at (root w) ?t (encode_utf8 t) = Inr n'" by blast
    let ?w' = "w\<lparr>root := n', trace := trace w @ [?warn, WriteFile ?t t]\<rparr>"
    have "installCopilot cfg usr False w = (Returned True, ?w')"
      unfolding eq using a n' t by (simp add: writeCopilotAgent_eq)
    with run have r: "r = Returned True" and w': "w' = ?w'" by simp_all
    have ev: "events_since w ?w' = [?warn, WriteFile ?t t]"
      by (simp add: events_since_def)
    have "files ?w' ?t = Some t" using n' by (rule written_file)
    then show ?thesis using r unfolding w' ev by auto
  qed
  from warned overwritten show ?thesis by blast
qed

lemma noninteractive_no_prompt:
  "Asked s \<notin> set (events_since w (snd (installOpenCode cfg usr opts False w)))"
  "Asked s \<notin> set (events_since w (snd (installCopilot cfg usr False w)))"
  using only_adds_events [OF only_adds_installOpenCode [of False cfg usr opts], of w]
    only_adds_events [OF only_adds_installCopilot [of False cfg usr], of w]
  by (simp_all add: unprompted_no_ask)

section \<open>The claims\<close>

text \<open>Unfolding everything the example runs need.\<close>

lemmas example_defs = installOpenCode_def ensureOpenCodeDirs_def checkExisting_def chooseModel_def
  chooseColor_def writeOpenCodeAgent_def getOpenCodeTemplatePath_def
  installCopilot_def ensureCopilotDirs_def writeCopilotAgent_def getCopilotTemplatePath_def
  OPENCODE_AGENTS_DIR_def OPENCODE_LEARN_AGENT_PATH_def COPILOT_LEARN_AGENT_PATH_def
  andThen_def ret_def emit_def
  exists_sync_def existsSync_def mkdirSync_def readFileSync_def writeFileSync_def p_confirm_def
  p_select_def p_text_def callUpdateFrontmatter_def events_since_def Let_def
  example_config_def package_def fresh_world_def installed_world_def headerless_world_def
  blocked_world_def latin1_world_def
  no_options_def cancels_at_def truthy_def or_else_def files_def bytes_def frontmatterUpdates_def
  updateFrontmatter_text_def updateFrontmatter_spec_def parse_field_def example_template_def
  isValidHexColor_spec_def hexDigit_def validate_model_def validate_color_def
  encode_decode decode_encode replacement_def continuation_def second_of3_def second_of4_def

lemma installOpenCode_pair:
  "installOpenCode cfg usr opts i w
     = (fst (installOpenCode cfg usr opts i w), snd (installOpenCode cfg usr opts i w))"
  by simp

lemma installCopilot_pair:
  "installCopilot cfg usr i w
     = (fst (installCopilot cfg usr i w), snd (installCopilot cfg usr i w))"
  by simp

subsection \<open>C1\<close>

text \<open>
  C1, as stated: a pre-supplied model that is non-empty and has no \<^verbatim>\<open>/\<close> is defaulted
  to "no preference", so that the updates passed to the merge have no \<^verbatim>\<open>model\<close> key.
  The code does not do that: \<^verbatim>\<open>options.model\<close> is never validated. In the example,
  \<^verbatim>\<open>--no-tui --model gpt4\<close> reaches \<^verbatim>\<open>updateFrontmatter\<close> with the key
  \<^verbatim>\<open>model: gpt4\<close>, and the installer reports that model. And an absent model
  means "no preference" only without prompts: in an interactive run the model menu is
  shown, and the preset picked there is installed.
\<close>

theorem invalid_model_reaches_merge:
  "CHR ''/'' \<notin> set ''gpt4''
   \<and> MergeCall (decode_utf8 example_template)
        [(''color'', [CHR 0x22] @ ''#14B8A6'' @ [CHR 0x22]), (''model'', ''gpt4'')]
       \<in> set (events_since fresh_world
            (snd (installOpenCode example_config (cancels_at ModelChoice)
                    (no_options\<lparr>model := Some ''gpt4'', tui := Some False\<rparr>) False fresh_world)))
   \<and> fst (installOpenCode example_config (cancels_at ModelChoice)
            (no_options\<lparr>model := Some ''gpt4'', tui := Some False\<rparr>) False fresh_world)
       = Returned (Some (''gpt4'', ''#14B8A6''))
   \<and> model no_options = None
   \<and> fst (installOpenCode example_config picks_presets no_options True fresh_world)
       = Returned (Some (''anthropic/claude-sonnet-4'', ''#3B82F6''))"
  by (simp add: example_defs picks_presets_def)

text \<open>
  C1, amended: whenever \<open>installOpenCode\<close> calls \<^verbatim>\<open>updateFrontmatter\<close>, a pre-supplied
  non-empty model is in the updates under the key \<^verbatim>\<open>model\<close> exactly as given, with or
  without a \<^verbatim>\<open>/\<close>; when the model is absent (undefined or empty) and the run is
  not interactive, the updates have no \<^verbatim>\<open>model\<close> key; and when it is absent in an
  interactive run, the model menu has been shown and the model is the answer of the
  user: the preset submitted at the menu, or, with the custom entry submitted there,
  the text submitted at the custom model prompt, which has been shown and whose
  validator accepts that text. The updates hold the answer under the key \<^verbatim>\<open>model\<close>,
  and no \<^verbatim>\<open>model\<close> key when the answer is empty.
\<close>

theorem presupplied_model_passed_through:
  assumes run: "installOpenCode cfg usr opts i w = (r, w')"
    and merge: "MergeCall tpl ups \<in> set (events_since w w')"
  shows "(\<forall>m. model opts = Some m \<and> m \<noteq> [] \<longrightarrow> map_of ups ''model'' = Some m)
       \<and> (\<not> truthy (model opts) \<and> \<not> i \<longrightarrow> map_of ups ''model'' = None)
       \<and> (\<not> truthy (model opts) \<and> i \<longrightarrow>
            Asked ModelChoice \<in> set (events_since w w')
          \<and> (\<exists>m. ((usr ModelChoice = Submits m \<and> m \<noteq> ''__custom__''
                       \<and> m \<in> set (MODEL_OPTIONS cfg))
                   \<or> (usr ModelChoice = Submits ''__custom__''
                       \<and> Asked CustomModel \<in> set (events_since w w')
                       \<and> usr CustomModel = Submits m \<and> validate_model m = None))
                 \<and> map_of ups ''model'' = (if m = [] then None else Some m)))"
  using run
proof (cases rule: installOpenCode_summary [where usr = usr])
  case (stopped es)
  with merge show ?thesis by (simp add: events_since_def)
next
  case (at_write w4 es m c)
  from at_write(6) obtain es5 where e5: "trace w' = trace w4 @ es5"
    and mu: "\<forall>t u. MergeCall t u \<in> set es5 \<longrightarrow>
           files w4 (getOpenCodeTemplatePath cfg) = Some t \<and> u = frontmatterUpdates c m"
    by (rule writeOpenCodeAgent_any) blast
  have ev: "events_since w w' = es @ es5" using at_write(1) e5 by (simp add: events_since_def)
  with merge at_write(4) have "MergeCall tpl ups \<in> set es5" by auto
  with mu have ups: "ups = frontmatterUpdates c m" by blast
  have key: "map_of ups ''model'' = (if m = [] then None else Some m)"
    using ups by (simp add: frontmatterUpdates_def)
  have a: "map_of ups ''model'' = Some m'" if "model opts = Some m'" "m' \<noteq> []" for m'
    using that at_write(7) key by (simp add: truthy_def or_else_def)
  have b: "map_of ups ''model'' = None" if "\<not> truthy (model opts)" "\<not> i"
    using that at_write(7) key
    by (auto simp: truthy_def or_else_def split: option.splits)
  have c: "Asked ModelChoice \<in> set (events_since w w')
          \<and> (\<exists>m. ((usr ModelChoice = Submits m \<and> m \<noteq> ''__custom__''
                       \<and> m \<in> set (MODEL_OPTIONS cfg))
                   \<or> (usr ModelChoice = Submits ''__custom__''
                       \<and> Asked CustomModel \<in> set (events_since w w')
                       \<and> usr CustomModel = Submits m \<and> validate_model m = None))
                 \<and> map_of ups ''model'' = (if m = [] then None else Some m))"
    if "\<not> truthy (model opts)" "i"
  proof -
    from that at_write(10) ev have asked: "Asked ModelChoice \<in> set (events_since w w')" by simp
    from that at_write(11) ev
    have "(usr ModelChoice = Submits m \<and> m \<noteq> ''__custom__'' \<and> m \<in> set (MODEL_OPTIONS cfg))
        \<or> (usr ModelChoice = Submits ''__custom__''
             \<and> Asked CustomModel \<in> set (events_since w w')
             \<and> usr CustomModel = Submits m \<and> validate_model m = None)"
      by auto
    with key asked show ?thesis by blast
  qed
  from a b c show ?thesis by blast
qed

text \<open>
  A model without \<^verbatim>\<open>/\<close> given on the command line, no model in a run without prompts,
  and no model in a run with prompts, where the second preset is picked.
\<close>

theorem presupplied_model_passed_through_witness:
  "map_of (frontmatterUpdates ''#14B8A6'' ''gpt4'') ''model'' = Some ''gpt4''
   \<and> map_of (frontmatterUpdates ''#14B8A6'' []) ''model'' = None
   \<and> (\<exists>m. ((picks_presets ModelChoice = Submits m \<and> m \<noteq> ''__custom__''
               \<and> m \<in> set (MODEL_OPTIONS example_config))
           \<or> (picks_presets ModelChoice = Submits ''__custom__''
               \<and> Asked CustomModel \<in> set (events_since fresh_world
                    (snd (installOpenCode example_config picks_presets no_options True fresh_world)))
               \<and> picks_presets CustomModel = Submits m \<and> validate_model m = None))
         \<and> map_of (frontmatterUpdates ''#3B82F6'' ''anthropic/claude-sonnet-4'') ''model''
             = (if m = [] then None else Some m))"
proof -
  let ?usr = "cancels_at ModelChoice"
  let ?given = "no_options\<lparr>model := Some ''gpt4'', tui := Some False\<rparr>"
  let ?absent = "no_options\<lparr>tui := Some False\<rparr>"
  have m1: "MergeCall (decode_utf8 example_template) (frontmatterUpdates ''#14B8A6'' ''gpt4'')
       \<in> set (events_since fresh_world
            (snd (installOpenCode example_config ?usr ?given False fresh_world)))"
    by (simp add: example_defs)
  have m2: "MergeCall (decode_utf8 example_template) (frontmatterUpdates ''#14B8A6'' [])
       \<in> set (events_since fresh_world
            (snd (installOpenCode example_config ?usr ?absent False fresh_world)))"
    by (simp add: example_defs)
  have m3: "MergeCall (decode_utf8 example_template)
              (frontmatterUpdates ''#3B82F6'' ''anthropic/claude-sonnet-4'')
       \<in> set (events_since fresh_world
            (snd (installOpenCode example_config picks_presets no_options True fresh_world)))"
    by (simp add: example_defs picks_presets_def)
  have g: "model ?given = Some ''gpt4'' \<and> ''gpt4'' \<noteq> []" by (simp add: no_options_def)
  have a: "\<not> truthy (model ?absent) \<and> \<not> False" by (simp add: no_options_def truthy_def)
  have p: "\<not> truthy (model no_options) \<and> True" by (simp add: no_options_def truthy_def)
  from presupplied_model_passed_through [OF installOpenCode_pair m3, THEN conjunct2, THEN conjunct2,
      THEN mp, OF p]
  have third: "\<exists>m. ((picks_presets ModelChoice = Submits m \<and> m \<noteq> ''__custom__''
               \<and> m \<in> set (MODEL_OPTIONS example_config))
           \<or> (picks_presets ModelChoice = Submits ''__custom__''
               \<and> Asked CustomModel \<in> set (events_since fresh_world
                    (snd (installOpenCode example_config picks_presets no_options True fresh_world)))
               \<and> picks_presets CustomModel = Submits m \<and> validate_model m = None))
         \<and> map_of (frontmatterUpdates ''#3B82F6'' ''anthropic/claude-sonnet-4'') ''model''
             = (if m = [] then None else Some m)"
    by (rule conjunct2)
  from presupplied_model_passed_through [OF installOpenCode_pair m1, THEN conjunct1, THEN spec, THEN mp, OF g]
    presupplied_model_passed_through [OF installOpenCode_pair m2, THEN conjunct2, THEN conjunct1,
      THEN mp, OF a]
    third
  show ?thesis by (intro conjI)
qed

subsection \<open>C2\<close>

text \<open>
  C2, as stated: with the interactive flag false and a supplied color that fails the
  hex-color validation, \<open>installOpenCode\<close> reports an error and returns \<^verbatim>\<open>false\<close>
  without writing, and the run completes, Copilot being attempted. Not always. The
  empty string fails the validation, but \<^verbatim>\<open>options.color && ...\<close> takes it for no
  color: the default color is installed and the file is written. And the directories
  come first (lines 45-53): in \<open>blocked_world\<close>, where \<^verbatim>\<open>.config\<close> is a regular file,
  \<^verbatim>\<open>mkdirSync\<close> throws \<^verbatim>\<open>ENOTDIR\<close> before the color \<^verbatim>\<open>red\<close> is looked at; no error
  is logged, \<open>install\<close> ends with the exception and the Copilot spinner never starts.
\<close>

theorem invalid_color_not_always_reported:
  "\<not> isValidHexColor example_config []
   \<and> fst (installOpenCode example_config (cancels_at ModelChoice)
            (no_options\<lparr>color := Some [], tui := Some False\<rparr>) False fresh_world)
       = Returned (Some ([], ''#14B8A6''))
   \<and> (\<exists>x. WriteFile (OPENCODE_LEARN_AGENT_PATH example_config) x
         \<in> set (events_since fresh_world
              (snd (installOpenCode example_config (cancels_at ModelChoice)
                      (no_options\<lparr>color := Some [], tui := Some False\<rparr>) False fresh_world))))
   \<and> \<not> isValidHexColor example_config ''red''
   \<and> installOpenCode example_config (cancels_at ModelChoice)
            (no_options\<lparr>color := Some ''red'', tui := Some False\<rparr>) False blocked_world
       = (Threw ''ENOTDIR'',
          blocked_world\<lparr>trace := [LogInfo ''Creating OpenCode config directory...'']\<rparr>)
   \<and> install example_config (cancels_at ModelChoice)
            (no_options\<lparr>color := Some ''red'', tui := Some False\<rparr>) blocked_world
       = (Threw ''ENOTDIR'',
          blocked_world\<lparr>trace := [Intro '' nudge '',
                                    LogInfo ''Creating OpenCode config directory...'']\<rparr>)"
  by (simp add: example_defs install_def resolvePlatforms_def installPlatforms_def
      openCodePhase_def)

text \<open>
  C2, amended: the interactive flag is false and the pre-supplied color is a non-empty
  string that is not a hex color. If no regular file stands at a proper prefix of the
  path of the OpenCode agents directory, \<open>installOpenCode\<close> returns \<^verbatim>\<open>false\<close>; no file
  changes and nothing is written; the last thing it does is to log the error; and when
  both platforms are selected, the run goes on from the world the failed install left:
  the Copilot spinner starts, \<open>installCopilot\<close> runs, the spinner stops with the message
  for its result and the report is shown, so that the run returns whenever
  \<open>installCopilot\<close> returns. If a regular file stands at such a prefix, \<open>installOpenCode\<close>
  throws \<^verbatim>\<open>ENOTDIR\<close>, the file tree is as it was and no error is logged; and when
  OpenCode is selected, the run ends with that exception and the Copilot spinner does
  not start.
\<close>

theorem invalid_color_noninteractive:
  assumes col: "color opts = Some c" "c \<noteq> []" and bad: "\<not> isValidHexColor cfg c"
  shows "(\<not> blocked (root w) (OPENCODE_AGENTS_DIR cfg) \<longrightarrow>
        fst (installOpenCode cfg usr opts False w) = Returned None
      \<and> files (snd (installOpenCode cfg usr opts False w)) = files w
      \<and> (\<forall>p x. WriteFile p x \<notin> set (events_since w (snd (installOpenCode cfg usr opts False w))))
      \<and> (\<exists>pre. events_since w (snd (installOpenCode cfg usr opts False w))
                 = pre @ [LogError (''Invalid hex color: '' @ c @ ''. Use format #RRGGBB'')])
      \<and> (''opencode'' \<in> set ps \<and> ''copilot'' \<in> set ps \<longrightarrow>
           installPlatforms cfg usr opts False ps w
             = andThen (installCopilot cfg usr False)
                 (\<lambda>b. andThen (emit (SpinnerStop (if b then ''GitHub Copilot agent installed.''
                                                   else ''GitHub Copilot installation skipped.'')))
                         (\<lambda>_. showResults cfg None b))
                 ((snd (installOpenCode cfg usr opts False w))
                    \<lparr>trace := trace (snd (installOpenCode cfg usr opts False w))
                               @ [SpinnerStart ''Installing GitHub Copilot agent...'']\<rparr>)
           \<and> (\<forall>b w2. installCopilot cfg usr False
                        ((snd (installOpenCode cfg usr opts False w))
                           \<lparr>trace := trace (snd (installOpenCode cfg usr opts False w))
                                      @ [SpinnerStart ''Installing GitHub Copilot agent...'']\<rparr>)
                        = (Returned b, w2)
                \<longrightarrow> fst (installPlatforms cfg usr opts False ps w) = Returned ())))
    \<and> (blocked (root w) (OPENCODE_AGENTS_DIR cfg) \<longrightarrow>
        fst (installOpenCode cfg usr opts False w) = Threw ''ENOTDIR''
      \<and> root (snd (installOpenCode cfg usr opts False w)) = root w
      \<and> (\<forall>m. LogError m \<notin> set (events_since w (snd (installOpenCode cfg usr opts False w))))
      \<and> (''opencode'' \<in> set ps \<longrightarrow>
           fst (installPlatforms cfg usr opts False ps w) = Threw ''ENOTDIR''
           \<and> (\<forall>m. SpinnerStart m
                  \<notin> set (events_since w (snd (installPlatforms cfg usr opts False ps w))))))"
proof (cases rule: ensureOpenCodeDirs_run [where w = w and cfg = cfg])
  case (made w1 es1)
  note w1 = made(2) and t1 = made(4) and e1 = made(5)
  have f1: "files w1 = files w" using made(3) by (rule files_bytes)
  let ?msg = "LogError (''Invalid hex color: '' @ c @ ''. Use format #RRGGBB'')"
  let ?warn = "LogWarning ''OpenCode Learn agent already exists. Overwriting...''"
  let ?es2 = "if existsSync (OPENCODE_LEARN_AGENT_PATH cfg) w1 then [?warn] else []"
  let ?w' = "w1\<lparr>trace := trace w @ es1 @ ?es2 @ [?msg]\<rparr>"
  let ?v = "?w'\<lparr>trace := trace ?w' @ [SpinnerStart ''Installing GitHub Copilot agent...'']\<rparr>"
  have run: "installOpenCode cfg usr opts False w = (Returned None, ?w')"
    using col bad t1
    by (simp add: installOpenCode_noninteractive [OF w1] truthy_Some or_else_Some Let_def)
  have ev: "events_since w ?w' = (es1 @ ?es2) @ [?msg]"
    by (simp add: events_since_def)
  have nowrite: "\<forall>p x. WriteFile p x \<notin> set (events_since w ?w')"
    unfolding ev using e1 by auto
  have files': "files ?w' = files w"
    using f1 files_cong [of ?w' w1] by simp
  have rest: "installPlatforms cfg usr opts False ps w
             = andThen (installCopilot cfg usr False)
                 (\<lambda>b. andThen (emit (SpinnerStop (if b then ''GitHub Copilot agent installed.''
                                                   else ''GitHub Copilot installation skipped.'')))
                         (\<lambda>_. showResults cfg None b)) ?v
         \<and> (\<forall>b w2. installCopilot cfg usr False ?v = (Returned b, w2)
              \<longrightarrow> fst (installPlatforms cfg usr opts False ps w) = Returned ())"
    if "''opencode'' \<in> set ps" "''copilot'' \<in> set ps"
    using installPlatforms_skipped [OF that run]
      copilot_returns [where cfg = cfg and usr = usr and i = False and v = ?v and oc = None]
    by simp
  show ?thesis
    unfolding run fst_conv snd_conv
    using made(1) nowrite files' ev rest by blast
next
  case (threw es)
  from installOpenCode_blocked [where usr = usr and opts = opts and i = False, OF threw(1)]
  obtain es' where run: "installOpenCode cfg usr opts False w
        = (Threw ''ENOTDIR'', w\<lparr>trace := trace w @ es'\<rparr>)"
    and e': "set es' \<subseteq> {LogInfo ''Creating OpenCode config directory...''}"
    by blast
  let ?w' = "w\<lparr>trace := trace w @ es'\<rparr>"
  have ev: "events_since w ?w' = es'" by (simp add: events_since_def)
  have quiet: "\<forall>m. LogError m \<notin> set (events_since w ?w')"
    "\<forall>m. SpinnerStart m \<notin> set (events_since w ?w')"
    unfolding ev using e' by auto
  have rest: "fst (installPlatforms cfg usr opts False ps w) = Threw ''ENOTDIR''
           \<and> (\<forall>m. SpinnerStart m
                  \<notin> set (events_since w (snd (installPlatforms cfg usr opts False ps w))))"
    if "''opencode'' \<in> set ps"
    using installPlatforms_threw [OF that run] quiet(2) by simp
  show ?thesis
    unfolding run fst_conv snd_conv
    using threw(1) quiet(1) rest by simp
qed

text \<open>
  The color \<^verbatim>\<open>red\<close> without prompts: with both agent files in place the error is
  reported and the run goes on to install for Copilot; with \<^verbatim>\<open>.config\<close> a regular
  file the installer throws.
\<close>

theorem invalid_color_noninteractive_witness:
  "fst (installOpenCode example_config (cancels_at ModelChoice)
          (no_options\<lparr>color := Some ''red'', tui := Some False\<rparr>) False installed_world)
     = Returned None
   \<and> files (snd (installOpenCode example_config (cancels_at ModelChoice)
          (no_options\<lparr>color := Some ''red'', tui := Some False\<rparr>) False installed_world))
     = files installed_world
   \<and> fst (installPlatforms example_config (cancels_at ModelChoice)
          (no_options\<lparr>color := Some ''red'', tui := Some False\<rparr>) False
          [''opencode'', ''copilot''] installed_world)
     = Returned ()
   \<and> fst (installOpenCode example_config (cancels_at ModelChoice)
          (no_options\<lparr>color := Some ''red'', tui := Some False\<rparr>) False blocked_world)
     = Threw ''ENOTDIR''
   \<and> fst (installPlatforms example_config (cancels_at ModelChoice)
          (no_options\<lparr>color := Some ''red'', tui := Some False\<rparr>) False
          [''opencode'', ''copilot''] blocked_world)
     = Threw ''ENOTDIR''"
proof -
  let ?usr = "cancels_at ModelChoice"
  let ?opts = "no_options\<lparr>color := Some ''red'', tui := Some False\<rparr>"
  let ?w' = "snd (installOpenCode example_config ?usr ?opts False installed_world)"
  let ?v = "?w'\<lparr>trace := trace ?w' @ [SpinnerStart ''Installing GitHub Copilot agent...'']\<rparr>"
  have c: "color ?opts = Some ''red''" by simp
  have n: "''red'' \<noteq> []" by simp
  have b: "\<not> isValidHexColor example_config ''red''"
    by (simp add: example_config_def isValidHexColor_spec_def)
  have free: "\<not> blocked (root installed_world) (OPENCODE_AGENTS_DIR example_config)"
    by (simp add: example_defs)
  have stuck: "blocked (root blocked_world) (OPENCODE_AGENTS_DIR example_config)"
    by (simp add: example_defs)
  have both: "''opencode'' \<in> set [''opencode'', ''copilot'']
      \<and> ''copilot'' \<in> set [''opencode'', ''copilot'']" by simp
  have "fst (installCopilot example_config ?usr False ?v) = Returned True"
    by (simp add: example_defs)
  then have cop: "installCopilot example_config ?usr False ?v
      = (Returned True, snd (installCopilot example_config ?usr False ?v))"
    by (metis prod.collapse)
  note ok = invalid_color_noninteractive [OF c n b, where usr = ?usr and w = installed_world
      and ps = "[''opencode'', ''copilot'']", THEN conjunct1, THEN mp, OF free]
  from ok have first: "fst (installOpenCode example_config ?usr ?opts False installed_world)
      = Returned None" by (rule conjunct1)
  from ok [THEN conjunct2] have second: "files ?w' = files installed_world" by (rule conjunct1)
  from ok [THEN conjunct2, THEN conjunct2, THEN conjunct2, THEN conjunct2, THEN mp, OF both,
      THEN conjunct2, THEN spec, THEN spec, THEN mp, OF cop]
  have third: "fst (installPlatforms example_config ?usr ?opts False
          [''opencode'', ''copilot''] installed_world) = Returned ()" .
  note ko = invalid_color_noninteractive [OF c n b, where usr = ?usr and w = blocked_world
      and ps = "[''opencode'', ''copilot'']", THEN conjunct2, THEN mp, OF stuck]
  from ko have fourth: "fst (installOpenCode example_config ?usr ?opts False blocked_world)
      = Threw ''ENOTDIR''" by (rule conjunct1)
  from ko [THEN conjunct2, THEN conjunct2, THEN conjunct2, THEN mp, OF both [THEN conjunct1]]
  have fifth: "fst (installPlatforms example_config ?usr ?opts False
          [''opencode'', ''copilot''] blocked_world) = Threw ''ENOTDIR''" by (rule conjunct1)
  from first second third fourth fifth show ?thesis by (intro conjI)
qed

subsection \<open>C3\<close>

text \<open>
  C3: if a run of \<open>installOpenCode\<close> shows a prompt that the user cancels (whichever of
  the overwrite confirmation, the model menu, the custom model entry, the color menu or
  the custom color entry it is), it returns \<^verbatim>\<open>false\<close>, no file changes and nothing is
  written. When both platforms are selected, the run goes on from the world the
  cancelled install left: the Copilot spinner starts, \<open>installCopilot\<close> runs, the
  spinner stops with the message for its result and the report is shown; so the run
  returns whenever \<open>installCopilot\<close> returns.
\<close>

theorem cancel_skips_opencode:
  assumes run: "installOpenCode cfg usr opts i w = (r, w')"
    and asked: "Asked s \<in> set (events_since w w')"
    and cancelled: "usr s = Cancels"
  shows "r = Returned None
    \<and> files w' = files w
    \<and> (\<forall>p c. WriteFile p c \<notin> set (events_since w w'))
    \<and> (''opencode'' \<in> set ps \<and> ''copilot'' \<in> set ps \<longrightarrow>
           installPlatforms cfg usr opts i ps w
             = andThen (installCopilot cfg usr i)
                 (\<lambda>b. andThen (emit (SpinnerStop (if b then ''GitHub Copilot agent installed.''
                                                   else ''GitHub Copilot installation skipped.'')))
                         (\<lambda>_. showResults cfg None b))
                 (w'\<lparr>trace := trace w' @ [SpinnerStart ''Installing GitHub Copilot agent...'']\<rparr>)
           \<and> (\<forall>b w2. installCopilot cfg usr i
                        (w'\<lparr>trace := trace w' @ [SpinnerStart ''Installing GitHub Copilot agent...'']\<rparr>)
                        = (Returned b, w2)
                \<longrightarrow> fst (installPlatforms cfg usr opts i ps w) = Returned ()))"
proof -
  let ?v = "w'\<lparr>trace := trace w' @ [SpinnerStart ''Installing GitHub Copilot agent...'']\<rparr>"
  have main: "r = Returned None \<and> files w' = files w
      \<and> (\<forall>p c. WriteFile p c \<notin> set (events_since w w'))"
    using run
  proof (cases rule: installOpenCode_summary [where usr = usr])
    case (stopped es)
    with asked cancelled show ?thesis by (simp add: events_since_def)
  next
    case (at_write w4 es m c)
    from at_write(6) obtain es5 where e5: "trace w' = trace w4 @ es5" "\<forall>s. Asked s \<notin> set es5"
      by (rule writeOpenCodeAgent_any) blast
    with at_write(1,5) asked cancelled show ?thesis by (auto simp: events_since_def)
  qed
  with run have none: "installOpenCode cfg usr opts i w = (Returned None, w')" by simp
  have "installPlatforms cfg usr opts i ps w
             = andThen (installCopilot cfg usr i)
                 (\<lambda>b. andThen (emit (SpinnerStop (if b then ''GitHub Copilot agent installed.''
                                                   else ''GitHub Copilot installation skipped.'')))
                         (\<lambda>_. showResults cfg None b)) ?v
         \<and> (\<forall>b w2. installCopilot cfg usr i ?v = (Returned b, w2)
              \<longrightarrow> fst (installPlatforms cfg usr opts i ps w) = Returned ())"
    if "''opencode'' \<in> set ps" "''copilot'' \<in> set ps"
    using installPlatforms_skipped [OF that none]
      copilot_returns [where cfg = cfg and usr = usr and i = i and v = ?v and oc = None]
    by simp
  with main show ?thesis by blast
qed

text \<open>
  The five prompts of \<open>installOpenCode\<close>, each cancelled in a run of the example; and
  after the cancelled model menu the run installs for Copilot and returns.
\<close>

theorem cancel_skips_opencode_witness:
  "fst (installOpenCode example_config (cancels_at OverwriteOpenCode) no_options True
          installed_world) = Returned None
   \<and> fst (installOpenCode example_config (cancels_at ModelChoice) no_options True
          fresh_world) = Returned None
   \<and> fst (installOpenCode example_config (cancels_at CustomModel) no_options True
          fresh_world) = Returned None
   \<and> fst (installOpenCode example_config (cancels_at ColorChoice)
          (no_options\<lparr>model := Some ''a/b''\<rparr>) True fresh_world) = Returned None
   \<and> fst (installOpenCode example_config (cancels_at CustomColor)
          (no_options\<lparr>model := Some ''a/b''\<rparr>) True fresh_world) = Returned None
   \<and> fst (installPlatforms example_config (cancels_at ModelChoice) no_options True
            [''opencode'', ''copilot''] fresh_world) = Returned ()"
proof -
  let ?w' = "snd (installOpenCode example_config (cancels_at ModelChoice) no_options True
                    fresh_world)"
  let ?v = "?w'\<lparr>trace := trace ?w' @ [SpinnerStart ''Installing GitHub Copilot agent...'']\<rparr>"
  have c: "cancels_at s s = Cancels" for s by (simp add: cancels_at_def)
  have a1: "Asked OverwriteOpenCode \<in> set (events_since installed_world
      (snd (installOpenCode example_config (cancels_at OverwriteOpenCode) no_options True
              installed_world)))"
    by (simp add: example_defs)
  have a2: "Asked ModelChoice \<in> set (events_since fresh_world ?w')"
    by (simp add: example_defs)
  have a3: "Asked CustomModel \<in> set (events_since fresh_world
      (snd (installOpenCode example_config (cancels_at CustomModel) no_options True
              fresh_world)))"
    by (simp add: example_defs)
  have a4: "Asked ColorChoice \<in> set (events_since fresh_world
      (snd (installOpenCode example_config (cancels_at ColorChoice)
              (no_options\<lparr>model := Some ''a/b''\<rparr>) True fresh_world)))"
    by (simp add: example_defs)
  have a5: "Asked CustomColor \<in> set (events_since fresh_world
      (snd (installOpenCode example_config (cancels_at CustomColor)
              (no_options\<lparr>model := Some ''a/b''\<rparr>) True fresh_world)))"
    by (simp add: example_defs)
  have both: "''opencode'' \<in> set [''opencode'', ''copilot'']
      \<and> ''copilot'' \<in> set [''opencode'', ''copilot'']" by simp
  have "fst (installCopilot example_config (cancels_at ModelChoice) True ?v) = Returned True"
    by (simp add: example_defs)
  then have cop: "installCopilot example_config (cancels_at ModelChoice) True ?v
      = (Returned True, snd (installCopilot example_config (cancels_at ModelChoice) True ?v))"
    by (metis prod.collapse)
  from cancel_skips_opencode [OF installOpenCode_pair a1 c, THEN conjunct1]
    cancel_skips_opencode [OF installOpenCode_pair a2 c, THEN conjunct1]
    cancel_skips_opencode [OF installOpenCode_pair a3 c, THEN conjunct1]
    cancel_skips_opencode [OF installOpenCode_pair a4 c, THEN conjunct1]
    cancel_skips_opencode [OF installOpenCode_pair a5 c, THEN conjunct1]
    cancel_skips_opencode [OF installOpenCode_pair a2 c, of "[''opencode'', ''copilot'']",
      THEN conjunct2, THEN conjunct2, THEN conjunct2, THEN mp, OF both, THEN conjunct2,
      THEN spec, THEN spec, THEN mp, OF cop]
  show ?thesis by (intro conjI)
qed

subsection \<open>C4\<close>

text \<open>
  C4: every write of \<open>installOpenCode\<close> goes to the OpenCode target, and its contents
  are what a call of \<^verbatim>\<open>updateFrontmatter\<close> in the same run returned; and when the call
  raises, the installer ends with that exception, no file changes and nothing is written.
\<close>

theorem write_only_after_merge:
  assumes run: "installOpenCode cfg usr opts i w = (r, w')"
  shows "(\<forall>p c. WriteFile p c \<in> set (events_since w w') \<longrightarrow>
           p = OPENCODE_LEARN_AGENT_PATH cfg \<and>
           (\<exists>tpl ups. MergeCall tpl ups \<in> set (events_since w w')
                      \<and> updateFrontmatter cfg tpl ups = Inr c))
      \<and> (\<forall>tpl ups e. MergeCall tpl ups \<in> set (events_since w w')
           \<and> updateFrontmatter cfg tpl ups = Inl e \<longrightarrow>
           r = Threw e \<and> files w' = files w \<and> (\<forall>p c. WriteFile p c \<notin> set (events_since w w')))"
  using run
proof (cases rule: installOpenCode_summary [where usr = usr])
  case (stopped es)
  then show ?thesis by (simp add: events_since_def)
next
  case (at_write w4 es m c)
  from at_write(6) obtain es5 where e5: "trace w' = trace w4 @ es5"
    and wr: "\<forall>p x. WriteFile p x \<in> set es5 \<longrightarrow> p = OPENCODE_LEARN_AGENT_PATH cfg \<and>
         (\<exists>tpl. MergeCall tpl (frontmatterUpdates c m) \<in> set es5 \<and>
                updateFrontmatter cfg tpl (frontmatterUpdates c m) = Inr x)"
    and fail: "\<forall>t u e. MergeCall t u \<in> set es5 \<longrightarrow> updateFrontmatter cfg t u = Inl e \<longrightarrow> r = Threw e"
    and frame: "(\<forall>x. r \<noteq> Returned (Some x)) \<longrightarrow> root w' = root w4 \<and> (\<forall>p x. WriteFile p x \<notin> set es5)"
    by (rule writeOpenCodeAgent_any) blast
  have ev: "events_since w w' = es @ es5"
    using at_write(1) e5 by (simp add: events_since_def)
  have a: "\<forall>p c. WriteFile p c \<in> set (es @ es5) \<longrightarrow>
         p = OPENCODE_LEARN_AGENT_PATH cfg \<and>
         (\<exists>tpl ups. MergeCall tpl ups \<in> set (es @ es5) \<and> updateFrontmatter cfg tpl ups = Inr c)"
    using at_write(3) wr by (simp only: set_append Un_iff) blast
  have b: "r = Threw e \<and> files w' = files w \<and> (\<forall>p c. WriteFile p c \<notin> set (es @ es5))"
    if "MergeCall tpl ups \<in> set (es @ es5)" "updateFrontmatter cfg tpl ups = Inl e" for tpl ups e
  proof -
    from that at_write(4) have "MergeCall tpl ups \<in> set es5" by auto
    with fail that have r: "r = Threw e" by blast
    with frame have "root w' = root w4" "\<forall>p x. WriteFile p x \<notin> set es5" by simp_all
    with r at_write(2,3) files_cong [of w' w4] show ?thesis by auto
  qed
  show ?thesis unfolding ev using a b by blast
qed

text \<open>A run that writes, and a run whose template has no header, so that the merge raises.\<close>

theorem write_only_after_merge_witness:
  "(\<exists>tpl ups. MergeCall tpl ups
        \<in> set (events_since fresh_world
             (snd (installOpenCode example_config (cancels_at ModelChoice)
                     (no_options\<lparr>tui := Some False\<rparr>) False fresh_world)))
      \<and> updateFrontmatter example_config tpl ups
          = Inr (decode_utf8 (''---'' @ [CHR 0x0A] @ ''color: '' @ [CHR 0x22] @ ''#14B8A6''
                   @ [CHR 0x22] @ [CHR 0x0A] @ ''---'' @ [CHR 0x0A] @ ''Body text'')))
   \<and> fst (installOpenCode example_config (cancels_at ModelChoice)
            (no_options\<lparr>tui := Some False\<rparr>) False headerless_world)
       = Threw ''MalformedDocument''
   \<and> files (snd (installOpenCode example_config (cancels_at ModelChoice)
            (no_options\<lparr>tui := Some False\<rparr>) False headerless_world))
       = files headerless_world"
proof -
  let ?usr = "cancels_at ModelChoice"
  let ?opts = "no_options\<lparr>tui := Some False\<rparr>"
  let ?merged = "decode_utf8 (''---'' @ [CHR 0x0A] @ ''color: '' @ [CHR 0x22] @ ''#14B8A6''
                   @ [CHR 0x22] @ [CHR 0x0A] @ ''---'' @ [CHR 0x0A] @ ''Body text'')"
  have wrote: "WriteFile (OPENCODE_LEARN_AGENT_PATH example_config) ?merged
      \<in> set (events_since fresh_world
           (snd (installOpenCode example_config ?usr ?opts False fresh_world)))"
    by (simp add: example_defs)
  have failed: "MergeCall (decode_utf8 ''Body only'') (frontmatterUpdates ''#14B8A6'' [])
      \<in> set (events_since headerless_world
           (snd (installOpenCode example_config ?usr ?opts False headerless_world)))
      \<and> updateFrontmatter example_config (decode_utf8 ''Body only'')
            (frontmatterUpdates ''#14B8A6'' [])
          = Inl ''MalformedDocument''"
    by (simp add: example_defs)
  from write_only_after_merge [OF installOpenCode_pair, THEN conjunct1, THEN spec, THEN spec, THEN mp, OF wrote]
  have first: "\<exists>tpl ups. MergeCall tpl ups
        \<in> set (events_since fresh_world
             (snd (installOpenCode example_config ?usr ?opts False fresh_world)))
      \<and> updateFrontmatter example_config tpl ups = Inr ?merged"
    by (rule conjunct2)
  from write_only_after_merge [OF installOpenCode_pair, THEN conjunct2, THEN spec, THEN spec, THEN spec,
      THEN mp, OF failed]
  have second: "fst (installOpenCode example_config ?usr ?opts False headerless_world)
       = Threw ''MalformedDocument''
     \<and> files (snd (installOpenCode example_config ?usr ?opts False headerless_world))
       = files headerless_world"
    by blast
  from first second show ?thesis by (rule conjI)
qed

subsection \<open>C5\<close>

text \<open>
  C5: when the flags settle the platforms, they are resolved with the world left as it
  was, so no prompt is shown: \<^verbatim>\<open>all\<close> gives both platforms; without \<^verbatim>\<open>all\<close>, exactly
  one of \<^verbatim>\<open>opencode\<close> and \<^verbatim>\<open>copilot\<close> gives that platform alone; both flags give both
  platforms, OpenCode first.
\<close>

theorem platforms_from_flags:
  "(all opts \<longrightarrow>
      resolvePlatforms cfg usr opts i w = (Returned [''opencode'', ''copilot''], w))
   \<and> (\<not> all opts \<and> opencode opts \<and> \<not> copilot opts \<longrightarrow>
      resolvePlatforms cfg usr opts i w = (Returned [''opencode''], w))
   \<and> (\<not> all opts \<and> copilot opts \<and> \<not> opencode opts \<longrightarrow>
      resolvePlatforms cfg usr opts i w = (Returned [''copilot''], w))
   \<and> (opencode opts \<and> copilot opts \<longrightarrow>
      resolvePlatforms cfg usr opts i w = (Returned [''opencode'', ''copilot''], w))"
  by (simp add: resolvePlatforms_def ret_def)

theorem platforms_from_flags_witness:
  "resolvePlatforms example_config (cancels_at PlatformChoice) (no_options\<lparr>all := True\<rparr>) True
     fresh_world = (Returned [''opencode'', ''copilot''], fresh_world)
   \<and> resolvePlatforms example_config (cancels_at PlatformChoice) (no_options\<lparr>opencode := True\<rparr>)
     True fresh_world = (Returned [''opencode''], fresh_world)
   \<and> resolvePlatforms example_config (cancels_at PlatformChoice) (no_options\<lparr>copilot := True\<rparr>)
     True fresh_world = (Returned [''copilot''], fresh_world)
   \<and> resolvePlatforms example_config (cancels_at PlatformChoice)
     (no_options\<lparr>opencode := True, copilot := True\<rparr>) True fresh_world
       = (Returned [''opencode'', ''copilot''], fresh_world)"
proof -
  let ?usr = "cancels_at PlatformChoice"
  have a: "all (no_options\<lparr>all := True\<rparr>)" by simp
  have b: "\<not> all (no_options\<lparr>opencode := True\<rparr>) \<and> opencode (no_options\<lparr>opencode := True\<rparr>)
      \<and> \<not> copilot (no_options\<lparr>opencode := True\<rparr>)" by (simp add: no_options_def)
  have c: "\<not> all (no_options\<lparr>copilot := True\<rparr>) \<and> copilot (no_options\<lparr>copilot := True\<rparr>)
      \<and> \<not> opencode (no_options\<lparr>copilot := True\<rparr>)" by (simp add: no_options_def)
  have d: "opencode (no_options\<lparr>opencode := True, copilot := True\<rparr>)
      \<and> copilot (no_options\<lparr>opencode := True, copilot := True\<rparr>)" by simp
  from platforms_from_flags [of "no_options\<lparr>all := True\<rparr>" example_config ?usr True fresh_world,
      THEN conjunct1, THEN mp, OF a]
    platforms_from_flags [of "no_options\<lparr>opencode := True\<rparr>" example_config ?usr True fresh_world,
      THEN conjunct2, THEN conjunct1, THEN mp, OF b]
    platforms_from_flags [of "no_options\<lparr>copilot := True\<rparr>" example_config ?usr True fresh_world,
      THEN conjunct2, THEN conjunct2, THEN conjunct1, THEN mp, OF c]
    platforms_from_flags [of "no_options\<lparr>opencode := True, copilot := True\<rparr>" example_config
      ?usr True fresh_world, THEN conjunct2, THEN conjunct2, THEN conjunct2, THEN mp, OF d]
  show ?thesis by blast
qed

subsection \<open>C6\<close>

text \<open>
  C6, as stated: in non-interactive mode an existing target file is overwritten, with
  only a warning logged. Not for every install: with \<^verbatim>\<open>--no-tui --color red\<close> and the
  OpenCode agent file in place, the overwrite warning is logged, then the color is
  refused with an error, the installer returns \<^verbatim>\<open>false\<close> and the file is as it was.
\<close>

theorem noninteractive_existing_not_overwritten:
  "files installed_world (OPENCODE_LEARN_AGENT_PATH example_config) = Some (decode_utf8 ''old'')
   \<and> fst (installOpenCode example_config (cancels_at ModelChoice)
            (no_options\<lparr>color := Some ''red'', tui := Some False\<rparr>) False installed_world)
       = Returned None
   \<and> files (snd (installOpenCode example_config (cancels_at ModelChoice)
            (no_options\<lparr>color := Some ''red'', tui := Some False\<rparr>) False installed_world))
        (OPENCODE_LEARN_AGENT_PATH example_config) = Some (decode_utf8 ''old'')
   \<and> events_since installed_world
        (snd (installOpenCode example_config (cancels_at ModelChoice)
            (no_options\<lparr>color := Some ''red'', tui := Some False\<rparr>) False installed_world))
       = [LogWarning ''OpenCode Learn agent already exists. Overwriting...'',
          LogError ''Invalid hex color: red. Use format #RRGGBB'']"
  by (simp add: example_defs)

text \<open>
  C6, amended: where the target agent file exists, an interactive install asks for
  the overwrite confirmation, and on a cancelled or negative answer the installer
  returns \<^verbatim>\<open>false\<close>, no file changes and nothing is written. A non-interactive install
  shows no prompt and logs the overwrite warning; the file is then overwritten, with no
  error and no other warning logged, provided the rest of the install goes through: for
  OpenCode a pre-supplied color that is a hex color (or none), the template in place
  and a merge that returns; for Copilot the template in place. This holds for both
  installers.
\<close>

theorem existing_target_decision:
  assumes oc: "files w (OPENCODE_LEARN_AGENT_PATH cfg) = Some old"
    and run: "installOpenCode cfg usr opts i w = (r, w')"
    and cp: "files v (COPILOT_LEARN_AGENT_PATH cfg) = Some old'"
    and run': "installCopilot cfg usr i v = (r', v')"
  shows "(i \<longrightarrow>
            Asked OverwriteOpenCode \<in> set (events_since w w')
          \<and> (usr OverwriteOpenCode = Cancels \<or> usr OverwriteOpenCode = Says False \<longrightarrow>
               r = Returned None \<and> files w' = files w
               \<and> (\<forall>p x. WriteFile p x \<notin> set (events_since w w')))
          \<and> Asked OverwriteCopilot \<in> set (events_since v v')
          \<and> (usr OverwriteCopilot = Cancels \<or> usr OverwriteCopilot = Says False \<longrightarrow>
               r' = Returned False \<and> files v' = files v
               \<and> (\<forall>p x. WriteFile p x \<notin> set (events_since v v'))))
       \<and> (\<not> i \<longrightarrow>
            (\<forall>s. Asked s \<notin> set (events_since w w'))
          \<and> LogWarning ''OpenCode Learn agent already exists. Overwriting...''
               \<in> set (events_since w w')
          \<and> (\<forall>t content.
                \<not> (truthy (color opts) \<and> \<not> isValidHexColor cfg (or_else (color opts) []))
                \<and> files w (getOpenCodeTemplatePath cfg) = Some t
                \<and> updateFrontmatter cfg t
                     (frontmatterUpdates (or_else (color opts) (DEFAULT_COLOR cfg))
                        (or_else (model opts) []))
                    = Inr content
                \<longrightarrow> r = Returned (Some (or_else (model opts) [],
                                        or_else (color opts) (DEFAULT_COLOR cfg)))
                  \<and> files w' (OPENCODE_LEARN_AGENT_PATH cfg) = Some content
                  \<and> (\<forall>m. LogError m \<notin> set (events_since w w'))
                  \<and> (\<forall>m. LogWarning m \<in> set (events_since w w')
                         \<longrightarrow> m = ''OpenCode Learn agent already exists. Overwriting...''))
          \<and> (\<forall>s. Asked s \<notin> set (events_since v v'))
          \<and> LogWarning ''GitHub Copilot Learn agent already exists. Overwriting...''
               \<in> set (events_since v v')
          \<and> (\<forall>t. files v (getCopilotTemplatePath cfg) = Some t
                \<longrightarrow> r' = Returned True
                  \<and> files v' (COPILOT_LEARN_AGENT_PATH cfg) = Some t
                  \<and> (\<forall>m. LogError m \<notin> set (events_since v v'))
                  \<and> (\<forall>m. LogWarning m \<in> set (events_since v v')
                         \<longrightarrow> m = ''GitHub Copilot Learn agent already exists. Overwriting...'')))"
proof (cases i)
  case True
  have ex: "existsSync (OPENCODE_LEARN_AGENT_PATH cfg) w" "existsSync (COPILOT_LEARN_AGENT_PATH cfg) v"
    using oc cp by (simp_all add: files_existsSync)
  from run run' True have runs: "installOpenCode cfg usr opts True w = (r, w')"
    "installCopilot cfg usr True v = (r', v')" by simp_all
  show ?thesis
    using True installOpenCode_overwrite_asked [OF ex(1) runs(1)]
      installOpenCode_declined [OF ex(1) _ runs(1)]
      installCopilot_overwrite_asked [OF ex(2) runs(2)]
      installCopilot_declined [OF ex(2) _ runs(2)]
    by blast
next
  case False
  from run run' False have runs: "installOpenCode cfg usr opts False w = (r, w')"
    "installCopilot cfg usr False v = (r', v')" by simp_all
  have quiet: "\<forall>s. Asked s \<notin> set (events_since w w')" "\<forall>s. Asked s \<notin> set (events_since v v')"
    using noninteractive_no_prompt(1) [of _ w cfg usr opts]
      noninteractive_no_prompt(2) [of _ v cfg usr] runs by simp_all
  show ?thesis
    using False quiet installOpenCode_overwrites [OF oc runs(1)]
      installCopilot_overwrites [OF cp runs(2)]
    by blast
qed

theorem existing_target_decision_witness:
  "fst (installOpenCode example_config (cancels_at OverwriteOpenCode) no_options True
          installed_world) = Returned None
   \<and> fst (installCopilot example_config (cancels_at OverwriteCopilot) True installed_world)
       = Returned False
   \<and> files (snd (installOpenCode example_config (cancels_at ModelChoice)
                   (no_options\<lparr>tui := Some False\<rparr>) False installed_world))
        (OPENCODE_LEARN_AGENT_PATH example_config)
       = Some (decode_utf8 (''---'' @ [CHR 0x0A] @ ''color: '' @ [CHR 0x22] @ ''#14B8A6''
                 @ [CHR 0x22] @ [CHR 0x0A] @ ''---'' @ [CHR 0x0A] @ ''Body text''))
   \<and> files (snd (installCopilot example_config (cancels_at ModelChoice) False installed_world))
        (COPILOT_LEARN_AGENT_PATH example_config) = Some (decode_utf8 ''Copilot agent'')"
proof -
  let ?merged = "decode_utf8 (''---'' @ [CHR 0x0A] @ ''color: '' @ [CHR 0x22] @ ''#14B8A6''
                 @ [CHR 0x22] @ [CHR 0x0A] @ ''---'' @ [CHR 0x0A] @ ''Body text'')"
  let ?opts = "no_options\<lparr>tui := Some False\<rparr>"
  have oc: "files installed_world (OPENCODE_LEARN_AGENT_PATH example_config)
      = Some (decode_utf8 ''old'')"
    and cp: "files installed_world (COPILOT_LEARN_AGENT_PATH example_config)
      = Some (decode_utf8 ''old'')"
    by (simp_all add: example_defs)
  have no1: "cancels_at OverwriteOpenCode OverwriteOpenCode = Cancels
      \<or> cancels_at OverwriteOpenCode OverwriteOpenCode = Says False"
    and no2: "cancels_at OverwriteCopilot OverwriteCopilot = Cancels
      \<or> cancels_at OverwriteCopilot OverwriteCopilot = Says False"
    by (simp_all add: cancels_at_def)
  have through: "\<not> (truthy (color ?opts)
          \<and> \<not> isValidHexColor example_config (or_else (color ?opts) []))
      \<and> files installed_world (getOpenCodeTemplatePath example_config)
          = Some (decode_utf8 example_template)
      \<and> updateFrontmatter example_config (decode_utf8 example_template)
           (frontmatterUpdates (or_else (color ?opts) (DEFAULT_COLOR example_config))
              (or_else (model ?opts) []))
          = Inr ?merged"
    by (simp add: example_defs)
  have tpl: "files installed_world (getCopilotTemplatePath example_config)
      = Some (decode_utf8 ''Copilot agent'')"
    by (simp add: example_defs)
  have t: "True" by simp
  from existing_target_decision [where usr = "cancels_at OverwriteOpenCode"
      and opts = no_options and i = True, OF oc installOpenCode_pair cp installCopilot_pair,
      THEN conjunct1, THEN mp, OF t, THEN conjunct2, THEN conjunct1, THEN mp, OF no1]
  have a: "fst (installOpenCode example_config (cancels_at OverwriteOpenCode) no_options True
          installed_world) = Returned None"
    by (rule conjunct1)
  from existing_target_decision [where usr = "cancels_at OverwriteCopilot"
      and opts = no_options and i = True, OF oc installOpenCode_pair cp installCopilot_pair,
      THEN conjunct1, THEN mp, OF t, THEN conjunct2, THEN conjunct2,
      THEN conjunct2, THEN mp, OF no2]
  have b: "fst (installCopilot example_config (cancels_at OverwriteCopilot) True installed_world)
       = Returned False"
    by (rule conjunct1)
  have f: "\<not> False" by simp
  note non = existing_target_decision [where usr = "cancels_at ModelChoice"
      and opts = ?opts and i = False, OF oc installOpenCode_pair cp installCopilot_pair,
      THEN conjunct2, THEN mp, OF f]
  from non [THEN conjunct2, THEN conjunct2, THEN conjunct1, THEN spec, THEN spec, THEN mp, OF through]
  have c: "files (snd (installOpenCode example_config (cancels_at ModelChoice) ?opts False
                   installed_world)) (OPENCODE_LEARN_AGENT_PATH example_config) = Some ?merged"
    by blast
  from non [THEN conjunct2, THEN conjunct2, THEN conjunct2, THEN conjunct2, THEN conjunct2,
      THEN spec, THEN mp, OF tpl]
  have d: "files (snd (installCopilot example_config (cancels_at ModelChoice) False installed_world))
        (COPILOT_LEARN_AGENT_PATH example_config) = Some (decode_utf8 ''Copilot agent'')"
    by blast
  from a b c d show ?thesis by blast
qed

subsection \<open>C7\<close>

text \<open>
  C7: the validator of the custom model entry accepts (returns \<^verbatim>\<open>undefined\<close> for) the
  empty string and every string with a \<^verbatim>\<open>/\<close> in it, and rejects every other string
  with its error message.
\<close>

theorem validate_model_accepts:
  "validate_model v =
     (if v = [] \<or> CHR ''/'' \<in> set v then None
      else Some ''Model should be in format: provider/model-name'')"
  by (simp add: validate_model_def)

subsection \<open>C8\<close>

text \<open>
  C8, as stated: the Copilot target file is byte-identical to the Copilot template
  file. It is the text that is copied, not the bytes: the template is read with the
  encoding \<^verbatim>\<open>'utf-8'\<close> and its text written with the same (lines 214 and 217). In
  \<open>latin1_world\<close> the template is the bytes \<^verbatim>\<open>41 FF 42\<close>; the installer returns
  \<^verbatim>\<open>true\<close>, and the target holds \<^verbatim>\<open>41 EF BF BD 42\<close>.
\<close>

theorem copilot_copy_not_byte_identical:
  "bytes latin1_world (getCopilotTemplatePath example_config)
     = Some [CHR 0x41, CHR 0xFF, CHR 0x42]
   \<and> fst (installCopilot example_config (cancels_at ModelChoice) False latin1_world)
       = Returned True
   \<and> bytes (snd (installCopilot example_config (cancels_at ModelChoice) False latin1_world))
        (COPILOT_LEARN_AGENT_PATH example_config)
       = Some [CHR 0x41, CHR 0xEF, CHR 0xBF, CHR 0xBD, CHR 0x42]"
  by (simp add: example_defs)

text \<open>
  C8, amended: every write of \<open>installCopilot\<close> goes to the Copilot target and its
  contents are the text of the Copilot template file; \<^verbatim>\<open>updateFrontmatter\<close> is never
  called; and when the installer returns \<^verbatim>\<open>true\<close>, it has written the text of the
  template to the target, whose bytes are then the bytes of the template with every
  ill-formed UTF-8 subsequence replaced by \<^verbatim>\<open>EF BF BD\<close>: the same bytes whenever the
  template is well-formed UTF-8.
\<close>

theorem copilot_copied_as_text:
  assumes run: "installCopilot cfg usr i w = (r, w')"
  shows "(\<forall>p c. WriteFile p c \<in> set (events_since w w') \<longrightarrow>
            p = COPILOT_LEARN_AGENT_PATH cfg \<and> files w (getCopilotTemplatePath cfg) = Some c)
       \<and> (\<forall>t u. MergeCall t u \<notin> set (events_since w w'))
       \<and> (r = Returned True \<longrightarrow>
            (\<exists>b. bytes w (getCopilotTemplatePath cfg) = Some b
                 \<and> bytes w' (COPILOT_LEARN_AGENT_PATH cfg) = Some (utf8_repair b)
                 \<and> WriteFile (COPILOT_LEARN_AGENT_PATH cfg) (decode_utf8 b)
                     \<in> set (events_since w w')))
       \<and> (\<forall>b. r = Returned True \<and> bytes w (getCopilotTemplatePath cfg) = Some b
               \<and> utf8_repair b = b
             \<longrightarrow> bytes w' (COPILOT_LEARN_AGENT_PATH cfg) = Some b)"
proof -
  have main: "(\<forall>p c. WriteFile p c \<in> set (events_since w w') \<longrightarrow>
            p = COPILOT_LEARN_AGENT_PATH cfg \<and> files w (getCopilotTemplatePath cfg) = Some c)
       \<and> (\<forall>t u. MergeCall t u \<notin> set (events_since w w'))
       \<and> (r = Returned True \<longrightarrow>
            (\<exists>b. bytes w (getCopilotTemplatePath cfg) = Some b
                 \<and> bytes w' (COPILOT_LEARN_AGENT_PATH cfg) = Some (utf8_repair b)
                 \<and> WriteFile (COPILOT_LEARN_AGENT_PATH cfg) (decode_utf8 b)
                     \<in> set (events_since w w')))"
    using run
  proof (cases rule: installCopilot_run)
    case dirs_threw
    then show ?thesis by (simp add: events_since_def)
  next
    case (stop_existing w1 g)
    from stop_existing(1) obtain es1 where t1: "trace w1 = trace w @ es1"
      and e1: "set es1 \<subseteq> {Mkdir (COPILOT_AGENTS_DIR cfg)}"
      by (rule ensureCopilotDirs_returned)
    from stop_existing(2) obtain es2 where s2: "root w' = root w1" "trace w' = trace w1 @ es2"
      "set es2 \<subseteq> {Asked OverwriteCopilot, LogWarning ''Skipping GitHub Copilot installation.'',
         LogWarning ''GitHub Copilot Learn agent already exists. Overwriting...''}"
      by (rule checkExisting_any) simp
    have ev: "events_since w w' = es1 @ es2" using t1 s2 by (simp add: events_since_def)
    have "\<forall>p c. WriteFile p c \<notin> set (es1 @ es2)" using e1 s2(3) by auto
    moreover have "\<forall>t u. MergeCall t u \<notin> set (es1 @ es2)" using e1 s2(3) by auto
    ultimately show ?thesis unfolding ev using stop_existing(5) by blast
  next
    case (reached_write w1 w2)
    from reached_write(1) obtain es1 where b1: "bytes w1 = bytes w"
      and t1: "trace w1 = trace w @ es1"
      and e1: "set es1 \<subseteq> {Mkdir (COPILOT_AGENTS_DIR cfg)}"
      by (rule ensureCopilotDirs_returned)
    from reached_write(2) obtain es2 where s2: "root w2 = root w1" "trace w2 = trace w1 @ es2"
      "set es2 \<subseteq> {Asked OverwriteCopilot, LogWarning ''Skipping GitHub Copilot installation.'',
         LogWarning ''GitHub Copilot Learn agent already exists. Overwriting...''}"
      by (rule checkExisting_any) simp
    have pre: "\<forall>p c. WriteFile p c \<notin> set (es1 @ es2)" "\<forall>t u. MergeCall t u \<notin> set (es1 @ es2)"
      using e1 s2(3) by auto
    have b2: "bytes w2 = bytes w" using bytes_cong [OF s2(1)] b1 by simp
    have f2: "files w2 = files w" using b2 by (rule files_bytes)
    have "\<exists>es3. trace w' = trace w2 @ es3
        \<and> (\<forall>p c. WriteFile p c \<in> set es3 \<longrightarrow>
              p = COPILOT_LEARN_AGENT_PATH cfg \<and> files w2 (getCopilotTemplatePath cfg) = Some c)
        \<and> (\<forall>t u. MergeCall t u \<notin> set es3)
        \<and> (r = Returned True \<longrightarrow>
            (\<exists>b. bytes w2 (getCopilotTemplatePath cfg) = Some b
                 \<and> bytes w' (COPILOT_LEARN_AGENT_PATH cfg) = Some (utf8_repair b)
                 \<and> WriteFile (COPILOT_LEARN_AGENT_PATH cfg) (decode_utf8 b) \<in> set es3))"
      using reached_write(3)
      by (auto simp: writeCopilotAgent_eq files_Some bytes_Some encode_decode
          dest: write_at_lookup split: option.splits node.splits sum.splits)
    then obtain es3 where e3: "trace w' = trace w2 @ es3"
      and a: "\<forall>p c. WriteFile p c \<in> set es3 \<longrightarrow>
              p = COPILOT_LEARN_AGENT_PATH cfg \<and> files w2 (getCopilotTemplatePath cfg) = Some c"
      and b: "\<forall>t u. MergeCall t u \<notin> set es3"
      and c: "r = Returned True \<longrightarrow>
            (\<exists>b. bytes w2 (getCopilotTemplatePath cfg) = Some b
                 \<and> bytes w' (COPILOT_LEARN_AGENT_PATH cfg) = Some (utf8_repair b)
                 \<and> WriteFile (COPILOT_LEARN_AGENT_PATH cfg) (decode_utf8 b) \<in> set es3)"
      by blast
    have ev: "events_since w w' = (es1 @ es2) @ es3"
      using t1 s2 e3 by (simp add: events_since_def)
    show ?thesis
      unfolding ev using pre a b c f2 b2
      by (simp only: set_append Un_iff) blast
  qed
  have same: "bytes w' (COPILOT_LEARN_AGENT_PATH cfg) = Some b"
    if "r = Returned True" "bytes w (getCopilotTemplatePath cfg) = Some b" "utf8_repair b = b"
    for b
    using main that by auto
  from main same show ?thesis by blast
qed

text \<open>The template of the example is well-formed, and the target holds its bytes.\<close>

theorem copilot_copied_as_text_witness:
  "bytes (snd (installCopilot example_config (cancels_at ModelChoice) False fresh_world))
     (COPILOT_LEARN_AGENT_PATH example_config) = Some ''Copilot agent''"
proof -
  let ?run = "installCopilot example_config (cancels_at ModelChoice) False fresh_world"
  have h: "fst ?run = Returned True
      \<and> bytes fresh_world (getCopilotTemplatePath example_config) = Some ''Copilot agent''
      \<and> utf8_repair ''Copilot agent'' = ''Copilot agent''"
    by (simp add: example_defs)
  from copilot_copied_as_text [OF installCopilot_pair, THEN conjunct2, THEN conjunct2,
      THEN conjunct2, THEN spec, THEN mp, OF h]
  show ?thesis .
qed

subsection \<open>C9\<close>

text \<open>
  C9: with \<^verbatim>\<open>tui: false\<close> and none of the three platform flags, the platforms resolve
  to OpenCode and Copilot with the world left as it was; \<open>install\<close> is the install of
  both platforms after the intro line, and no prompt is shown in the whole run.
\<close>

theorem noninteractive_defaults_to_both:
  assumes "tui opts = Some False" and "\<not> all opts" and "\<not> opencode opts" and "\<not> copilot opts"
  shows "resolvePlatforms cfg usr opts False w = (Returned [''opencode'', ''copilot''], w)
       \<and> install cfg usr opts w
           = installPlatforms cfg usr opts False [''opencode'', ''copilot'']
               (w\<lparr>trace := trace w @ [Intro '' nudge '']\<rparr>)
       \<and> (\<forall>s. Asked s \<notin> set (events_since w (snd (install cfg usr opts w))))"
proof -
  have "list_all (unprompted False) (events_since w (snd (install cfg usr opts w)))"
    using only_adds_events [OF only_adds_install [of opts cfg usr], of w] assms(1) by simp
  then have "\<forall>s. Asked s \<notin> set (events_since w (snd (install cfg usr opts w)))"
    by (simp add: unprompted_no_ask)
  moreover have "resolvePlatforms cfg usr opts False w = (Returned [''opencode'', ''copilot''], w)"
    using assms by (simp add: resolvePlatforms_def ret_def)
  moreover have "install cfg usr opts w
           = installPlatforms cfg usr opts False [''opencode'', ''copilot'']
               (w\<lparr>trace := trace w @ [Intro '' nudge '']\<rparr>)"
    using assms by (simp add: resolvePlatforms_def install_def ret_def andThen_def emit_def)
  ultimately show ?thesis by blast
qed

theorem noninteractive_defaults_to_both_witness:
  "resolvePlatforms example_config (cancels_at PlatformChoice) (no_options\<lparr>tui := Some False\<rparr>)
     False fresh_world = (Returned [''opencode'', ''copilot''], fresh_world)
   \<and> Asked PlatformChoice
       \<notin> set (events_since fresh_world
            (snd (install example_config (cancels_at PlatformChoice)
                    (no_options\<lparr>tui := Some False\<rparr>) fresh_world)))"
proof -
  let ?opts = "no_options\<lparr>tui := Some False\<rparr>"
  have a: "tui ?opts = Some False" by simp
  have b: "\<not> all ?opts" "\<not> opencode ?opts" "\<not> copilot ?opts" by (simp_all add: no_options_def)
  from noninteractive_defaults_to_both [OF a b, of example_config "cancels_at PlatformChoice"
      fresh_world]
  show ?thesis by blast
qed

subsection \<open>C10\<close>

text \<open>
  C10, as stated: a pre-supplied color that fails the hex-color validation aborts the
  install with \<^verbatim>\<open>return false\<close> whenever \<^verbatim>\<open>options.color\<close> is set, with no fallback to
  the color menu, the error coming after the overwrite and model prompts. Not always.
  The empty string fails the validation, but \<^verbatim>\<open>!options.color\<close> takes it for no color:
  in an interactive run the color menu is shown and the color picked there is
  installed. And the directories come first (lines 45-53): in \<open>blocked_world\<close>, where
  \<^verbatim>\<open>.config\<close> is a regular file, \<^verbatim>\<open>mkdirSync\<close> throws \<^verbatim>\<open>ENOTDIR\<close> before any prompt;
  the installer does not return \<^verbatim>\<open>false\<close> and no error is logged.
\<close>

theorem invalid_color_not_always_aborting:
  "\<not> isValidHexColor example_config []
   \<and> Asked ColorChoice
       \<in> set (events_since fresh_world
            (snd (installOpenCode example_config picks_presets
                    (no_options\<lparr>color := Some []\<rparr>) True fresh_world)))
   \<and> fst (installOpenCode example_config picks_presets
            (no_options\<lparr>color := Some []\<rparr>) True fresh_world)
       = Returned (Some (''anthropic/claude-sonnet-4'', ''#3B82F6''))
   \<and> \<not> isValidHexColor example_config ''red''
   \<and> installOpenCode example_config picks_presets
            (no_options\<lparr>color := Some ''red''\<rparr>) True blocked_world
       = (Threw ''ENOTDIR'',
          blocked_world\<lparr>trace := [LogInfo ''Creating OpenCode config directory...'']\<rparr>)"
  by (simp add: example_defs picks_presets_def)

text \<open>
  C10, amended: the interactive flag is true and the pre-supplied color is a non-empty
  string that is not a hex color. Then \<open>installOpenCode\<close> never installs: no file
  changes, nothing is written, and neither the color menu nor the custom color entry is
  shown. If no regular file stands at a proper prefix of the path of the OpenCode agents
  directory, the run ends in one of three ways. Either it returns \<^verbatim>\<open>false\<close> with the
  error as its last event, after the overwrite confirmation (asked when the target
  exists, and answered yes) and the model menu (shown when no model was pre-supplied);
  or it returns \<^verbatim>\<open>false\<close> without the error, because a prompt shown before was
  cancelled or answered no; or it is still waiting at a prompt, without the error. If a
  regular file stands at such a prefix, the installer throws \<^verbatim>\<open>ENOTDIR\<close>, with the file
  tree as it was, no prompt shown and no error logged.
\<close>

theorem invalid_color_interactive:
  assumes col: "color opts = Some c" "c \<noteq> []" and bad: "\<not> isValidHexColor cfg c"
    and run: "installOpenCode cfg usr opts True w = (r, w')"
  shows "files w' = files w
    \<and> (\<forall>p x. WriteFile p x \<notin> set (events_since w w'))
    \<and> Asked ColorChoice \<notin> set (events_since w w')
    \<and> Asked CustomColor \<notin> set (events_since w w')
    \<and> (\<not> blocked (root w) (OPENCODE_AGENTS_DIR cfg) \<longrightarrow>
         (r = Returned None
          \<and> (\<exists>pre. events_since w w'
                      = pre @ [LogError (''Invalid hex color: '' @ c @ ''. Use format #RRGGBB'')]
                \<and> (\<forall>m. LogError m \<notin> set pre)
                \<and> (existsSync (OPENCODE_LEARN_AGENT_PATH cfg) w \<longrightarrow>
                      Asked OverwriteOpenCode \<in> set pre \<and> usr OverwriteOpenCode = Says True)
                \<and> (\<not> truthy (model opts) \<longrightarrow> Asked ModelChoice \<in> set pre)))
        \<or> (r = Returned None
          \<and> (\<forall>m. LogError m \<notin> set (events_since w w'))
          \<and> (\<exists>s. Asked s \<in> set (events_since w w') \<and> (usr s = Cancels \<or> usr s = Says False)))
        \<or> (\<exists>s. r = Waiting s \<and> Asked s \<in> set (events_since w w')
              \<and> (\<forall>m. LogError m \<notin> set (events_since w w'))))
    \<and> (blocked (root w) (OPENCODE_AGENTS_DIR cfg) \<longrightarrow>
         r = Threw ''ENOTDIR'' \<and> root w' = root w
         \<and> (\<forall>s. Asked s \<notin> set (events_since w w'))
         \<and> (\<forall>m. LogError m \<notin> set (events_since w w')))"
proof -
  let ?t = "OPENCODE_LEARN_AGENT_PATH cfg"
  let ?msg = "LogError (''Invalid hex color: '' @ c @ ''. Use format #RRGGBB'')"
  let ?three = "(r = Returned None
          \<and> (\<exists>pre. events_since w w' = pre @ [?msg]
                \<and> (\<forall>m. LogError m \<notin> set pre)
                \<and> (existsSync ?t w \<longrightarrow>
                      Asked OverwriteOpenCode \<in> set pre \<and> usr OverwriteOpenCode = Says True)
                \<and> (\<not> truthy (model opts) \<longrightarrow> Asked ModelChoice \<in> set pre)))
        \<or> (r = Returned None
          \<and> (\<forall>m. LogError m \<notin> set (events_since w w'))
          \<and> (\<exists>s. Asked s \<in> set (events_since w w') \<and> (usr s = Cancels \<or> usr s = Says False)))
        \<or> (\<exists>s. r = Waiting s \<and> Asked s \<in> set (events_since w w')
              \<and> (\<forall>m. LogError m \<notin> set (events_since w w')))"
  have tr: "truthy (color opts)" and oe: "or_else (color opts) [] = c"
    using col by (simp_all add: truthy_def or_else_def)
  have inv: "\<not> isValidHexColor cfg (or_else (color opts) [])" using bad oe by simp
  from run show ?thesis
  proof (cases rule: installOpenCode_run)
    case (dirs_threw es)
    have ev: "events_since w w' = es" using dirs_threw(3) by (simp add: events_since_def)
    have "files w' = files w" using files_cong [of w' w] dirs_threw(3) by simp
    moreover have "root w' = root w" using dirs_threw(3) by simp
    moreover have "\<forall>p x. WriteFile p x \<notin> set es" "\<forall>s. Asked s \<notin> set es"
      "\<forall>m. LogError m \<notin> set es"
      using dirs_threw(4) by auto
    ultimately show ?thesis unfolding ev using dirs_threw(1,2) by simp
  next
    case (stop_existing w1 g)
    from stop_existing(1) obtain es1 where free: "\<not> blocked (root w) (OPENCODE_AGENTS_DIR cfg)"
      and b1: "bytes w1 = bytes w" and t1: "trace w1 = trace w @ es1"
      and e1: "set es1 \<subseteq> {LogInfo ''Creating OpenCode config directory...'',
                     Mkdir (OPENCODE_CONFIG_DIR cfg), Mkdir (OPENCODE_AGENTS_DIR cfg)}"
      by (rule ensureOpenCodeDirs_returned)
    have f1: "files w1 = files w" using b1 by (rule files_bytes)
    have n1: "\<forall>p x. WriteFile p x \<notin> set es1" "\<forall>s. Asked s \<notin> set es1" "\<forall>m. LogError m \<notin> set es1"
      using e1 by auto
    from checkExisting_stopped' [OF stop_existing(2,3)]
    have fs': "root w' = root w1"
      and d: "(g = Returned False \<and> (usr OverwriteOpenCode = Cancels \<or> usr OverwriteOpenCode = Says False)
            \<and> trace w' = trace w1 @ [Asked OverwriteOpenCode, LogWarning ''Skipping OpenCode installation.''])
          \<or> (g = Waiting OverwriteOpenCode \<and> trace w' = trace w1 @ [Asked OverwriteOpenCode])"
      by auto
    have files': "files w' = files w" using files_cong [OF fs'] f1 by simp
    from d have "files w' = files w
        \<and> (\<forall>p x. WriteFile p x \<notin> set (events_since w w'))
        \<and> Asked ColorChoice \<notin> set (events_since w w')
        \<and> Asked CustomColor \<notin> set (events_since w w') \<and> ?three"
    proof
      assume a: "g = Returned False \<and> (usr OverwriteOpenCode = Cancels \<or> usr OverwriteOpenCode = Says False)
            \<and> trace w' = trace w1 @ [Asked OverwriteOpenCode, LogWarning ''Skipping OpenCode installation.'']"
      then have ev: "events_since w w' = es1 @ [Asked OverwriteOpenCode, LogWarning ''Skipping OpenCode installation.'']"
        using t1 by (simp add: events_since_def)
      have r: "r = Returned None" using a stop_existing(4) by (simp add: halt_def)
      have "\<exists>s. Asked s \<in> set (events_since w w') \<and> (usr s = Cancels \<or> usr s = Says False)"
        unfolding ev using a by (intro exI [of _ OverwriteOpenCode]) simp
      then show ?thesis using files' r n1 unfolding ev by auto
    next
      assume a: "g = Waiting OverwriteOpenCode \<and> trace w' = trace w1 @ [Asked OverwriteOpenCode]"
      then have ev: "events_since w w' = es1 @ [Asked OverwriteOpenCode]"
        using t1 by (simp add: events_since_def)
      have r: "r = Waiting OverwriteOpenCode" using a stop_existing(4) by (simp add: halt_def)
      show ?thesis using files' r n1 unfolding ev by auto
    qed
    with free show ?thesis by blast
  next
    case (stop_model w1 w2 g)
    from stop_model(1) obtain es1 where free: "\<not> blocked (root w) (OPENCODE_AGENTS_DIR cfg)"
      and b1: "bytes w1 = bytes w" and t1: "trace w1 = trace w @ es1"
      and e1: "set es1 \<subseteq> {LogInfo ''Creating OpenCode config directory...'',
                     Mkdir (OPENCODE_CONFIG_DIR cfg), Mkdir (OPENCODE_AGENTS_DIR cfg)}"
      by (rule ensureOpenCodeDirs_returned)
    have f1: "files w1 = files w" using b1 by (rule files_bytes)
    have n1: "\<forall>p x. WriteFile p x \<notin> set es1" "\<forall>s. Asked s \<notin> set es1" "\<forall>m. LogError m \<notin> set es1"
      using e1 by auto
    from checkExisting_passed [OF stop_model(2)] obtain es2 where
      s2: "root w2 = root w1" "trace w2 = trace w1 @ es2"
        "es2 = (if existsSync ?t w1 then [Asked OverwriteOpenCode] else [])"
      by auto
    from chooseModel_stopped [OF stop_model(3,4)] obtain es3 where
      s3: "root w' = root w2" "trace w' = trace w2 @ es3"
        "set es3 \<subseteq> {Asked ModelChoice, Asked CustomModel}"
        "(g = Returned None \<and> (\<exists>s. Asked s \<in> set es3 \<and> usr s = Cancels))
                \<or> (\<exists>s. g = Waiting s \<and> Asked s \<in> set es3)"
      by auto
    have files': "files w' = files w"
      using files_cong [OF s3(1)] files_cong [OF s2(1)] f1 by simp
    have ev: "events_since w w' = es1 @ es2 @ es3"
      using t1 s2 s3 by (simp add: events_since_def)
    have n: "\<forall>p x. WriteFile p x \<notin> set (es1 @ es2 @ es3)"
      "Asked ColorChoice \<notin> set (es1 @ es2 @ es3)" "Asked CustomColor \<notin> set (es1 @ es2 @ es3)"
      "\<forall>m. LogError m \<notin> set (es1 @ es2 @ es3)"
      using n1 s2(3) s3(3) by auto
    from s3(4) have "(r = Returned None \<and> (\<exists>s. Asked s \<in> set (es1 @ es2 @ es3) \<and> (usr s = Cancels \<or> usr s = Says False)))
        \<or> (\<exists>s. r = Waiting s \<and> Asked s \<in> set (es1 @ es2 @ es3))"
      using stop_model(5) by (auto simp: halt_def)
    then show ?thesis unfolding ev using files' n free by blast
  next
    case (stop_color w1 w2 w3 m g)
    from stop_color(1) obtain es1 where free: "\<not> blocked (root w) (OPENCODE_AGENTS_DIR cfg)"
      and b1: "bytes w1 = bytes w" and t1: "trace w1 = trace w @ es1"
      and e1: "set es1 \<subseteq> {LogInfo ''Creating OpenCode config directory...'',
                     Mkdir (OPENCODE_CONFIG_DIR cfg), Mkdir (OPENCODE_AGENTS_DIR cfg)}"
      and x1: "\<forall>p. existsSync p w \<longrightarrow> existsSync p w1"
      by (rule ensureOpenCodeDirs_returned)
    have f1: "files w1 = files w" using b1 by (rule files_bytes)
    have n1: "\<forall>p x. WriteFile p x \<notin> set es1" "\<forall>s. Asked s \<notin> set es1" "\<forall>m. LogError m \<notin> set es1"
      using e1 by auto
    from checkExisting_passed [OF stop_color(2)] obtain es2 where
      s2: "root w2 = root w1" "trace w2 = trace w1 @ es2"
        "es2 = (if existsSync ?t w1 then [Asked OverwriteOpenCode] else [])"
        "existsSync ?t w1 \<longrightarrow> usr OverwriteOpenCode = Says True"
      by auto
    from chooseModel_passed [OF stop_color(3)] obtain es3 where
      s3: "root w3 = root w2" "trace w3 = trace w2 @ es3"
        "set es3 \<subseteq> {Asked ModelChoice, Asked CustomModel}"
        "\<not> truthy (model opts) \<longrightarrow> Asked ModelChoice \<in> set es3"
      by auto
    from stop_color(4) have g: "g = Returned None" and s4: "root w' = root w3" "trace w' = trace w3 @ [?msg]"
      by (auto simp: chooseColor_invalid [OF tr inv] oe)
    have files': "files w' = files w"
      using files_cong [OF s4(1)] files_cong [OF s3(1)] files_cong [OF s2(1)] f1 by simp
    have ev: "events_since w w' = (es1 @ es2 @ es3) @ [?msg]"
      using t1 s2 s3 s4 by (simp add: events_since_def)
    have r: "r = Returned None" using g stop_color(6) by (simp add: halt_def)
    have n: "\<forall>p x. WriteFile p x \<notin> set (es1 @ es2 @ es3)"
      "Asked ColorChoice \<notin> set (es1 @ es2 @ es3)" "Asked CustomColor \<notin> set (es1 @ es2 @ es3)"
      "\<forall>m. LogError m \<notin> set (es1 @ es2 @ es3)"
      using n1 s2(3) s3(3) by auto
    have p1: "existsSync ?t w \<longrightarrow> Asked OverwriteOpenCode \<in> set (es1 @ es2 @ es3) \<and> usr OverwriteOpenCode = Says True"
      using x1 s2(3,4) by auto
    have p2: "\<not> truthy (model opts) \<longrightarrow> Asked ModelChoice \<in> set (es1 @ es2 @ es3)"
      using s3(4) by auto
    have first: "r = Returned None
          \<and> (\<exists>pre. events_since w w' = pre @ [?msg]
                \<and> (\<forall>m. LogError m \<notin> set pre)
                \<and> (existsSync ?t w \<longrightarrow>
                      Asked OverwriteOpenCode \<in> set pre \<and> usr OverwriteOpenCode = Says True)
                \<and> (\<not> truthy (model opts) \<longrightarrow> Asked ModelChoice \<in> set pre))"
      using r ev n(4) p1 p2 by blast
    have "\<forall>p x. WriteFile p x \<notin> set (events_since w w')"
      "Asked ColorChoice \<notin> set (events_since w w')" "Asked CustomColor \<notin> set (events_since w w')"
      unfolding ev using n by auto
    with files' first free show ?thesis by blast
  next
    case (reached_write w1 w2 w3 w4 m c')
    from reached_write(4) show ?thesis
      by (simp add: chooseColor_invalid [OF tr inv])
  qed
qed

text \<open>
  The color \<^verbatim>\<open>red\<close> with prompts: with both agent files in place the overwrite is
  confirmed and the error reported; with \<^verbatim>\<open>.config\<close> a regular file the installer
  throws.
\<close>

theorem invalid_color_interactive_witness:
  "fst (installOpenCode example_config (cancels_at ColorChoice)
          (no_options\<lparr>model := Some ''a/b'', color := Some ''red''\<rparr>) True installed_world) = Returned None
   \<and> LogError ''Invalid hex color: red. Use format #RRGGBB''
       \<in> set (events_since installed_world
            (snd (installOpenCode example_config (cancels_at ColorChoice)
                    (no_options\<lparr>model := Some ''a/b'', color := Some ''red''\<rparr>) True installed_world)))
   \<and> files (snd (installOpenCode example_config (cancels_at ColorChoice)
              (no_options\<lparr>model := Some ''a/b'', color := Some ''red''\<rparr>) True installed_world))
       = files installed_world
   \<and> fst (installOpenCode example_config (cancels_at ColorChoice)
          (no_options\<lparr>model := Some ''a/b'', color := Some ''red''\<rparr>) True blocked_world)
       = Threw ''ENOTDIR''"
proof -
  let ?opts = "no_options\<lparr>model := Some ''a/b'', color := Some ''red''\<rparr>"
  let ?run = "installOpenCode example_config (cancels_at ColorChoice) ?opts True installed_world"
  let ?run' = "installOpenCode example_config (cancels_at ColorChoice) ?opts True blocked_world"
  have c: "color ?opts = Some ''red''" by simp
  have n: "''red'' \<noteq> []" by simp
  have b: "\<not> isValidHexColor example_config ''red''"
    by (simp add: example_config_def isValidHexColor_spec_def)
  have free: "\<not> blocked (root installed_world) (OPENCODE_AGENTS_DIR example_config)"
    by (simp add: example_defs)
  have stuck: "blocked (root blocked_world) (OPENCODE_AGENTS_DIR example_config)"
    by (simp add: example_defs)
  have answered: "\<forall>s. Asked s \<in> set (events_since installed_world (snd ?run))
      \<longrightarrow> cancels_at ColorChoice s \<noteq> Cancels \<and> cancels_at ColorChoice s \<noteq> Says False"
    by (simp add: example_defs)
  have returned: "\<forall>s. fst ?run \<noteq> Waiting s"
    by (simp add: example_defs)
  note inst = invalid_color_interactive [OF c n b installOpenCode_pair]
  from inst [THEN conjunct1] have files': "files (snd ?run) = files installed_world" .
  from inst [THEN conjunct2, THEN conjunct2, THEN conjunct2, THEN conjunct2, THEN conjunct1,
      THEN mp, OF free] answered returned
  have "fst ?run = Returned None
      \<and> (\<exists>pre. events_since installed_world (snd ?run)
                  = pre @ [LogError (''Invalid hex color: '' @ ''red'' @ ''. Use format #RRGGBB'')])"
    by blast
  then have reported: "fst ?run = Returned None
      \<and> LogError ''Invalid hex color: red. Use format #RRGGBB''
          \<in> set (events_since installed_world (snd ?run))"
    by auto
  from invalid_color_interactive [OF c n b installOpenCode_pair, THEN conjunct2, THEN conjunct2,
      THEN conjunct2, THEN conjunct2, THEN conjunct2, THEN mp, OF stuck]
  have threw: "fst ?run' = Threw ''ENOTDIR''" by (rule conjunct1)
  from reported files' threw show ?thesis by blast
qed

end
